theory Spec2Isabelle
  imports
    Complex_Main
    "HOL-Library.Char_ord"
    "HOL-Library.List_Lexorder"
    "HOL-Library.Product_Lexorder"
    "HOL-Library.Option_ord"
begin

section \<open>DataLineage: a shallow embedding of the commit engine and its preprocessing\<close>

text \<open>
  The development follows the Python sources \<^verbatim>\<open>src/preprocess.py\<close>, \<^verbatim>\<open>src/hasher.py\<close>,
  \<^verbatim>\<open>src/repo.py\<close>, \<^verbatim>\<open>src/commit_service.py\<close>, \<^verbatim>\<open>src/diff_service.py\<close>, \<^verbatim>\<open>src/io_loader.py\<close>
  and the checkout flow of \<^verbatim>\<open>app.py\<close>.

  Conventions of the embedding.
  \<^item> A Python \<^verbatim>\<open>str\<close> is a \<^typ>\<open>string\<close>; a \<^typ>\<open>char\<close> stands for the code point of the same
    number, so the text covered is U+0000 to U+00FF. On that range \<^verbatim>\<open>str.isspace\<close>,
    \<^verbatim>\<open>str.lower\<close>, \<^verbatim>\<open>str.isalnum\<close> and the regular-expression classes \<^verbatim>\<open>\s\<close> and \<^verbatim>\<open>\d\<close> are
    written out below as CPython defines them.
  \<^item> \<^verbatim>\<open>bytes\<close> is a list of octets, also of type \<^typ>\<open>string\<close>.
  \<^item> Functions of libraries outside the repository (Unicode normalisation, number parsing
    and printing, SHA-256, the JSON codec, the reading and writing of text files, the CSV
    reader) are not defined here: they are the fields of a record \<open>pylib\<close> that every
    operation receives as its first argument. The clock's reading is an argument too.
  \<^item> A leading underscore of a Python name is dropped, since an Isabelle name cannot
    start with one (\<^verbatim>\<open>_persist_version\<close> is \<open>persist_version\<close>).
  \<^item> An exception is a value \<open>Inl e\<close> of a sum type; \<open>Inr x\<close> is a normal return.
\<close>

subsection \<open>Exceptions\<close>

datatype error =
    TypeError
  | ValueError
  | AttributeError
  | UnicodeDecodeError
  | JSONDecodeError
  | RecursionError
  | FileNotFoundError
  | FileExistsError
  | RepositoryNotInitializedError
  | NotModelled   \<comment> \<open>the call leaves the part of pandas that the embedding covers\<close>
  | ValidationError string
  | DataLineageError string

text \<open>\<^verbatim>\<open>except ValueError\<close> also catches the two subclasses of \<^verbatim>\<open>ValueError\<close>.\<close>

definition is_value_error :: "error \<Rightarrow> bool" where
  "is_value_error e = (e = ValueError \<or> e = UnicodeDecodeError \<or> e = JSONDecodeError)"

subsection \<open>Python strings\<close>

definition py_isspace :: "char \<Rightarrow> bool" where
  "py_isspace c = (let n = (of_char c :: nat) in
     (9 \<le> n \<and> n \<le> 13) \<or> (28 \<le> n \<and> n \<le> 32) \<or> n = 133 \<or> n = 160)"

definition py_isdecimal :: "char \<Rightarrow> bool" where
  "py_isdecimal c = (let n = (of_char c :: nat) in 48 \<le> n \<and> n \<le> 57)"

definition ascii_lower :: "char \<Rightarrow> bool" where
  "ascii_lower c = (let n = (of_char c :: nat) in 97 \<le> n \<and> n \<le> 122)"

definition py_isalnum :: "char \<Rightarrow> bool" where
  "py_isalnum c = (let n = (of_char c :: nat) in
     (48 \<le> n \<and> n \<le> 57) \<or> (65 \<le> n \<and> n \<le> 90) \<or> (97 \<le> n \<and> n \<le> 122) \<or>
     n = 170 \<or> n = 178 \<or> n = 179 \<or> n = 181 \<or> n = 185 \<or> n = 186 \<or>
     (188 \<le> n \<and> n \<le> 190) \<or> (192 \<le> n \<and> n \<le> 214) \<or> (216 \<le> n \<and> n \<le> 246) \<or>
     (248 \<le> n \<and> n \<le> 255))"

definition py_lower_char :: "char \<Rightarrow> char" where
  "py_lower_char c = (let n = (of_char c :: nat) in
     if (65 \<le> n \<and> n \<le> 90) \<or> (192 \<le> n \<and> n \<le> 222 \<and> n \<noteq> 215)
     then char_of (n + 32) else c)"

definition py_lower :: "string \<Rightarrow> string" where
  "py_lower s = map py_lower_char s"

definition py_strip :: "string \<Rightarrow> string" where
  "py_strip s = rev (dropWhile py_isspace (rev (dropWhile py_isspace s)))"

definition py_startswith :: "string \<Rightarrow> string \<Rightarrow> bool" where
  "py_startswith s p = (take (length p) s = p)"

text \<open>\<^verbatim>\<open>str.replace(",", "", regex=False)\<close>: every comma is deleted.\<close>

definition remove_commas :: "string \<Rightarrow> string" where
  "remove_commas s = filter (\<lambda>c. c \<noteq> CHR '','') s"

subsection \<open>The regular expressions of \<^verbatim>\<open>preprocess.py\<close>\<close>

text \<open>\<^verbatim>\<open>re.sub(r"[^a-z0-9\s]", " ", text)\<close>: a character outside the class is
  replaced by one space; the others stay where they are.\<close>

definition in_keep_class :: "char \<Rightarrow> bool" where
  "in_keep_class c = (ascii_lower c \<or> py_isdecimal c \<or> py_isspace c)"

definition sub_punctuation :: "string \<Rightarrow> string" where
  "sub_punctuation s = map (\<lambda>c. if in_keep_class c then c else CHR '' '') s"

text \<open>\<^verbatim>\<open>re.sub(r"\s+", " ", text)\<close>: each maximal run of white space becomes one space.
  The flag says that the previous character belonged to a run already replaced.\<close>

fun sub_spaces_from :: "bool \<Rightarrow> string \<Rightarrow> string" where
  "sub_spaces_from in_run [] = []"
| "sub_spaces_from in_run (c # cs) =
     (if py_isspace c
      then (if in_run then sub_spaces_from True cs else CHR '' '' # sub_spaces_from True cs)
      else c # sub_spaces_from False cs)"

definition sub_spaces :: "string \<Rightarrow> string" where
  "sub_spaces s = sub_spaces_from False s"

text \<open>\<^verbatim>\<open>re.sub(r"https?://\S+|www\.\S+", " ", text)\<close>. A match starts where the text
  reads \<^verbatim>\<open>http://\<close>, \<^verbatim>\<open>https://\<close> or \<^verbatim>\<open>www.\<close> followed by a character that is not white space;
  \<^verbatim>\<open>\S+\<close> is greedy, and the prefix has no white space, so the match is the whole run of
  characters up to the next white space (or the end). The flag says that the scan is
  inside a match.\<close>

definition url_prefix_at :: "string \<Rightarrow> string \<Rightarrow> bool" where
  "url_prefix_at p s =
     (py_startswith s p \<and> (case drop (length p) s of [] \<Rightarrow> False | c # _ \<Rightarrow> \<not> py_isspace c))"

definition url_starts :: "string \<Rightarrow> bool" where
  "url_starts s = (url_prefix_at ''http://'' s \<or> url_prefix_at ''https://'' s \<or> url_prefix_at ''www.'' s)"

fun sub_urls_from :: "bool \<Rightarrow> string \<Rightarrow> string" where
  "sub_urls_from in_match [] = []"
| "sub_urls_from in_match (c # cs) =
     (if in_match
      then (if py_isspace c then c # sub_urls_from False cs else sub_urls_from True cs)
      else (if url_starts (c # cs) then CHR '' '' # sub_urls_from True cs
            else c # sub_urls_from False cs))"

definition sub_urls :: "string \<Rightarrow> string" where
  "sub_urls s = sub_urls_from False s"

text \<open>\<^verbatim>\<open>^-?\d+(\.\d+)?$\<close>, matched against a string that \<^verbatim>\<open>strip\<close> has already freed of a
  trailing line break (so \<^verbatim>\<open>$\<close> is the end of the string).\<close>

definition all_digits1 :: "string \<Rightarrow> bool" where
  "all_digits1 s = (s \<noteq> [] \<and> list_all py_isdecimal s)"

definition unsigned_numeric :: "string \<Rightarrow> bool" where
  "unsigned_numeric s =
     (let ds = takeWhile py_isdecimal s; r = dropWhile py_isdecimal s
      in ds \<noteq> [] \<and> (case r of [] \<Rightarrow> True | c # fs \<Rightarrow> c = CHR ''.'' \<and> all_digits1 fs))"

definition numeric_pattern :: "string \<Rightarrow> bool" where
  "numeric_pattern s = (case s of [] \<Rightarrow> False
     | c # cs \<Rightarrow> if c = CHR ''-'' then unsigned_numeric cs else unsigned_numeric s)"

subsection \<open>JSON values and configurations\<close>

text \<open>What \<^verbatim>\<open>json.loads\<close> returns: \<^verbatim>\<open>None\<close>, a \<^verbatim>\<open>bool\<close>, a number, a \<^verbatim>\<open>str\<close>, a \<^verbatim>\<open>list\<close>
  or a \<^verbatim>\<open>dict\<close> with string keys, kept in insertion order. A number is a rational:
  every integer and every finite binary64 value is one (infinities are not covered).\<close>

datatype json =
    JNull
  | JBool bool
  | JNum rat
  | JStr string
  | JList "json list"
  | JObj "(string \<times> json) list"

text \<open>\<^verbatim>\<open>bool(x)\<close>.\<close>

fun truthy :: "json \<Rightarrow> bool" where
  "truthy JNull = False"
| "truthy (JBool b) = b"
| "truthy (JNum n) = (n \<noteq> 0)"
| "truthy (JStr s) = (s \<noteq> [])"
| "truthy (JList xs) = (xs \<noteq> [])"
| "truthy (JObj kvs) = (kvs \<noteq> [])"

subsection \<open>Tables\<close>

text \<open>A \<^verbatim>\<open>pandas.DataFrame\<close> as \<^verbatim>\<open>pd.read_csv\<close> builds it: every column has a label and a
  dtype, every row has an index label and one cell per column. A dtype is text (\<^verbatim>\<open>object\<close> or
  \<^verbatim>\<open>string\<close>), numeric, or boolean; a numeric dtype carries its NumPy name (\<^verbatim>\<open>int64\<close>,
  \<^verbatim>\<open>float64\<close>), since pandas prints the numbers of a column by its dtype: 1 is \<^verbatim>\<open>1\<close> in an
  \<^verbatim>\<open>int64\<close> column and \<^verbatim>\<open>1.0\<close> in a \<^verbatim>\<open>float64\<close> column. A missing value (\<^verbatim>\<open>NaN\<close>, \<^verbatim>\<open>None\<close>,
  \<^verbatim>\<open>pd.NA\<close>) is \<open>Null\<close>.\<close>

datatype dtype = ObjectT | NumberT string | BoolT

definition is_number :: "dtype \<Rightarrow> bool" where
  "is_number t = (case t of NumberT _ \<Rightarrow> True | _ \<Rightarrow> False)"

datatype cell = Null | Text string | Num rat | Flag bool

record dataframe =
  columns :: "(string \<times> dtype) list"
  rows :: "(nat \<times> cell list) list"

text \<open>The libraries outside the repository.\<close>

record pylib =
  nfkc :: "string \<Rightarrow> string"                \<comment> \<open>\<^verbatim>\<open>unicodedata.normalize("NFKC", s)\<close>\<close>
  to_numeric :: "string \<Rightarrow> rat option"       \<comment> \<open>\<^verbatim>\<open>pd.to_numeric(errors="coerce")\<close> of one value, \<open>None\<close> for NaN\<close>
  to_numeric_dtype :: "string list \<Rightarrow> string"
    \<comment> \<open>the name of the dtype of the series that \<^verbatim>\<open>pd.to_numeric(errors="coerce")\<close> returns for
        a column of these texts\<close>
  num_str :: "dtype \<Rightarrow> rat \<Rightarrow> string"
    \<comment> \<open>\<^verbatim>\<open>str(x)\<close> of a number: of a value of a column of this dtype, of a Python number for
        \<open>ObjectT\<close>\<close>
  num_csv :: "dtype \<Rightarrow> rat \<Rightarrow> string"
    \<comment> \<open>the text of a number in a CSV cell of a column of this dtype\<close>
  na_str :: "string"                          \<comment> \<open>\<^verbatim>\<open>str(x)\<close> of a missing value\<close>
  json_str :: "json \<Rightarrow> string"               \<comment> \<open>\<^verbatim>\<open>str(x)\<close> of a list or a dict\<close>
  sha256_hex :: "string \<Rightarrow> string"          \<comment> \<open>\<^verbatim>\<open>hashlib.sha256(b).hexdigest()\<close>\<close>
  json_dumps :: "bool \<Rightarrow> bool \<Rightarrow> json \<Rightarrow> string"
    \<comment> \<open>\<^verbatim>\<open>json.dumps(x, ensure_ascii=False, ...)\<close>: the first flag is \<^verbatim>\<open>sort_keys\<close>, the second
        chooses \<^verbatim>\<open>indent=2\<close> (true) or \<^verbatim>\<open>separators=(",", ":")\<close> (false)\<close>
  json_loads :: "string \<Rightarrow> error + json"
    \<comment> \<open>\<^verbatim>\<open>json.loads\<close>: the value, or the exception raised (\<^verbatim>\<open>JSONDecodeError\<close> for a text that
        is not JSON; \<^verbatim>\<open>RecursionError\<close> and \<^verbatim>\<open>ValueError\<close> occur too)\<close>
  csv_record :: "string list \<Rightarrow> string"
    \<comment> \<open>the text that \<^verbatim>\<open>csv.writer\<close> (comma, minimal quoting) gives one record, without its
        line terminator\<close>
  text_decode :: "string \<Rightarrow> string option"
    \<comment> \<open>the text that \<^verbatim>\<open>Path.read_text(encoding="utf-8")\<close> returns for a file of these bytes,
        \<open>None\<close> for \<^verbatim>\<open>UnicodeDecodeError\<close>\<close>
  text_encode :: "string \<Rightarrow> string"
    \<comment> \<open>the bytes that \<^verbatim>\<open>Path.write_text(s, encoding="utf-8")\<close> writes\<close>
  read_csv :: "string \<Rightarrow> error + dataframe"  \<comment> \<open>\<^verbatim>\<open>pd.read_csv\<close> of a file's bytes\<close>
  read_json :: "bool \<Rightarrow> string \<Rightarrow> error + dataframe"
    \<comment> \<open>\<^verbatim>\<open>pd.read_json\<close> of a file's bytes; the flag is \<^verbatim>\<open>lines\<close>\<close>
  path_str :: "string \<Rightarrow> string"            \<comment> \<open>\<^verbatim>\<open>str(Path(p))\<close>\<close>
  path_name :: "string \<Rightarrow> string"           \<comment> \<open>\<^verbatim>\<open>Path(p).name\<close>\<close>
  path_suffix :: "string \<Rightarrow> string"         \<comment> \<open>\<^verbatim>\<open>Path(p).suffix\<close>\<close>

text \<open>\<^verbatim>\<open>str(x)\<close> of a JSON value.\<close>

definition py_str :: "pylib \<Rightarrow> json \<Rightarrow> string" where
  "py_str L v = (case v of
       JNull \<Rightarrow> ''None''
     | JBool b \<Rightarrow> (if b then ''True'' else ''False'')
     | JNum n \<Rightarrow> num_str L ObjectT n
     | JStr s \<Rightarrow> s
     | _ \<Rightarrow> json_str L v)"

text \<open>A dictionary read as a lookup function: a later binding of a key replaces an earlier
  one, so \<^verbatim>\<open>{**a, **b}\<close> is \<open>dict_of a ++ dict_of b\<close>.\<close>

definition dict_of :: "(string \<times> 'v) list \<Rightarrow> (string \<rightharpoonup> 'v)" where
  "dict_of kvs = map_of (rev kvs)"

text \<open>\<^verbatim>\<open>config.get(key, default)\<close> and \<^verbatim>\<open>bool(config.get(key, default))\<close>.\<close>

definition cfg_get :: "(string \<rightharpoonup> 'v) \<Rightarrow> string \<Rightarrow> 'v \<Rightarrow> 'v" where
  "cfg_get m k d = (case m k of None \<Rightarrow> d | Some v \<Rightarrow> v)"

definition cfg_bool :: "(string \<rightharpoonup> json) \<Rightarrow> string \<Rightarrow> bool \<Rightarrow> bool" where
  "cfg_bool m k d = truthy (cfg_get m k (JBool d))"

definition get_default_preprocess_config :: "(string \<times> json) list" where
  "get_default_preprocess_config =
     [(''drop_nulls'', JBool True),
      (''drop_duplicates'', JBool True),
      (''cleanup_text'', JBool True),
      (''strip_text'', JBool True),
      (''lowercase_text'', JBool True),
      (''remove_punctuation'', JBool True),
      (''collapse_spaces'', JBool True),
      (''normalize_unicode'', JBool True),
      (''remove_urls'', JBool False),
      (''coerce_numeric_columns'', JBool True),
      (''null_strategy'', JStr ''drop_any''),
      (''null_fill_text'', JStr []),
      (''null_fill_numeric'', JNum 0),
      (''sort_rows'', JBool True)]"

subsection \<open>Per-cell text cleanup (\<^verbatim>\<open>_cleanup_text\<close> and \<^verbatim>\<open>_cleanup_text_with_config\<close>)\<close>

definition cleanup_text :: "pylib \<Rightarrow> string \<Rightarrow> string" where
  "cleanup_text L v =
     (let text = v;
          text = nfkc L text;
          text = py_lower (py_strip text);
          text = sub_punctuation text;
          text = py_strip (sub_spaces text)
      in text)"

definition cleanup_text_with_config ::
  "pylib \<Rightarrow> string \<Rightarrow> (string \<rightharpoonup> json) \<Rightarrow> string" where
  "cleanup_text_with_config L v config =
     (let text = v;
          text = (if cfg_bool config ''normalize_unicode'' True then nfkc L text else text);
          text = (if cfg_bool config ''strip_text'' True then py_strip text else text);
          text = (if cfg_bool config ''remove_urls'' False then sub_urls text else text);
          text = (if cfg_bool config ''lowercase_text'' True then py_lower text else text);
          text = (if cfg_bool config ''remove_punctuation'' True then sub_punctuation text else text);
          text = (if cfg_bool config ''collapse_spaces'' True then sub_spaces text else text)
      in py_strip text)"


subsection \<open>Exceptions as values\<close>

definition bind_err :: "error + 'a \<Rightarrow> ('a \<Rightarrow> error + 'b) \<Rightarrow> error + 'b" where
  "bind_err m f = (case m of Inl e \<Rightarrow> Inl e | Inr x \<Rightarrow> f x)"

subsection \<open>Column access\<close>

text \<open>\<^verbatim>\<open>df.select_dtypes(include=[...]).columns\<close>, as the positions of the columns.\<close>

definition columns_of_dtype :: "dtype \<Rightarrow> dataframe \<Rightarrow> nat list" where
  "columns_of_dtype t df = filter (\<lambda>j. snd (columns df ! j) = t) [0..<length (columns df)]"

definition object_columns :: "dataframe \<Rightarrow> nat list" where
  "object_columns df = columns_of_dtype ObjectT df"

definition number_columns :: "dataframe \<Rightarrow> nat list" where
  "number_columns df = filter (\<lambda>j. is_number (snd (columns df ! j))) [0..<length (columns df)]"

text \<open>\<^verbatim>\<open>df[column] = df[column].map(f)\<close>.\<close>

definition map_column :: "nat \<Rightarrow> (cell \<Rightarrow> cell) \<Rightarrow> dataframe \<Rightarrow> dataframe" where
  "map_column j f df = df\<lparr>rows := map (\<lambda>(i, r). (i, r[j := f (r ! j)])) (rows df)\<rparr>"

text \<open>\<^verbatim>\<open>df[column]\<close>.\<close>

definition column_values :: "dataframe \<Rightarrow> nat \<Rightarrow> cell list" where
  "column_values df j = map (\<lambda>(i, r). if j < length r then r ! j else Null) (rows df)"

definition set_dtype :: "nat \<Rightarrow> dtype \<Rightarrow> dataframe \<Rightarrow> dataframe" where
  "set_dtype j t df = df\<lparr>columns := (columns df)[j := (fst (columns df ! j), t)]\<rparr>"

text \<open>\<^verbatim>\<open>str(value)\<close> and \<^verbatim>\<open>.astype(str)\<close> of a cell of a column of the given dtype.\<close>

definition cell_str :: "pylib \<Rightarrow> dtype \<Rightarrow> cell \<Rightarrow> string" where
  "cell_str L t c = (case c of
       Null \<Rightarrow> na_str L
     | Text s \<Rightarrow> s
     | Num n \<Rightarrow> num_str L t n
     | Flag b \<Rightarrow> (if b then ''True'' else ''False''))"

subsection \<open>The stages of \<^verbatim>\<open>preprocess.py\<close>\<close>

definition normalize_columns :: "dataframe \<Rightarrow> dataframe" where
  "normalize_columns df =
     df\<lparr>columns := map (\<lambda>(column, t). (py_lower (py_strip column), t)) (columns df)\<rparr>"

text \<open>Iterating over a JSON value: the items of a list, the characters of a string, the
  keys of a dictionary; anything else is not iterable.\<close>

definition json_iter :: "json \<Rightarrow> error + json list" where
  "json_iter v = (case v of
       JList xs \<Rightarrow> Inr xs
     | JStr s \<Rightarrow> Inr (map (\<lambda>c. JStr [c]) s)
     | JObj kvs \<Rightarrow> Inr (map (\<lambda>(k, _). JStr k) kvs)
     | _ \<Rightarrow> Inl TypeError)"

definition default_unwanted_values :: "json" where
  "default_unwanted_values =
     JList [JStr [], JStr ''na'', JStr ''n/a'', JStr ''null'', JStr ''none'', JStr ''-'', JStr ''?'']"

definition nullify_cell :: "pylib \<Rightarrow> string list \<Rightarrow> cell \<Rightarrow> cell" where
  "nullify_cell L unwanted_lookup c =
     (if py_lower (py_strip (cell_str L ObjectT c)) \<in> set unwanted_lookup then Null else c)"

definition normalize_unwanted_values ::
  "pylib \<Rightarrow> dataframe \<Rightarrow> (string \<rightharpoonup> json) \<Rightarrow> error + dataframe" where
  "normalize_unwanted_values L df config =
     bind_err (json_iter (cfg_get config ''unwanted_values'' default_unwanted_values))
       (\<lambda>unwanted_values.
          let unwanted_lookup = map (\<lambda>item. py_lower (py_strip (py_str L item))) unwanted_values
          in Inr (foldl (\<lambda>processed column. map_column column (nullify_cell L unwanted_lookup) processed)
                    df (object_columns df)))"

definition cleanup_cell :: "pylib \<Rightarrow> (string \<rightharpoonup> json) \<Rightarrow> cell \<Rightarrow> cell" where
  "cleanup_cell L config c =
     (if c = Null then c else Text (cleanup_text_with_config L (cell_str L ObjectT c) config))"

definition looks_like_numeric_series :: "pylib \<Rightarrow> cell list \<Rightarrow> bool" where
  "looks_like_numeric_series L series =
     (let non_null = filter (\<lambda>c. c \<noteq> Null) series
      in if non_null = [] then False
         else list_all (\<lambda>c. numeric_pattern (py_strip (remove_commas (cell_str L ObjectT c))))
                non_null)"

text \<open>\<^verbatim>\<open>pd.to_numeric(column.astype(str).str.replace(",", ""), errors="coerce")\<close>. The values
  are converted cell by cell: the text of a missing value (\<^verbatim>\<open>nan\<close>, \<^verbatim>\<open>None\<close>, \<^verbatim>\<open><NA>\<close>) converts
  to \<^verbatim>\<open>NaN\<close>, and so does every text that is not a number. The dtype of the result depends
  on the whole column (\<^verbatim>\<open>int64\<close> when every value is an integer, \<^verbatim>\<open>float64\<close> otherwise).\<close>

definition coerce_cell :: "pylib \<Rightarrow> cell \<Rightarrow> cell" where
  "coerce_cell L c =
     (if c = Null then Null
      else (case to_numeric L (remove_commas (cell_str L ObjectT c)) of
              None \<Rightarrow> Null
            | Some n \<Rightarrow> Num n))"

definition coerced_dtype :: "pylib \<Rightarrow> cell list \<Rightarrow> dtype" where
  "coerced_dtype L series =
     NumberT (to_numeric_dtype L (map (\<lambda>c. remove_commas (cell_str L ObjectT c)) series))"

definition coerce_column :: "pylib \<Rightarrow> nat \<Rightarrow> dataframe \<Rightarrow> dataframe" where
  "coerce_column L j df =
     set_dtype j (coerced_dtype L (column_values df j)) (map_column j (coerce_cell L) df)"

definition coerce_numeric_like_columns ::
  "pylib \<Rightarrow> dataframe \<Rightarrow> (string \<rightharpoonup> json) \<Rightarrow> dataframe" where
  "coerce_numeric_like_columns L df config =
     (if \<not> cfg_bool config ''coerce_numeric_columns'' True then df
      else foldl (\<lambda>processed column.
                    if looks_like_numeric_series L (column_values processed column)
                    then coerce_column L column processed else processed)
             df (object_columns df))"

text \<open>\<^verbatim>\<open>df.dropna(how="any")\<close> and \<^verbatim>\<open>df.dropna(how="all")\<close>.\<close>

definition dropna_any :: "dataframe \<Rightarrow> dataframe" where
  "dropna_any df = df\<lparr>rows := filter (\<lambda>(i, r). \<not> list_ex (\<lambda>c. c = Null) r) (rows df)\<rparr>"

definition dropna_all :: "dataframe \<Rightarrow> dataframe" where
  "dropna_all df = df\<lparr>rows := filter (\<lambda>(i, r). \<not> list_all (\<lambda>c. c = Null) r) (rows df)\<rparr>"

text \<open>\<^verbatim>\<open>df[cols] = df[cols].fillna(value)\<close>. \<^verbatim>\<open>fillna(None)\<close> raises \<^verbatim>\<open>ValueError\<close> and a list
  \<^verbatim>\<open>TypeError\<close>; a text put into text (or boolean) columns and a number put into numeric
  columns keep the table within the embedding; the other fill values do not.\<close>

definition fill_value :: "bool \<Rightarrow> json \<Rightarrow> error + cell" where
  "fill_value numeric v = (case v of
       JNull \<Rightarrow> Inl ValueError
     | JList _ \<Rightarrow> Inl TypeError
     | JStr s \<Rightarrow> (if numeric then Inl NotModelled else Inr (Text s))
     | JNum n \<Rightarrow> (if numeric then Inr (Num n) else Inl NotModelled)
     | _ \<Rightarrow> Inl NotModelled)"

definition fillna_columns :: "nat list \<Rightarrow> bool \<Rightarrow> json \<Rightarrow> dataframe \<Rightarrow> error + dataframe" where
  "fillna_columns cols numeric v df =
     (if cols = [] then Inr df
      else bind_err (fill_value numeric v)
             (\<lambda>c. Inr (foldl (\<lambda>processed j. map_column j (\<lambda>x. if x = Null then c else x) processed)
                          df cols)))"

definition apply_null_strategy ::
  "pylib \<Rightarrow> dataframe \<Rightarrow> (string \<rightharpoonup> json) \<Rightarrow> error + dataframe" where
  "apply_null_strategy L df config =
     (let strategy = py_lower (py_strip (py_str L (cfg_get config ''null_strategy'' (JStr ''drop_any''))));
          strategy = (if strategy = [] then ''drop_any'' else strategy);
          strategy = (if cfg_bool config ''drop_nulls'' True \<and> strategy = ''keep''
                      then ''drop_any'' else strategy)
      in if strategy = ''drop_any'' then Inr (dropna_any df)
         else if strategy = ''drop_all'' then Inr (dropna_all df)
         else if strategy = ''fill'' then
           (let text_fill_value = cfg_get config ''null_fill_text'' (JStr []);
                numeric_fill_value = cfg_get config ''null_fill_numeric'' (JNum 0)
            in bind_err (fillna_columns (object_columns df) False text_fill_value df)
                 (\<lambda>processed.
                    bind_err (fillna_columns (number_columns df) True numeric_fill_value processed)
                      (\<lambda>processed.
                         fillna_columns (columns_of_dtype BoolT df) False text_fill_value processed)))
         else Inr df)"

text \<open>\<^verbatim>\<open>df.drop_duplicates(keep="first")\<close>: a row is dropped when an earlier row has the same
  cells (missing values count as equal); the index labels play no part.\<close>

fun drop_duplicates_from :: "cell list list \<Rightarrow> (nat \<times> cell list) list \<Rightarrow> (nat \<times> cell list) list" where
  "drop_duplicates_from seen [] = []"
| "drop_duplicates_from seen ((i, r) # rest) =
     (if r \<in> set seen then drop_duplicates_from seen rest
      else (i, r) # drop_duplicates_from (r # seen) rest)"

definition drop_duplicates :: "dataframe \<Rightarrow> dataframe" where
  "drop_duplicates df = df\<lparr>rows := drop_duplicates_from [] (rows df)\<rparr>"

text \<open>\<^verbatim>\<open>df.sort_values(by=list(df.columns), kind="mergesort", na_position="last")\<close>: a stable
  sort by the columns from left to right. Within a column a missing value comes after
  every value; text is compared by code points, numbers by value, \<^verbatim>\<open>False\<close> before \<^verbatim>\<open>True\<close>.\<close>

definition cell_key :: "cell \<Rightarrow> nat \<times> rat \<times> string \<times> bool" where
  "cell_key c = (case c of
       Null \<Rightarrow> (1, 0, [], False)
     | Num n \<Rightarrow> (0, n, [], False)
     | Text s \<Rightarrow> (0, 0, s, False)
     | Flag b \<Rightarrow> (0, 0, [], b))"

definition row_key :: "nat \<times> cell list \<Rightarrow> (nat \<times> rat \<times> string \<times> bool) list" where
  "row_key ir = map cell_key (snd ir)"

definition sort_values :: "dataframe \<Rightarrow> dataframe" where
  "sort_values df = df\<lparr>rows := sort_key row_key (rows df)\<rparr>"

text \<open>\<^verbatim>\<open>df.reset_index(drop=True)\<close>.\<close>

definition reset_index :: "dataframe \<Rightarrow> dataframe" where
  "reset_index df = df\<lparr>rows := zip [0..<length (rows df)] (map snd (rows df))\<rparr>"

text \<open>\<^verbatim>\<open>{**get_default_preprocess_config(), **(config or {})}\<close>: unpacking a value that is
  not a dictionary raises \<^verbatim>\<open>TypeError\<close>. The stages address a column by its position; pandas
  addresses it by its label, and what it does when two columns have the same label after
  the normalisation is outside the embedding.\<close>

definition merge_config :: "json \<Rightarrow> error + (string \<rightharpoonup> json)" where
  "merge_config config =
     (if truthy config
      then (case config of
              JObj kvs \<Rightarrow> Inr (dict_of get_default_preprocess_config ++ dict_of kvs)
            | _ \<Rightarrow> Inl TypeError)
      else Inr (dict_of get_default_preprocess_config))"

definition apply_deterministic_preprocessing ::
  "pylib \<Rightarrow> dataframe \<Rightarrow> json \<Rightarrow> error + dataframe" where
  "apply_deterministic_preprocessing L df config =
     bind_err (merge_config config) (\<lambda>merged_config.
       let processed = normalize_columns df
       in if \<not> distinct (map fst (columns processed)) then Inl NotModelled else
          bind_err (normalize_unwanted_values L processed merged_config) (\<lambda>processed.
            let processed =
                  foldl (\<lambda>processed column.
                           if cfg_bool merged_config ''cleanup_text'' True
                           then map_column column (cleanup_cell L merged_config) processed
                           else processed)
                    processed (object_columns processed);
                processed = coerce_numeric_like_columns L processed merged_config
            in bind_err (apply_null_strategy L processed merged_config) (\<lambda>processed.
                 let processed = (if cfg_bool merged_config ''drop_duplicates'' True
                                  then drop_duplicates processed else processed);
                     processed = (if cfg_bool merged_config ''sort_rows'' True
                                  then (if columns processed \<noteq> [] then sort_values processed
                                        else processed)
                                  else processed)
                 in Inr (reset_index processed))))"


subsection \<open>Python equality of JSON values\<close>

lemma dict_of_size:
  "dict_of kvs k = Some v \<Longrightarrow> size v < Suc (size_list (size_prod (\<lambda>_. 0) size) kvs)"
proof -
  assume "dict_of kvs k = Some v"
  then have "(k, v) \<in> set kvs"
    unfolding dict_of_def by (auto dest: map_of_SomeD)
  then show ?thesis
    by (induction kvs) auto
qed

text \<open>\<^verbatim>\<open>a == b\<close>: a dictionary equals a dictionary with the same keys and equal values,
  whatever the order; \<^verbatim>\<open>True == 1\<close> and \<^verbatim>\<open>False == 0\<close>.\<close>

function py_eq :: "json \<Rightarrow> json \<Rightarrow> bool" where
  "py_eq JNull y = (y = JNull)"
| "py_eq (JBool a) y =
     (case y of JBool b \<Rightarrow> a = b | JNum n \<Rightarrow> n = (if a then 1 else 0) | _ \<Rightarrow> False)"
| "py_eq (JNum m) y =
     (case y of JNum n \<Rightarrow> m = n | JBool b \<Rightarrow> m = (if b then 1 else 0) | _ \<Rightarrow> False)"
| "py_eq (JStr s) y = (y = JStr s)"
| "py_eq (JList xs) y =
     (case y of
        JList ys \<Rightarrow> length xs = length ys \<and> list_all (\<lambda>(x, y). py_eq x y) (zip xs ys)
      | _ \<Rightarrow> False)"
| "py_eq (JObj a) y =
     (case y of
        JObj b \<Rightarrow>
          list_all (\<lambda>k. dict_of a k \<noteq> None) (map fst b) \<and>
          list_all (\<lambda>k. case dict_of a k of
                           None \<Rightarrow> False
                         | Some x \<Rightarrow> (case dict_of b k of None \<Rightarrow> False | Some y \<Rightarrow> py_eq x y))
            (map fst a)
      | _ \<Rightarrow> False)"
  by pat_completeness auto
termination
  apply (relation "measure (\<lambda>(a, b). size a)")
    apply simp
   apply (auto dest!: set_zip_leftD simp: less_Suc_eq_le size_list_estimation')[1]
  apply (auto dest: dict_of_size)
  done

subsection \<open>\<^verbatim>\<open>hasher.py\<close>\<close>

definition LF :: "string" where
  "LF = [CHR 0x0A]"

text \<open>\<^verbatim>\<open>str.encode("utf-8")\<close> on U+0000 to U+00FF.\<close>

definition utf8_encode :: "string \<Rightarrow> string" where
  "utf8_encode s = concat (map (\<lambda>c. let n = (of_char c :: nat) in
       if n < 128 then [c] else [char_of (192 + n div 64), char_of (128 + n mod 64)]) s)"

text \<open>The text of a cell in \<^verbatim>\<open>to_csv\<close>: a missing value is the empty text, and a number is
  printed as the dtype of its column has it.\<close>

definition cell_csv :: "pylib \<Rightarrow> dtype \<Rightarrow> cell \<Rightarrow> string" where
  "cell_csv L t c = (case c of
       Null \<Rightarrow> []
     | Text s \<Rightarrow> s
     | Num n \<Rightarrow> num_csv L t n
     | Flag b \<Rightarrow> (if b then ''True'' else ''False''))"

definition row_csv :: "pylib \<Rightarrow> dataframe \<Rightarrow> cell list \<Rightarrow> string list" where
  "row_csv L df r = map (\<lambda>(t, c). cell_csv L t c) (zip (map snd (columns df)) r)"

text \<open>\<^verbatim>\<open>df.to_csv(index=False, lineterminator="\n")\<close>: the record of the column labels,
  then one record per row, in the table's order, each followed by a line feed.\<close>

definition to_csv :: "pylib \<Rightarrow> dataframe \<Rightarrow> string" where
  "to_csv L df =
     concat (map (\<lambda>fields. csv_record L fields @ LF)
               (map fst (columns df) # map (\<lambda>(i, r). row_csv L df r) (rows df)))"

definition dataframe_to_stable_csv_bytes :: "pylib \<Rightarrow> dataframe \<Rightarrow> string" where
  "dataframe_to_stable_csv_bytes L df = (let csv_text = to_csv L df in utf8_encode csv_text)"

definition sha256_from_bytes :: "pylib \<Rightarrow> string \<Rightarrow> string" where
  "sha256_from_bytes L payload = sha256_hex L payload"

definition sha256_from_json :: "pylib \<Rightarrow> json \<Rightarrow> string" where
  "sha256_from_json L data =
     (let canonical_json = json_dumps L True False data
      in sha256_from_bytes L (utf8_encode canonical_json))"

subsection \<open>\<^verbatim>\<open>repo.py\<close>: the repository state\<close>

text \<open>The files of a repository. \<open>None\<close> is a file or directory that does not exist; a
  file that exists holds its bytes. A version directory is looked up by its name below
  \<^verbatim>\<open>.mydata/versions\<close>; a name is taken as it is, so the embedding covers names that are one
  path component.\<close>

type_synonym directory = "string \<rightharpoonup> string"

record repo_state =
  project_root :: "string"
  head_file :: "string option"
  logs_file :: "string option"
  meta_file :: "string option"
  versions_root :: "(string \<rightharpoonup> directory) option"
  raw_data :: "string \<rightharpoonup> string"
  reports :: "string \<rightharpoonup> string"

text \<open>\<^verbatim>\<open>RepoState._ensure_initialized\<close>; \<^verbatim>\<open>.mydata\<close> itself exists when \<^verbatim>\<open>HEAD\<close> does.\<close>

definition ensure_initialized :: "repo_state \<Rightarrow> error + unit" where
  "ensure_initialized repo =
     (if versions_root repo \<noteq> None \<and> head_file repo \<noteq> None \<and> logs_file repo \<noteq> None \<and>
         meta_file repo \<noteq> None
      then Inr () else Inl RepositoryNotInitializedError)"

text \<open>\<^verbatim>\<open>Path.read_text(encoding="utf-8")\<close> and \<^verbatim>\<open>Path.write_text(s, encoding="utf-8")\<close>: a
  missing file raises \<^verbatim>\<open>FileNotFoundError\<close>, bytes that are not UTF-8 raise
  \<^verbatim>\<open>UnicodeDecodeError\<close>. The text that bytes are read as, and the bytes that a text is
  written as, are the library's.\<close>

definition read_text :: "pylib \<Rightarrow> string option \<Rightarrow> error + string" where
  "read_text L f = (case f of
       None \<Rightarrow> Inl FileNotFoundError
     | Some b \<Rightarrow> (case text_decode L b of None \<Rightarrow> Inl UnicodeDecodeError | Some t \<Rightarrow> Inr t))"

definition write_text :: "pylib \<Rightarrow> string \<Rightarrow> string option" where
  "write_text L s = Some (text_encode L s)"

definition get_head :: "pylib \<Rightarrow> repo_state \<Rightarrow> error + string option" where
  "get_head L repo =
     bind_err (read_text L (head_file repo)) (\<lambda>t.
       let raw_value = py_strip t
       in if raw_value \<in> {[], ''null'', ''None''} then Inr None else Inr (Some raw_value))"

definition set_head :: "pylib \<Rightarrow> string \<Rightarrow> repo_state \<Rightarrow> repo_state" where
  "set_head L version_id repo = repo\<lparr>head_file := write_text L (version_id @ LF)\<rparr>"

text \<open>\<^verbatim>\<open>read_logs\<close>: the handler catches \<^verbatim>\<open>json.JSONDecodeError\<close> and nothing else, so the
  exceptions of \<^verbatim>\<open>read_text\<close> and the other exceptions of \<^verbatim>\<open>json.loads\<close> leave the call.\<close>

definition read_logs :: "pylib \<Rightarrow> repo_state \<Rightarrow> error + json list" where
  "read_logs L repo =
     bind_err (read_text L (logs_file repo)) (\<lambda>t.
       let content = py_strip t
       in if content = [] then Inr []
          else (case json_loads L content of
                  Inl e \<Rightarrow> (if e = JSONDecodeError then Inr [] else Inl e)
                | Inr data \<Rightarrow> (case data of JList xs \<Rightarrow> Inr xs | _ \<Rightarrow> Inr [])))"

definition append_log :: "pylib \<Rightarrow> json \<Rightarrow> repo_state \<Rightarrow> error + repo_state" where
  "append_log L record repo =
     bind_err (read_logs L repo) (\<lambda>logs.
       let logs = logs @ [record]
       in Inr (repo\<lparr>logs_file := write_text L (json_dumps L False True (JList logs) @ LF)\<rparr>))"

definition version_dir :: "repo_state \<Rightarrow> string \<Rightarrow> directory option" where
  "version_dir repo version_id =
     (case versions_root repo of None \<Rightarrow> None | Some vs \<Rightarrow> vs version_id)"

definition version_exists :: "repo_state \<Rightarrow> string \<Rightarrow> bool" where
  "version_exists repo version_id = (version_dir repo version_id \<noteq> None)"

text \<open>Writing the files of a version directory that \<^verbatim>\<open>mkdir(parents=True)\<close> has created.\<close>

definition put_version_dir :: "string \<Rightarrow> directory \<Rightarrow> repo_state \<Rightarrow> repo_state" where
  "put_version_dir version_id d repo =
     repo\<lparr>versions_root :=
       Some ((case versions_root repo of None \<Rightarrow> Map.empty | Some vs \<Rightarrow> vs)(version_id \<mapsto> d))\<rparr>"


subsection \<open>\<^verbatim>\<open>models.py\<close>\<close>

record version_record =
  rec_version_id :: "string"
  rec_parent_id :: "string option"
  rec_timestamp :: "string"
  rec_commit_message :: "string"
  rec_source_data_path :: "string"
  rec_source_config_path :: "string"
  rec_input_hash :: "string"
  rec_config_hash :: "string"
  rec_version_hash :: "string"
  rec_row_count :: "nat"
  rec_label_distribution :: "(string \<times> json) list"
  rec_eval_metrics :: "json"

definition json_opt :: "string option \<Rightarrow> json" where
  "json_opt x = (case x of None \<Rightarrow> JNull | Some s \<Rightarrow> JStr s)"

definition to_dict :: "version_record \<Rightarrow> (string \<times> json) list" where
  "to_dict r =
     [(''version_id'', JStr (rec_version_id r)),
      (''parent_id'', json_opt (rec_parent_id r)),
      (''timestamp'', JStr (rec_timestamp r)),
      (''commit_message'', JStr (rec_commit_message r)),
      (''source_data_path'', JStr (rec_source_data_path r)),
      (''source_config_path'', JStr (rec_source_config_path r)),
      (''input_hash'', JStr (rec_input_hash r)),
      (''config_hash'', JStr (rec_config_hash r)),
      (''version_hash'', JStr (rec_version_hash r)),
      (''row_count'', JNum (of_nat (rec_row_count r))),
      (''label_distribution'', JObj (rec_label_distribution r)),
      (''eval_metrics'', rec_eval_metrics r)]"

subsection \<open>\<^verbatim>\<open>io_loader.py\<close>\<close>

text \<open>The files outside the repository are a map from a path, as the caller spells it, to
  the bytes of the file.\<close>

definition read_config :: "pylib \<Rightarrow> (string \<rightharpoonup> string) \<Rightarrow> string \<Rightarrow> error + json" where
  "read_config L files config_path =
     (case files config_path of
        None \<Rightarrow> Inl (ValidationError (''Config file not found: '' @ config_path))
      | Some b \<Rightarrow>
          if py_lower (path_suffix L config_path) \<noteq> ''.json''
          then Inl (ValidationError ''Config file must be a .json file in this prototype.'')
          else bind_err (read_text L (Some b)) (\<lambda>t.
                 case json_loads L t of
                   Inl e \<Rightarrow> (if e = JSONDecodeError then Inl (ValidationError ''Invalid JSON config'')
                             else Inl e)
                 | Inr v \<Rightarrow> Inr v))"

text \<open>\<^verbatim>\<open>DataFrame.empty\<close>: no row or no column.\<close>

definition df_empty :: "dataframe \<Rightarrow> bool" where
  "df_empty df = (rows df = [] \<or> columns df = [])"

definition load_dataset ::
  "pylib \<Rightarrow> (string \<rightharpoonup> string) \<Rightarrow> string \<Rightarrow> error + (dataframe \<times> string)" where
  "load_dataset L files dataset_path =
     (case files dataset_path of
        None \<Rightarrow> Inl (ValidationError (''Dataset file not found: '' @ dataset_path))
      | Some b \<Rightarrow>
          let suffix = py_lower (path_suffix L dataset_path)
          in bind_err
               (if suffix = ''.csv'' then read_csv L b
                else if suffix = ''.json'' then
                  (case read_json L False b of
                     Inl e \<Rightarrow> (if is_value_error e then read_json L True b else Inl e)
                   | Inr dataframe \<Rightarrow> Inr dataframe)
                else Inl (ValidationError ''Only CSV and JSON input are supported in this prototype.''))
               (\<lambda>dataframe.
                  if df_empty dataframe then Inl (ValidationError ''Loaded dataset is empty.'')
                  else Inr (dataframe, suffix)))"

definition validate_schema :: "dataframe \<Rightarrow> error + unit" where
  "validate_schema dataframe =
     (if df_empty dataframe then Inl (ValidationError ''Dataset schema invalid: dataset is empty.'')
      else if length (columns dataframe) = 0
      then Inl (ValidationError ''Dataset schema invalid: no columns found.'')
      else Inr ())"

subsection \<open>\<^verbatim>\<open>commit_service.py\<close>\<close>

definition first_occurrences :: "'a list \<Rightarrow> 'a list" where
  "first_occurrences xs = rev (remdups (rev xs))"

text \<open>\<^verbatim>\<open>Series.value_counts(dropna=False)\<close>: every value of the column, the missing value
  among them, with the number of its cells, the most frequent first.\<close>

definition value_counts :: "cell list \<Rightarrow> (cell \<times> nat) list" where
  "value_counts xs =
     sort_key (\<lambda>(v, n). - int n) (map (\<lambda>v. (v, count_list xs v)) (first_occurrences xs))"

definition columns_named :: "string \<Rightarrow> dataframe \<Rightarrow> nat list" where
  "columns_named name df = filter (\<lambda>j. fst (columns df ! j) = name) [0..<length (columns df)]"

text \<open>\<^verbatim>\<open>_label_distribution\<close>. With two columns named \<^verbatim>\<open>label\<close> pandas selects a table, not a
  column, which the embedding does not cover.\<close>

definition label_distribution :: "pylib \<Rightarrow> dataframe \<Rightarrow> error + (string \<times> json) list" where
  "label_distribution L processed_rows =
     (case columns_named ''label'' processed_rows of
        [] \<Rightarrow> Inr []
      | [j] \<Rightarrow>
          (let distribution = value_counts (column_values processed_rows j)
           in Inr (map (\<lambda>(key, value).
                          (cell_str L (snd (columns processed_rows ! j)) key, JNum (of_nat value)))
                     distribution))
      | _ \<Rightarrow> Inl NotModelled)"

definition normalize_user_path :: "string \<Rightarrow> string" where
  "normalize_user_path path_value =
     (let normalized = py_strip path_value
      in if length normalized \<ge> 2 \<and> hd normalized = last normalized \<and>
            hd normalized \<in> {CHR 0x22, CHR 0x27}
         then butlast (tl normalized) else normalized)"

definition py_str_opt :: "string option \<Rightarrow> string" where
  "py_str_opt x = (case x of None \<Rightarrow> ''None'' | Some s \<Rightarrow> s)"

definition version_path :: "repo_state \<Rightarrow> string \<Rightarrow> string" where
  "version_path repo version_id = project_root repo @ ''/.mydata/versions/'' @ version_id"

text \<open>\<^verbatim>\<open>_persist_version\<close>. The clock's reading \<open>now\<close> is an argument. The result is the
  dictionary returned and the repository as the call leaves it; when an exception ends the
  call, the embedding does not say what it has written before.\<close>

definition persist_version ::
  "pylib \<Rightarrow> string \<Rightarrow> repo_state \<Rightarrow> string \<Rightarrow> string \<Rightarrow> string \<Rightarrow> dataframe \<Rightarrow> dataframe \<Rightarrow>
     json \<Rightarrow> string \<Rightarrow> error + (json \<times> repo_state)" where
  "persist_version L now repo source_data_path source_config_path input_bytes raw_dataframe
       processed_dataframe config commit_message =
     (let processed_csv_bytes = dataframe_to_stable_csv_bytes L processed_dataframe;
          input_hash = sha256_from_bytes L input_bytes;
          config_hash = sha256_from_json L config;
          version_hash = sha256_from_bytes L processed_csv_bytes
      in bind_err (get_head L repo) (\<lambda>parent_id.
         let timestamp = now
         in if version_exists repo version_hash then
              (let dedupe_event = JObj
                     [(''event_type'', JStr ''dedupe_hit''),
                      (''timestamp'', JStr timestamp),
                      (''requested_source_data_path'', JStr source_data_path),
                      (''requested_source_config_path'', JStr source_config_path),
                      (''requested_input_hash'', JStr input_hash),
                      (''requested_config_hash'', JStr config_hash),
                      (''resolved_version_id'', JStr version_hash),
                      (''message'', JStr ''Run recorded. No new version created; existing version reused.'')]
               in bind_err (append_log L dedupe_event repo) (\<lambda>repo.
                  bind_err (get_head L repo) (\<lambda>head.
                    Inr (JObj [(''status'', JStr ''duplicate''),
                               (''version_id'', JStr version_hash),
                               (''head'', json_opt head),
                               (''message'', JStr ''Identical processed output already committed.'')],
                         repo))))
            else
              bind_err (label_distribution L processed_dataframe) (\<lambda>distribution.
                let record = \<lparr>rec_version_id = version_hash,
                              rec_parent_id = parent_id,
                              rec_timestamp = timestamp,
                              rec_commit_message = py_strip commit_message,
                              rec_source_data_path = source_data_path,
                              rec_source_config_path = source_config_path,
                              rec_input_hash = input_hash,
                              rec_config_hash = config_hash,
                              rec_version_hash = version_hash,
                              rec_row_count = length (rows processed_dataframe),
                              rec_label_distribution = distribution,
                              rec_eval_metrics = JNull\<rparr>;
                    archived = (\<not> py_startswith source_data_path ''HEAD:'');
                    source_name = (let n = path_name L source_data_path
                                   in if n = [] then ''raw_input.csv'' else n);
                    archived_name = take 8 version_hash @ ''__'' @ source_name;
                    metadata = JObj
                      ([(''event_type'', JStr ''commit'')] @ to_dict record @
                       [(''preprocess_stats'', JObj
                           [(''rows_before'', JNum (of_nat (length (rows raw_dataframe)))),
                            (''rows_after'', JNum (of_nat (length (rows processed_dataframe)))),
                            (''columns_before'', JList (map (\<lambda>(c, t). JStr c) (columns raw_dataframe))),
                            (''columns_after'', JList (map (\<lambda>(c, t). JStr c) (columns processed_dataframe)))]),
                        (''artifacts'', JObj
                           ([(''raw_snapshot'', JStr ''raw_snapshot.csv''),
                             (''processed_snapshot'', JStr ''processed.csv''),
                             (''config_snapshot'', JStr ''config_snapshot.json'')] @
                            (if archived then [(''raw_archive'', JStr (''raw_data/'' @ archived_name))]
                             else [])))]);
                    repo = put_version_dir version_hash
                             [''raw_snapshot.csv'' \<mapsto> input_bytes,
                              ''processed.csv'' \<mapsto> processed_csv_bytes,
                              ''config_snapshot.json'' \<mapsto>
                                text_encode L (json_dumps L True True config @ LF),
                              ''metadata.json'' \<mapsto>
                                text_encode L (json_dumps L False True metadata @ LF)]
                             repo;
                    repo = (if archived
                            then repo\<lparr>raw_data := (raw_data repo)(archived_name \<mapsto> input_bytes)\<rparr>
                            else repo)
                in bind_err (append_log L metadata repo) (\<lambda>repo.
                   let repo = set_head L version_hash repo
                   in Inr (JObj [(''status'', JStr ''created''),
                                 (''version_id'', JStr version_hash),
                                 (''parent_id'', json_opt parent_id),
                                 (''head'', JStr version_hash),
                                 (''rows_before'', JNum (of_nat (length (rows raw_dataframe)))),
                                 (''rows_after'', JNum (of_nat (length (rows processed_dataframe)))),
                                 (''version_path'', JStr (version_path repo version_hash)),
                                 (''metadata_path'',
                                    JStr (version_path repo version_hash @ ''/metadata.json''))],
                           repo)))))"

definition read_bytes :: "(string \<rightharpoonup> string) \<Rightarrow> string \<Rightarrow> error + string" where
  "read_bytes files path = (case files path of None \<Rightarrow> Inl FileNotFoundError | Some b \<Rightarrow> Inr b)"

definition create_version_from_paths ::
  "pylib \<Rightarrow> string \<Rightarrow> (string \<rightharpoonup> string) \<Rightarrow> repo_state \<Rightarrow> string \<Rightarrow> string \<Rightarrow> string \<Rightarrow>
     error + (json \<times> repo_state)" where
  "create_version_from_paths L now files repo dataset_path config_path commit_message =
     (let dataset_path = normalize_user_path dataset_path;
          config_path = normalize_user_path config_path
      in bind_err (read_bytes files dataset_path) (\<lambda>raw_bytes.
         bind_err (read_config L files config_path) (\<lambda>config.
         bind_err (load_dataset L files dataset_path) (\<lambda>(raw_dataframe, _).
         bind_err (validate_schema raw_dataframe) (\<lambda>_.
         bind_err (apply_deterministic_preprocessing L raw_dataframe config) (\<lambda>processed_dataframe.
           persist_version L now repo (path_str L dataset_path) (path_str L config_path) raw_bytes
             raw_dataframe processed_dataframe config commit_message))))))"

text \<open>The processed snapshot of HEAD, or the exception of \<^verbatim>\<open>create_version_from_head\<close> when
  the file is not there.\<close>

definition head_processed_bytes :: "repo_state \<Rightarrow> string \<Rightarrow> error + string" where
  "head_processed_bytes repo head_version =
     (case version_dir repo head_version of
        None \<Rightarrow> Inl (DataLineageError ''HEAD processed snapshot not found'')
      | Some d \<Rightarrow> (case d ''processed.csv'' of
                     None \<Rightarrow> Inl (DataLineageError ''HEAD processed snapshot not found'')
                   | Some b \<Rightarrow> Inr b))"

definition create_version_from_head ::
  "pylib \<Rightarrow> string \<Rightarrow> (string \<rightharpoonup> string) \<Rightarrow> repo_state \<Rightarrow> string \<Rightarrow> string \<Rightarrow>
     error + (json \<times> repo_state)" where
  "create_version_from_head L now files repo config_path commit_message =
     (let config_path = normalize_user_path config_path
      in bind_err (get_head L repo) (\<lambda>head_version.
         case head_version of
           None \<Rightarrow> Inl (DataLineageError ''HEAD is not set. First commit must use a dataset path.'')
         | Some head_version \<Rightarrow>
             bind_err (head_processed_bytes repo head_version) (\<lambda>input_bytes.
             bind_err (read_config L files config_path) (\<lambda>config.
             bind_err (read_csv L input_bytes) (\<lambda>raw_dataframe.
             bind_err (validate_schema raw_dataframe) (\<lambda>_.
             bind_err (apply_deterministic_preprocessing L raw_dataframe config)
               (\<lambda>processed_dataframe.
                  persist_version L now repo (''HEAD:'' @ head_version) (path_str L config_path)
                    input_bytes raw_dataframe processed_dataframe config commit_message)))))))"

definition create_version_from_raw_default ::
  "pylib \<Rightarrow> string \<Rightarrow> (string \<rightharpoonup> string) \<Rightarrow> repo_state \<Rightarrow> string \<Rightarrow> string \<Rightarrow>
     error + (json \<times> repo_state)" where
  "create_version_from_raw_default L now files repo dataset_path commit_message =
     (let dataset_path = normalize_user_path dataset_path
      in bind_err (read_bytes files dataset_path) (\<lambda>raw_bytes.
         bind_err (load_dataset L files dataset_path) (\<lambda>(raw_dataframe, _).
         bind_err (validate_schema raw_dataframe) (\<lambda>_.
           let config = JObj get_default_preprocess_config
           in bind_err (apply_deterministic_preprocessing L raw_dataframe config)
                (\<lambda>processed_dataframe.
                   persist_version L now repo (path_str L dataset_path) ''DEFAULT_CONFIG'' raw_bytes
                     raw_dataframe processed_dataframe config commit_message)))))"

subsection \<open>\<^verbatim>\<open>app.py\<close>: checkout\<close>

text \<open>\<^verbatim>\<open>_checkout_flow\<close>. The argument is what the interactive selection returned: \<open>None\<close>
  when the user left the menu.\<close>

definition checkout_flow ::
  "pylib \<Rightarrow> repo_state \<Rightarrow> string option \<Rightarrow> error + (json \<times> repo_state)" where
  "checkout_flow L repo target_version =
     (case target_version of
        None \<Rightarrow> Inr (JObj [(''Command'', JStr ''checkout''), (''Status'', JStr ''cancelled'')], repo)
      | Some target_version \<Rightarrow>
          if \<not> version_exists repo target_version
          then Inl (DataLineageError (''Version not found: '' @ target_version))
          else bind_err (get_head L repo) (\<lambda>previous_head.
                 let repo = set_head L target_version repo
                 in Inr (JObj [(''Command'', JStr ''checkout''),
                               (''Status'', JStr ''success''),
                               (''Previous HEAD'', JStr (py_str_opt previous_head)),
                               (''Current HEAD'', JStr target_version)],
                         repo)))"

subsection \<open>\<^verbatim>\<open>diff_service.py\<close>\<close>

definition load_processed_dataframe :: "pylib \<Rightarrow> directory \<Rightarrow> error + dataframe" where
  "load_processed_dataframe L d =
     (case d ''processed.csv'' of
        None \<Rightarrow> Inl (DataLineageError ''Processed artifact missing'')
      | Some b \<Rightarrow> read_csv L b)"

definition load_metadata :: "pylib \<Rightarrow> directory \<Rightarrow> error + json" where
  "load_metadata L d =
     (case d ''metadata.json'' of
        None \<Rightarrow> Inl (DataLineageError ''Metadata artifact missing'')
      | Some b \<Rightarrow>
          bind_err (read_text L (Some b)) (\<lambda>t.
            case json_loads L t of
              Inl e \<Rightarrow> (if e = JSONDecodeError then Inl (DataLineageError ''Invalid metadata JSON'')
                        else Inl e)
            | Inr v \<Rightarrow> Inr v))"

text \<open>\<^verbatim>\<open>metadata.get(key, default)\<close> on what \<^verbatim>\<open>json.loads\<close> returned: only a dictionary has
  the method.\<close>

definition json_get :: "json \<Rightarrow> string \<Rightarrow> json \<Rightarrow> error + json" where
  "json_get v k d = (case v of JObj kvs \<Rightarrow> Inr (cfg_get (dict_of kvs) k d) | _ \<Rightarrow> Inl AttributeError)"

definition sorted_names :: "string list \<Rightarrow> json" where
  "sorted_names xs = JList (map JStr (sort (remdups xs)))"

text \<open>The values that \<^verbatim>\<open>compare_versions\<close> reads from the two metadata dictionaries.\<close>

record diff_inputs =
  label_dist_a :: "json"
  label_dist_b :: "json"
  config_hash_a :: "json"
  config_hash_b :: "json"
  input_hash_a :: "json"
  input_hash_b :: "json"
  version_hash_a :: "json"
  version_hash_b :: "json"

definition read_diff_inputs :: "json \<Rightarrow> json \<Rightarrow> error + diff_inputs" where
  "read_diff_inputs metadata_a metadata_b =
     bind_err (json_get metadata_a ''label_distribution'' (JObj [])) (\<lambda>lda.
     bind_err (json_get metadata_b ''label_distribution'' (JObj [])) (\<lambda>ldb.
     bind_err (json_get metadata_a ''config_hash'' JNull) (\<lambda>cha.
     bind_err (json_get metadata_b ''config_hash'' JNull) (\<lambda>chb.
     bind_err (json_get metadata_a ''input_hash'' JNull) (\<lambda>iha.
     bind_err (json_get metadata_b ''input_hash'' JNull) (\<lambda>ihb.
     bind_err (json_get metadata_a ''version_hash'' JNull) (\<lambda>vha.
     bind_err (json_get metadata_b ''version_hash'' JNull) (\<lambda>vhb.
       Inr \<lparr>label_dist_a = lda, label_dist_b = ldb, config_hash_a = cha, config_hash_b = chb,
            input_hash_a = iha, input_hash_b = ihb, version_hash_a = vha,
            version_hash_b = vhb\<rparr>))))))))"

definition compare_versions ::
  "pylib \<Rightarrow> string \<Rightarrow> repo_state \<Rightarrow> string \<Rightarrow> string \<Rightarrow> error + (json \<times> repo_state)" where
  "compare_versions L now repo version_a version_b =
     (case version_dir repo version_a of
        None \<Rightarrow> Inl (DataLineageError (''Version not found: '' @ version_a))
      | Some version_a_dir \<Rightarrow>
     (case version_dir repo version_b of
        None \<Rightarrow> Inl (DataLineageError (''Version not found: '' @ version_b))
      | Some version_b_dir \<Rightarrow>
          bind_err (load_processed_dataframe L version_a_dir) (\<lambda>dataframe_a.
          bind_err (load_processed_dataframe L version_b_dir) (\<lambda>dataframe_b.
          bind_err (load_metadata L version_a_dir) (\<lambda>metadata_a.
          bind_err (load_metadata L version_b_dir) (\<lambda>metadata_b.
          bind_err (read_diff_inputs metadata_a metadata_b) (\<lambda>m.
          let columns_a = map fst (columns dataframe_a);
              columns_b = map fst (columns dataframe_b);
              row_count_a = length (rows dataframe_a);
              row_count_b = length (rows dataframe_b);
              row_delta = JNum (of_int (int row_count_b - int row_count_a));
              config_changed = JBool (\<not> py_eq (config_hash_a m) (config_hash_b m));
              changed = JBool (\<not> py_eq (label_dist_a m) (label_dist_b m));
              diff_report = JObj
                [(''generated_at'', JStr now),
                 (''version_a'', JStr version_a),
                 (''version_b'', JStr version_b),
                 (''summary'', JObj
                    [(''row_count_a'', JNum (of_nat row_count_a)),
                     (''row_count_b'', JNum (of_nat row_count_b)),
                     (''row_delta'', row_delta),
                     (''column_count_a'', JNum (of_nat (length columns_a))),
                     (''column_count_b'', JNum (of_nat (length columns_b))),
                     (''config_changed'', config_changed)]),
                 (''columns'', JObj
                    [(''only_in_a'', sorted_names (filter (\<lambda>c. c \<notin> set columns_b) columns_a)),
                     (''only_in_b'', sorted_names (filter (\<lambda>c. c \<notin> set columns_a) columns_b)),
                     (''common'', sorted_names (filter (\<lambda>c. c \<in> set columns_b) columns_a))]),
                 (''label_distribution'', JObj
                    [(''a'', label_dist_a m), (''b'', label_dist_b m), (''changed'', changed)]),
                 (''hashes'', JObj
                    [(''config_hash_a'', config_hash_a m),
                     (''config_hash_b'', config_hash_b m),
                     (''input_hash_a'', input_hash_a m),
                     (''input_hash_b'', input_hash_b m),
                     (''version_hash_a'', version_hash_a m),
                     (''version_hash_b'', version_hash_b m)])];
              report_name = ''diff_'' @ take 8 version_a @ ''__'' @ take 8 version_b @ ''.json'';
              repo = repo\<lparr>reports := (reports repo)(report_name \<mapsto>
                                 text_encode L (json_dumps L False True diff_report @ LF))\<rparr>
          in Inr (JObj [(''version_a'', JStr version_a),
                        (''version_b'', JStr version_b),
                        (''row_count_a'', JNum (of_nat row_count_a)),
                        (''row_count_b'', JNum (of_nat row_count_b)),
                        (''row_delta'', row_delta),
                        (''config_changed'', config_changed),
                        (''label_distribution_changed'', changed),
                        (''report_path'', JStr (project_root repo @ ''/reports/'' @ report_name))],
                  repo))))))))"


subsection \<open>Names for what a commit writes\<close>

text \<open>The properties below speak of the parts of \<^verbatim>\<open>_persist_version\<close>: the hash of the processed
  table, the two log events, the files of the new version directory, the archive copy and
  the dictionary returned. Each is the expression of the source, under a name. \<open>dict_get\<close>
  reads a key of a dictionary; \<open>head_valid\<close> says that HEAD is unset or names an existing
  version directory; \<open>reads_back\<close> says of a version id that it has no white space at its ends
  and that the HEAD file, once \<^verbatim>\<open>set_head\<close> has written the id, is read as the text written.\<close>

definition dict_get :: "json \<Rightarrow> string \<Rightarrow> json option" where
  "dict_get v k = (case v of JObj kvs \<Rightarrow> dict_of kvs k | _ \<Rightarrow> None)"

definition version_hash_of :: "pylib \<Rightarrow> dataframe \<Rightarrow> string" where
  "version_hash_of L processed = sha256_from_bytes L (dataframe_to_stable_csv_bytes L processed)"

definition dedupe_event_of ::
  "pylib \<Rightarrow> string \<Rightarrow> string \<Rightarrow> string \<Rightarrow> string \<Rightarrow> dataframe \<Rightarrow> json \<Rightarrow> json" where
  "dedupe_event_of L now source_data_path source_config_path input_bytes processed config =
     JObj [(''event_type'', JStr ''dedupe_hit''),
           (''timestamp'', JStr now),
           (''requested_source_data_path'', JStr source_data_path),
           (''requested_source_config_path'', JStr source_config_path),
           (''requested_input_hash'', JStr (sha256_from_bytes L input_bytes)),
           (''requested_config_hash'', JStr (sha256_from_json L config)),
           (''resolved_version_id'', JStr (version_hash_of L processed)),
           (''message'', JStr ''Run recorded. No new version created; existing version reused.'')]"

definition archived_name_of :: "pylib \<Rightarrow> string \<Rightarrow> dataframe \<Rightarrow> string" where
  "archived_name_of L source_data_path processed =
     take 8 (version_hash_of L processed) @ ''__'' @
     (let n = path_name L source_data_path in if n = [] then ''raw_input.csv'' else n)"

definition commit_metadata ::
  "pylib \<Rightarrow> string \<Rightarrow> string option \<Rightarrow> string \<Rightarrow> string \<Rightarrow> string \<Rightarrow> dataframe \<Rightarrow> dataframe \<Rightarrow>
     json \<Rightarrow> string \<Rightarrow> (string \<times> json) list \<Rightarrow> json" where
  "commit_metadata L now parent source_data_path source_config_path input_bytes raw processed
       config commit_message distribution =
     JObj ([(''event_type'', JStr ''commit'')] @
           to_dict \<lparr>rec_version_id = version_hash_of L processed,
                    rec_parent_id = parent,
                    rec_timestamp = now,
                    rec_commit_message = py_strip commit_message,
                    rec_source_data_path = source_data_path,
                    rec_source_config_path = source_config_path,
                    rec_input_hash = sha256_from_bytes L input_bytes,
                    rec_config_hash = sha256_from_json L config,
                    rec_version_hash = version_hash_of L processed,
                    rec_row_count = length (rows processed),
                    rec_label_distribution = distribution,
                    rec_eval_metrics = JNull\<rparr> @
           [(''preprocess_stats'', JObj
               [(''rows_before'', JNum (of_nat (length (rows raw)))),
                (''rows_after'', JNum (of_nat (length (rows processed)))),
                (''columns_before'', JList (map (\<lambda>(c, t). JStr c) (columns raw))),
                (''columns_after'', JList (map (\<lambda>(c, t). JStr c) (columns processed)))]),
            (''artifacts'', JObj
               ([(''raw_snapshot'', JStr ''raw_snapshot.csv''),
                 (''processed_snapshot'', JStr ''processed.csv''),
                 (''config_snapshot'', JStr ''config_snapshot.json'')] @
                (if \<not> py_startswith source_data_path ''HEAD:''
                 then [(''raw_archive'', JStr (''raw_data/'' @ archived_name_of L source_data_path processed))]
                 else [])))])"

definition created_directory :: "pylib \<Rightarrow> string \<Rightarrow> dataframe \<Rightarrow> json \<Rightarrow> json \<Rightarrow> directory" where
  "created_directory L input_bytes processed config metadata =
     [''raw_snapshot.csv'' \<mapsto> input_bytes,
      ''processed.csv'' \<mapsto> dataframe_to_stable_csv_bytes L processed,
      ''config_snapshot.json'' \<mapsto> text_encode L (json_dumps L True True config @ LF),
      ''metadata.json'' \<mapsto> text_encode L (json_dumps L False True metadata @ LF)]"

definition archive_raw :: "pylib \<Rightarrow> string \<Rightarrow> string \<Rightarrow> dataframe \<Rightarrow> repo_state \<Rightarrow> repo_state" where
  "archive_raw L source_data_path input_bytes processed repo =
     (if \<not> py_startswith source_data_path ''HEAD:''
      then repo\<lparr>raw_data := (raw_data repo)(archived_name_of L source_data_path processed \<mapsto> input_bytes)\<rparr>
      else repo)"

definition created_result :: "pylib \<Rightarrow> repo_state \<Rightarrow> string option \<Rightarrow> dataframe \<Rightarrow> dataframe \<Rightarrow> json" where
  "created_result L repo parent raw processed =
     JObj [(''status'', JStr ''created''),
           (''version_id'', JStr (version_hash_of L processed)),
           (''parent_id'', json_opt parent),
           (''head'', JStr (version_hash_of L processed)),
           (''rows_before'', JNum (of_nat (length (rows raw)))),
           (''rows_after'', JNum (of_nat (length (rows processed)))),
           (''version_path'', JStr (version_path repo (version_hash_of L processed))),
           (''metadata_path'', JStr (version_path repo (version_hash_of L processed) @ ''/metadata.json''))]"

definition head_valid :: "pylib \<Rightarrow> repo_state \<Rightarrow> bool" where
  "head_valid L repo =
     (case get_head L repo of
        Inl _ \<Rightarrow> False
      | Inr None \<Rightarrow> True
      | Inr (Some v) \<Rightarrow> version_exists repo v)"

definition reads_back :: "pylib \<Rightarrow> string \<Rightarrow> bool" where
  "reads_back L v =
     (py_strip v = v \<and> text_decode L (text_encode L (v @ LF)) = Some (v @ LF))"

subsection \<open>A library instance and a repository for the worked examples\<close>

text \<open>The examples below run the operations on concrete inputs. They use this instance of
  the libraries: Unicode normalisation is the identity (as NFKC is on ASCII text); a number
  is read from a string of digits, a column of such numbers is \<^verbatim>\<open>int64\<close>, and 0 and 1 are
  printed, with a decimal point in a \<^verbatim>\<open>float64\<close> column; a digest is the payload behind a fixed
  prefix, each white-space byte shown as a slash; a text file is written as UTF-8 and read
  as UTF-8 (up to U+00FF) with every carriage return, and every carriage return and line
  feed in a row, turned into one line feed, as Python reads a text file;
  \<^verbatim>\<open>pd.read_csv\<close> reads the one example file; the JSON writer prints a value in one line. What
  \<^verbatim>\<open>json.loads\<close> accepts is set by each example.\<close>

text \<open>A table of three rows, the bytes of the file it is read from, and its processed form.\<close>

definition test_raw :: "dataframe" where
  "test_raw = \<lparr>columns = [(''Name'', ObjectT), (''Label'', NumberT ''int64'')],
               rows = [(0, [Text ''Bob'', Num 1]), (1, [Text ''bob '', Num 1]), (2, [Text ''Amy'', Num 0])]\<rparr>"

definition test_processed :: "dataframe" where
  "test_processed = \<lparr>columns = [(''name'', ObjectT), (''label'', NumberT ''int64'')],
               rows = [(0, [Text ''amy'', Num 0]), (1, [Text ''bob'', Num 1])]\<rparr>"

definition test_csv_bytes :: "string" where
  "test_csv_bytes = ''Name,Label'' @ LF @ ''Bob,1'' @ LF @ ''bob ,1'' @ LF @ ''Amy,0'' @ LF"

definition test_files :: "string \<rightharpoonup> string" where
  "test_files = [''data.csv'' \<mapsto> test_csv_bytes]"

fun test_dumps :: "json \<Rightarrow> string" where
  "test_dumps JNull = ''null''"
| "test_dumps (JBool b) = (if b then ''true'' else ''false'')"
| "test_dumps (JNum n) = ''0''"
| "test_dumps (JStr s) = [CHR 0x22] @ s @ [CHR 0x22]"
| "test_dumps (JList xs) = ''['' @ concat (map (\<lambda>x. test_dumps x @ '','') xs) @ '']''"
| "test_dumps (JObj kvs) =
     ''{'' @ concat (map (\<lambda>kv. [CHR 0x22] @ fst kv @ [CHR 0x22] @ '':'' @ test_dumps (snd kv) @ '','')
                     kvs) @ ''}''"

definition test_to_numeric :: "string \<Rightarrow> rat option" where
  "test_to_numeric s =
     (if all_digits1 s then Some (of_nat (foldl (\<lambda>a c. 10 * a + (of_char c - 48)) 0 s)) else None)"

definition test_num_str :: "dtype \<Rightarrow> rat \<Rightarrow> string" where
  "test_num_str t n =
     (if n = 0 then ''0'' else if n = 1 then ''1'' else ''n'') @
     (if t = NumberT ''float64'' then ''.0'' else [])"

definition test_digest :: "string \<Rightarrow> string" where
  "test_digest b = ''sha-'' @ map (\<lambda>c. if py_isspace c then CHR ''/'' else c) b"

fun test_decode :: "string \<Rightarrow> string option" where
  "test_decode [] = Some []"
| "test_decode [c] = (if (of_char c :: nat) < 128 then Some [c] else None)"
| "test_decode (c # d # cs) =
     (if (of_char c :: nat) < 128 then map_option ((#) c) (test_decode (d # cs))
      else if ((of_char c :: nat) = 194 \<or> (of_char c :: nat) = 195) \<and>
              128 \<le> (of_char d :: nat) \<and> (of_char d :: nat) < 192
      then map_option ((#) (char_of (((of_char c :: nat) - 192) * 64 + ((of_char d :: nat) - 128))))
             (test_decode cs)
      else None)"

fun universal_newlines :: "string \<Rightarrow> string" where
  "universal_newlines [] = []"
| "universal_newlines [c] = (if c = CHR 0x0D then [CHR 0x0A] else [c])"
| "universal_newlines (c # d # cs) =
     (if c = CHR 0x0D
      then (if d = CHR 0x0A then CHR 0x0A # universal_newlines cs
            else CHR 0x0A # universal_newlines (d # cs))
      else c # universal_newlines (d # cs))"

definition test_lib :: "pylib" where
  "test_lib = \<lparr>nfkc = (\<lambda>s. s),
               to_numeric = test_to_numeric,
               to_numeric_dtype = (\<lambda>texts. ''int64''),
               num_str = test_num_str,
               num_csv = test_num_str,
               na_str = ''nan'',
               json_str = test_dumps,
               sha256_hex = test_digest,
               json_dumps = (\<lambda>sort_keys indent v. test_dumps v),
               json_loads = (\<lambda>s. Inl JSONDecodeError),
               csv_record = (\<lambda>fields. concat (map (\<lambda>f. f @ '','') fields)),
               text_decode = (\<lambda>b. map_option universal_newlines (test_decode b)),
               text_encode = utf8_encode,
               read_csv = (\<lambda>b. if b = test_csv_bytes then Inr test_raw else Inl ValueError),
               read_json = (\<lambda>lines b. Inl ValueError),
               path_str = (\<lambda>p. p),
               path_name = (\<lambda>p. p),
               path_suffix = (\<lambda>p. drop (length p - 4) p)\<rparr>"

text \<open>A repository right after its bootstrap: no HEAD, an empty log, no version.\<close>

definition test_repo :: "repo_state" where
  "test_repo = \<lparr>project_root = ''/p'',
                head_file = Some LF,
                logs_file = Some (''[]'' @ LF),
                meta_file = Some ''{}'',
                versions_root = Some Map.empty,
                raw_data = Map.empty,
                reports = Map.empty\<rparr>"




text \<open>Two repositories with one version each: HEAD names an older version; HEAD names
  the version of the processed example table.\<close>

definition test_repo_old :: "repo_state" where
  "test_repo_old = test_repo\<lparr>head_file := Some (''sha-old'' @ LF),
       versions_root := Some [''sha-old'' \<mapsto> [''processed.csv'' \<mapsto> ''x,'' @ LF]]\<rparr>"

definition test_repo_dup :: "repo_state" where
  "test_repo_dup = test_repo\<lparr>head_file := Some (''sha-name,label,/amy,0,/bob,1,/'' @ LF),
       versions_root := Some [''sha-name,label,/amy,0,/bob,1,/'' \<mapsto>
          [''processed.csv'' \<mapsto> ''name,label,'' @ LF @ ''amy,0,'' @ LF @ ''bob,1,'' @ LF]]\<rparr>"

text \<open>A processed table with text outside ASCII and a \<^verbatim>\<open>float64\<close> column, a repository
  with a version directory whose name ends in a space, and one with a version directory
  whose name has a carriage return in it.\<close>

definition test_accent :: "dataframe" where
  "test_accent = \<lparr>columns = [(''caf'' @ [CHR 0xE9], ObjectT), (''n'', NumberT ''float64'')],
                  rows = [(0, [Text [CHR 0xE9], Num 1])]\<rparr>"

definition test_repo_pad :: "repo_state" where
  "test_repo_pad = test_repo\<lparr>versions_root := Some [''abc '' \<mapsto> Map.empty]\<rparr>"

definition test_repo_cr :: "repo_state" where
  "test_repo_cr = test_repo\<lparr>versions_root := Some [''a'' @ [CHR 0x0D] @ ''b'' \<mapsto> Map.empty]\<rparr>"

subsection \<open>Names for the statements about the text cleanup\<close>

text \<open>\<open>step_if\<close> is a step that runs when its flag is set. The second definition is the
  default configuration with lowercasing disabled.\<close>

definition step_if :: "bool \<Rightarrow> ('a \<Rightarrow> 'a) \<Rightarrow> 'a \<Rightarrow> 'a" where
  "step_if b f x = (if b then f x else x)"

definition test_config_keep_case :: "string \<rightharpoonup> json" where
  "test_config_keep_case =
     dict_of get_default_preprocess_config ++ dict_of [(''lowercase_text'', JBool False)]"

subsection \<open>Names for the statements about numeric coercion\<close>

text \<open>\<open>converts L df j\<close>: column \<open>j\<close> is text-typed and looks numeric. \<open>coerce_where P\<close>
  converts the columns that satisfy \<open>P\<close>, all at once; \<open>spec_coerce_numeric\<close> converts the
  columns that \<open>converts\<close> selects. The last definition is an example table.\<close>

definition converts :: "pylib \<Rightarrow> dataframe \<Rightarrow> nat \<Rightarrow> bool" where
  "converts L df j =
     (j < length (columns df) \<and> snd (columns df ! j) = ObjectT \<and>
      looks_like_numeric_series L (column_values df j))"

definition coerce_where :: "(nat \<Rightarrow> bool) \<Rightarrow> pylib \<Rightarrow> dataframe \<Rightarrow> dataframe" where
  "coerce_where P L df =
     df\<lparr>columns := map (\<lambda>k. if P k then (fst (columns df ! k), coerced_dtype L (column_values df k))
                             else columns df ! k)
                       [0..<length (columns df)],
        rows := map (\<lambda>(i, r). (i, map (\<lambda>k. if P k then coerce_cell L (r ! k) else r ! k) [0..<length r]))
                  (rows df)\<rparr>"

definition spec_coerce_numeric :: "pylib \<Rightarrow> dataframe \<Rightarrow> dataframe" where
  "spec_coerce_numeric L df = coerce_where (converts L df) L df"

definition test_mixed :: "dataframe" where
  "test_mixed = \<lparr>columns = [(''n'', ObjectT), (''t'', ObjectT), (''e'', ObjectT)],
                 rows = [(0, [Text ''1,000'', Text ''7'', Null]), (1, [Text ''20'', Text ''x'', Null])]\<rparr>"

subsection \<open>Example tables for the label distribution\<close>

text \<open>A raw table whose only cell is a sentinel, and a table with a \<^verbatim>\<open>label\<close> column and no
  rows.\<close>

definition test_only_sentinel :: "dataframe" where
  "test_only_sentinel = \<lparr>columns = [(''Label'', ObjectT)], rows = [(0, [Text ''n/a''])]\<rparr>"

definition test_no_rows :: "dataframe" where
  "test_no_rows = \<lparr>columns = [(''label'', ObjectT)], rows = []\<rparr>"

subsection \<open>The stages in the words of the specification\<close>

text \<open>\<open>map_cells h\<close> applies \<open>h k\<close> to the cell at position \<open>k\<close> of every row;
  \<open>map_cells_where P f\<close> applies \<open>f\<close> to the cells at the positions that satisfy \<open>P\<close>;
  \<open>map_text_cells f\<close> applies it to every cell of a text-typed column. \<open>fill_nulls\<close> puts one
  value into the null cells of the numeric columns and another into the null cells of the
  other columns. \<open>spec_drop_duplicates\<close> keeps a row exactly when no earlier row has the same
  cells, in the original order.\<close>

definition map_cells :: "(nat \<Rightarrow> cell \<Rightarrow> cell) \<Rightarrow> dataframe \<Rightarrow> dataframe" where
  "map_cells h df = df\<lparr>rows := map (\<lambda>(i, r). (i, map (\<lambda>k. h k (r ! k)) [0..<length r])) (rows df)\<rparr>"

definition map_cells_where :: "(nat \<Rightarrow> bool) \<Rightarrow> (cell \<Rightarrow> cell) \<Rightarrow> dataframe \<Rightarrow> dataframe" where
  "map_cells_where P f df =
     df\<lparr>rows := map (\<lambda>(i, r). (i, map (\<lambda>k. if P k then f (r ! k) else r ! k) [0..<length r]))
                  (rows df)\<rparr>"

definition map_text_cells :: "(cell \<Rightarrow> cell) \<Rightarrow> dataframe \<Rightarrow> dataframe" where
  "map_text_cells f df =
     map_cells_where (\<lambda>k. k < length (columns df) \<and> snd (columns df ! k) = ObjectT) f df"

definition fill_nulls :: "cell \<Rightarrow> cell \<Rightarrow> dataframe \<Rightarrow> dataframe" where
  "fill_nulls text_fill numeric_fill df =
     df\<lparr>rows := map (\<lambda>(i, r).
                  (i, map (\<lambda>k. if r ! k = Null \<and> k < length (columns df)
                                then (if is_number (snd (columns df ! k)) then numeric_fill
                                      else text_fill)
                                else r ! k) [0..<length r]))
                  (rows df)\<rparr>"

definition spec_drop_duplicates :: "dataframe \<Rightarrow> dataframe" where
  "spec_drop_duplicates df =
     df\<lparr>rows := map (\<lambda>k. rows df ! k)
                  (filter (\<lambda>k. \<forall>k'<k. snd (rows df ! k') \<noteq> snd (rows df ! k))
                     [0..<length (rows df)])\<rparr>"

text \<open>A raw table with a sentinel, a punctuation mark and a missing value; and what the
  first example table becomes without the sort, and without the removal of duplicates.\<close>

definition test_dirty :: "dataframe" where
  "test_dirty = \<lparr>columns = [('' Name'', ObjectT), (''Label'', NumberT ''int64'')],
                 rows = [(0, [Text ''Bob'', Num 1]), (1, [Text '' N/A '', Num 0]),
                         (2, [Text ''bob!'', Num 1]), (3, [Text ''Amy'', Num 0]),
                         (4, [Null, Num 1])]\<rparr>"

definition test_unsorted :: "dataframe" where
  "test_unsorted = \<lparr>columns = [(''name'', ObjectT), (''label'', NumberT ''int64'')],
                    rows = [(0, [Text ''bob'', Num 1]), (1, [Text ''amy'', Num 0])]\<rparr>"

definition test_with_duplicate :: "dataframe" where
  "test_with_duplicate = \<lparr>columns = [(''name'', ObjectT), (''label'', NumberT ''int64'')],
       rows = [(0, [Text ''amy'', Num 0]), (1, [Text ''bob'', Num 1]), (2, [Text ''bob'', Num 1])]\<rparr>"

section \<open>Properties\<close>

subsection \<open>Auxiliary facts\<close>

lemma bind_err_simps [simp]:
  "bind_err (Inl e) f = Inl e"
  "bind_err (Inr x) f = f x"
  by (simp_all add: bind_err_def)

lemma bind_err_eq_Inr:
  "bind_err m f = Inr y \<longleftrightarrow> (\<exists>x. m = Inr x \<and> f x = Inr y)"
  by (cases m) simp_all

lemma read_logs_missing: "logs_file repo = None \<Longrightarrow> read_logs L repo = Inl FileNotFoundError"
  by (simp add: read_logs_def read_text_def)

lemma read_logs_undecodable:
  "logs_file repo = Some b \<Longrightarrow> text_decode L b = None \<Longrightarrow>
   read_logs L repo = Inl UnicodeDecodeError"
  by (simp add: read_logs_def read_text_def)

lemma read_logs_decoded:
  "logs_file repo = Some b \<Longrightarrow> text_decode L b = Some t \<Longrightarrow>
   read_logs L repo =
     (if py_strip t = [] then Inr []
      else (case json_loads L (py_strip t) of
              Inl e \<Rightarrow> (if e = JSONDecodeError then Inr [] else Inl e)
            | Inr data \<Rightarrow> (case data of JList xs \<Rightarrow> Inr xs | _ \<Rightarrow> Inr [])))"
  by (simp add: read_logs_def read_text_def Let_def)

lemma get_head_cong: "head_file r1 = head_file r2 \<Longrightarrow> get_head L r1 = get_head L r2"
  by (simp add: get_head_def)

lemma read_logs_cong: "logs_file r1 = logs_file r2 \<Longrightarrow> read_logs L r1 = read_logs L r2"
  by (simp add: read_logs_def)

lemma append_log_eq:
  "read_logs L repo = Inr old \<Longrightarrow>
   append_log L event repo =
     Inr (repo\<lparr>logs_file := Some (text_encode L (json_dumps L False True (JList (old @ [event])) @ LF))\<rparr>)"
  by (simp add: append_log_def write_text_def Let_def)

lemma append_log_Inr:
  "append_log L event repo = Inr repo' \<Longrightarrow>
   \<exists>old. read_logs L repo = Inr old \<and>
     repo' = repo\<lparr>logs_file := Some (text_encode L (json_dumps L False True (JList (old @ [event])) @ LF))\<rparr>"
  by (auto simp: append_log_def write_text_def Let_def bind_err_eq_Inr)

lemma persist_version_duplicate:
  assumes "get_head L repo = Inr parent" and "read_logs L repo = Inr old"
    and "version_exists repo (version_hash_of L processed)"
  shows "persist_version L now repo sdp scp ib raw processed config msg =
     Inr (JObj [(''status'', JStr ''duplicate''),
                (''version_id'', JStr (version_hash_of L processed)),
                (''head'', json_opt parent),
                (''message'', JStr ''Identical processed output already committed.'')],
          repo\<lparr>logs_file := Some (text_encode L (json_dumps L False True
             (JList (old @ [dedupe_event_of L now sdp scp ib processed config])) @ LF))\<rparr>)"
proof -
  let ?repo' = "repo\<lparr>logs_file := Some (text_encode L (json_dumps L False True
             (JList (old @ [dedupe_event_of L now sdp scp ib processed config])) @ LF))\<rparr>"
  have h: "get_head L ?repo' = Inr parent"
    using assms(1) get_head_cong [of ?repo' repo] by simp
  show ?thesis
    using assms h
    by (simp add: persist_version_def Let_def version_hash_of_def dedupe_event_of_def append_log_eq)
qed

lemma version_path_cong: "project_root r1 = project_root r2 \<Longrightarrow> version_path r1 v = version_path r2 v"
  by (simp add: version_path_def)

lemma archive_raw_fields [simp]:
  "logs_file (archive_raw L s b p repo) = logs_file repo"
  "head_file (archive_raw L s b p repo) = head_file repo"
  "project_root (archive_raw L s b p repo) = project_root repo"
  "versions_root (archive_raw L s b p repo) = versions_root repo"
  by (simp_all add: archive_raw_def)

lemma put_version_dir_fields [simp]:
  "logs_file (put_version_dir v d repo) = logs_file repo"
  "head_file (put_version_dir v d repo) = head_file repo"
  "project_root (put_version_dir v d repo) = project_root repo"
  "raw_data (put_version_dir v d repo) = raw_data repo"
  by (simp_all add: put_version_dir_def)

lemma persist_version_created:
  assumes "get_head L repo = Inr parent" and "read_logs L repo = Inr old"
    and "\<not> version_exists repo (version_hash_of L processed)"
    and "label_distribution L processed = Inr distr"
  shows "persist_version L now repo sdp scp ib raw processed config msg =
     Inr (created_result L repo parent raw processed,
          set_head L (version_hash_of L processed)
            ((archive_raw L sdp ib processed
               (put_version_dir (version_hash_of L processed)
                  (created_directory L ib processed config
                     (commit_metadata L now parent sdp scp ib raw processed config msg distr)) repo))
             \<lparr>logs_file := Some (text_encode L (json_dumps L False True
                (JList (old @ [commit_metadata L now parent sdp scp ib raw processed config msg distr])) @ LF))\<rparr>))"
proof -
  let ?vh = "version_hash_of L processed"
  let ?m = "commit_metadata L now parent sdp scp ib raw processed config msg distr"
  let ?r1 = "archive_raw L sdp ib processed (put_version_dir ?vh (created_directory L ib processed config ?m) repo)"
  have logs: "read_logs L ?r1 = Inr old"
    using assms(2) read_logs_cong [of ?r1 repo L] by simp
  have vp: "version_path (set_head L ?vh (?r1\<lparr>logs_file := x\<rparr>)) ?vh = version_path repo ?vh" for x
    by (simp add: version_path_def set_head_def)
  have "persist_version L now repo sdp scp ib raw processed config msg =
     bind_err (append_log L ?m ?r1) (\<lambda>repo'.
       Inr (created_result L (set_head L ?vh repo') parent raw processed, set_head L ?vh repo'))"
    using assms(1,3,4)
    by (simp add: persist_version_def Let_def version_hash_of_def [symmetric])
       (simp add: commit_metadata_def created_directory_def archive_raw_def archived_name_of_def
          created_result_def version_hash_of_def Let_def)
  then show ?thesis
    by (simp add: append_log_eq [OF logs] created_result_def vp)
qed

lemma persist_version_Inr:
  assumes "persist_version L now repo sdp scp ib raw processed config msg = Inr out"
  shows "\<exists>parent old. get_head L repo = Inr parent \<and> read_logs L repo = Inr old \<and>
     (version_exists repo (version_hash_of L processed) \<or>
      (\<exists>distr. label_distribution L processed = Inr distr))"
proof -
  from assms obtain parent where p: "get_head L repo = Inr parent"
    by (auto simp: persist_version_def Let_def bind_err_eq_Inr)
  show ?thesis
  proof (cases "version_exists repo (version_hash_of L processed)")
    case True
    with assms p obtain old where "read_logs L repo = Inr old"
      by (auto simp: persist_version_def Let_def bind_err_eq_Inr version_hash_of_def
          dest!: append_log_Inr)
    with p True show ?thesis by blast
  next
    case False
    with assms p obtain distr r1 old where d: "label_distribution L processed = Inr distr"
      and "read_logs L r1 = Inr old" and "logs_file r1 = logs_file repo"
      by (auto simp: persist_version_def Let_def bind_err_eq_Inr version_hash_of_def
          put_version_dir_def dest!: append_log_Inr split: if_splits)
    then have "read_logs L repo = Inr old"
      using read_logs_cong [of r1 repo L] by simp
    with p d show ?thesis by blast
  qed
qed

lemma from_paths_persist:
  assumes "create_version_from_paths L now files repo dp cp msg = Inr out"
  shows "\<exists>sdp scp ib raw processed config.
     apply_deterministic_preprocessing L raw config = Inr processed \<and>
     persist_version L now repo sdp scp ib raw processed config msg = Inr out"
  using assms
  by (auto simp: create_version_from_paths_def Let_def bind_err_eq_Inr split: prod.splits) blast+

lemma from_head_persist:
  assumes "create_version_from_head L now files repo cp msg = Inr out"
  shows "\<exists>sdp scp ib raw processed config.
     apply_deterministic_preprocessing L raw config = Inr processed \<and>
     persist_version L now repo sdp scp ib raw processed config msg = Inr out"
  using assms
  by (auto simp: create_version_from_head_def Let_def bind_err_eq_Inr split: option.splits) blast+

lemma from_raw_default_persist:
  assumes "create_version_from_raw_default L now files repo dp msg = Inr out"
  shows "\<exists>sdp scp ib raw processed config.
     apply_deterministic_preprocessing L raw config = Inr processed \<and>
     persist_version L now repo sdp scp ib raw processed config msg = Inr out"
  using assms
  by (auto simp: create_version_from_raw_default_def Let_def bind_err_eq_Inr split: prod.splits) blast+

lemma py_strip_append_space: "py_isspace c \<Longrightarrow> py_strip (s @ [c]) = py_strip s"
proof (cases "list_all py_isspace s")
  case True
  assume "py_isspace c"
  with True have a: "\<forall>x\<in>set (s @ [c]). py_isspace x" and b: "\<forall>x\<in>set s. py_isspace x"
    by (auto simp: list_all_iff)
  have e1: "dropWhile py_isspace (s @ [c]) = []" and e2: "dropWhile py_isspace s = []"
    using a b dropWhile_eq_Nil_conv by blast+
  show ?thesis unfolding py_strip_def e1 e2 by simp
next
  case False
  assume c: "py_isspace c"
  from False have "\<exists>x\<in>set s. \<not> py_isspace x" by (auto simp: list_all_iff)
  then have "dropWhile py_isspace (s @ [c]) = dropWhile py_isspace s @ [c]"
    by (auto simp: dropWhile_append1)
  with c show ?thesis by (simp add: py_strip_def)
qed

lemma py_strip_LF [simp]: "py_strip (s @ LF) = py_strip s"
  by (simp add: LF_def py_strip_append_space py_isspace_def)

lemma get_head_set_head:
  "reads_back L v \<Longrightarrow>
   get_head L (set_head L v repo) = Inr (if v \<in> {[], ''null'', ''None''} then None else Some v)"
  by (simp add: reads_back_def get_head_def set_head_def read_text_def write_text_def Let_def)

lemma version_exists_cong:
  "versions_root r1 = versions_root r2 \<Longrightarrow> version_exists r1 v = version_exists r2 v"
  by (simp add: version_exists_def version_dir_def)

lemma version_exists_put [simp]:
  "version_exists (put_version_dir v d repo) v' = (v' = v \<or> version_exists repo v')"
  by (auto simp: version_exists_def version_dir_def put_version_dir_def split: option.splits)

lemma head_valid_cong:
  "head_file r1 = head_file r2 \<Longrightarrow> versions_root r1 = versions_root r2 \<Longrightarrow> head_valid L r1 = head_valid L r2"
  by (simp add: head_valid_def get_head_cong [of r1 r2] version_exists_cong [of r1 r2]
      split: sum.splits option.splits)

lemma persist_version_head_valid:
  assumes out: "persist_version L now repo sdp scp ib raw processed config msg = Inr (res, repo')"
    and valid: "head_valid L repo"
    and rb: "reads_back L (version_hash_of L processed)"
  shows "head_valid L repo'"
proof -
  from persist_version_Inr [OF out] obtain parent old where
    p: "get_head L repo = Inr parent" and l: "read_logs L repo = Inr old" and
    c: "version_exists repo (version_hash_of L processed) \<or>
        (\<exists>distr. label_distribution L processed = Inr distr)" by blast
  show ?thesis
  proof (cases "version_exists repo (version_hash_of L processed)")
    case True
    from persist_version_duplicate [OF p l True, of now sdp scp ib raw config msg] out
    have "head_file repo' = head_file repo" "versions_root repo' = versions_root repo" by auto
    with valid show ?thesis using head_valid_cong by blast
  next
    case False
    with c obtain distr where d: "label_distribution L processed = Inr distr" by blast
    from persist_version_created [OF p l False d, of now sdp scp ib raw config msg] out
    have r: "repo' = set_head L (version_hash_of L processed)
            ((archive_raw L sdp ib processed
               (put_version_dir (version_hash_of L processed)
                  (created_directory L ib processed config
                     (commit_metadata L now parent sdp scp ib raw processed config msg distr)) repo))
             \<lparr>logs_file := Some (text_encode L (json_dumps L False True
                (JList (old @ [commit_metadata L now parent sdp scp ib raw processed config msg distr])) @ LF))\<rparr>)"
      by simp
    have ex: "version_exists repo' (version_hash_of L processed)"
      unfolding r
      by (simp add: version_exists_def version_dir_def set_head_def put_version_dir_def)
    have gh: "get_head L repo' = Inr (if version_hash_of L processed \<in> {[], ''null'', ''None''}
        then None else Some (version_hash_of L processed))"
      unfolding r by (rule get_head_set_head [OF rb])
    show ?thesis using ex gh by (simp add: head_valid_def)
  qed
qed

lemma checkout_head_valid:
  assumes "checkout_flow L repo target = Inr (res, repo')" and "head_valid L repo"
    and "\<forall>t. target = Some t \<longrightarrow> reads_back L t"
  shows "head_valid L repo'"
proof (cases target)
  case None
  with assms show ?thesis by (simp add: checkout_flow_def)
next
  case (Some t)
  with assms have ex: "version_exists repo t" and r: "repo' = set_head L t repo"
    and s: "reads_back L t"
    by (auto simp: checkout_flow_def bind_err_eq_Inr Let_def split: if_splits)
  have "version_exists repo' t"
    using ex r version_exists_cong [of repo' repo] by (simp add: set_head_def)
  then show ?thesis unfolding r
    by (simp add: head_valid_def get_head_set_head [OF s])
qed

lemma dict_get_commit_metadata:
  "dict_get (commit_metadata L now parent sdp scp ib raw processed config msg distr) ''version_id''
     = Some (JStr (version_hash_of L processed))"
  "dict_get (commit_metadata L now parent sdp scp ib raw processed config msg distr) ''version_hash''
     = Some (JStr (version_hash_of L processed))"
  "dict_get (commit_metadata L now parent sdp scp ib raw processed config msg distr) ''parent_id''
     = Some (json_opt parent)"
  "dict_get (commit_metadata L now parent sdp scp ib raw processed config msg distr) ''label_distribution''
     = Some (JObj distr)"
  by (simp_all add: dict_get_def commit_metadata_def to_dict_def dict_of_def)

lemma persist_version_cases:
  assumes "persist_version L now repo sdp scp ib raw processed config msg = Inr (res, repo')"
  shows "\<exists>parent old. get_head L repo = Inr parent \<and> read_logs L repo = Inr old \<and>
     ((version_exists repo (version_hash_of L processed) \<and>
       res = JObj [(''status'', JStr ''duplicate''),
                (''version_id'', JStr (version_hash_of L processed)),
                (''head'', json_opt parent),
                (''message'', JStr ''Identical processed output already committed.'')] \<and>
       repo' = repo\<lparr>logs_file := Some (text_encode L (json_dumps L False True
             (JList (old @ [dedupe_event_of L now sdp scp ib processed config])) @ LF))\<rparr>) \<or>
      (\<not> version_exists repo (version_hash_of L processed) \<and>
       (\<exists>distr. label_distribution L processed = Inr distr \<and>
          res = created_result L repo parent raw processed \<and>
          repo' = set_head L (version_hash_of L processed)
            ((archive_raw L sdp ib processed
               (put_version_dir (version_hash_of L processed)
                  (created_directory L ib processed config
                     (commit_metadata L now parent sdp scp ib raw processed config msg distr)) repo))
             \<lparr>logs_file := Some (text_encode L (json_dumps L False True
                (JList (old @ [commit_metadata L now parent sdp scp ib raw processed config msg distr])) @ LF))\<rparr>))))"
proof -
  from persist_version_Inr [OF assms] obtain parent old where
    p: "get_head L repo = Inr parent" and l: "read_logs L repo = Inr old" and
    c: "version_exists repo (version_hash_of L processed) \<or>
        (\<exists>distr. label_distribution L processed = Inr distr)" by blast
  show ?thesis
  proof (cases "version_exists repo (version_hash_of L processed)")
    case True
    from persist_version_duplicate [OF p l True, of now sdp scp ib raw config msg] assms p l True
    show ?thesis by auto
  next
    case False
    with c obtain distr where d: "label_distribution L processed = Inr distr" by blast
    from persist_version_created [OF p l False d, of now sdp scp ib raw config msg] assms p l False d
    show ?thesis by auto
  qed
qed

lemma created_version_dir:
  "version_dir (set_head L v ((archive_raw L sdp ib processed (put_version_dir v d repo))\<lparr>logs_file := x\<rparr>)) v
     = Some d"
  by (simp add: version_dir_def set_head_def put_version_dir_def)

lemma version_id_of_result:
  assumes "persist_version L now repo sdp scp ib raw processed config msg = Inr (res, repo')"
  shows "dict_get res ''version_id'' = Some (JStr (version_hash_of L processed))"
  using persist_version_cases [OF assms]
  by (auto simp: dict_get_def dict_of_def created_result_def)


text \<open>Facts about the example repository and the example table.\<close>

lemma test_repo_head: "get_head test_lib test_repo = Inr None"
  by code_simp

lemma test_repo_logs: "read_logs test_lib test_repo = Inr []"
  by code_simp

lemma test_repo_no_version: "\<not> version_exists test_repo v"
  by (simp add: version_exists_def version_dir_def test_repo_def)

lemma test_processed_distribution:
  "label_distribution test_lib test_processed = Inr [(''0'', JNum 1), (''1'', JNum 1)]"
  by code_simp

lemma test_processed_hash: "version_hash_of test_lib test_processed = ''sha-name,label,/amy,0,/bob,1,/''"
  by code_simp

lemma test_repo_dup_init: "ensure_initialized test_repo_dup = Inr ()"
  by (simp add: ensure_initialized_def test_repo_dup_def test_repo_def)




lemma commit_modes_persist:
  assumes "commit = create_version_from_paths L now files repo dataset_path config_path msg \<or>
           commit = create_version_from_head L now files repo config_path msg \<or>
           commit = create_version_from_raw_default L now files repo dataset_path msg"
    and "commit = Inr out"
  shows "\<exists>sdp scp ib raw processed config.
     apply_deterministic_preprocessing L raw config = Inr processed \<and>
     persist_version L now repo sdp scp ib raw processed config msg = Inr out"
  using assms from_paths_persist from_head_persist from_raw_default_persist by metis

lemma test_processed_reads_back: "reads_back test_lib ''sha-name,label,/amy,0,/bob,1,/''"
  by code_simp

lemma pipeline_test:
  "apply_deterministic_preprocessing test_lib test_raw (JObj get_default_preprocess_config) = Inr test_processed"
  by code_simp

lemma test_raw_default_commit:
  "create_version_from_raw_default test_lib now test_files repo ''data.csv'' msg =
   persist_version test_lib now repo ''data.csv'' ''DEFAULT_CONFIG'' test_csv_bytes test_raw
     test_processed (JObj get_default_preprocess_config) msg"
proof -
  have n: "normalize_user_path ''data.csv'' = ''data.csv''"
    by (simp add: normalize_user_path_def py_strip_def py_isspace_def)
  have b: "read_bytes test_files ''data.csv'' = Inr test_csv_bytes"
    by (simp add: read_bytes_def test_files_def)
  have l: "load_dataset test_lib test_files ''data.csv'' = Inr (test_raw, ''.csv'')"
    by (simp add: load_dataset_def test_files_def test_lib_def py_lower_def py_lower_char_def
        df_empty_def test_raw_def)
  have v: "validate_schema test_raw = Inr ()"
    by (simp add: validate_schema_def df_empty_def test_raw_def)
  have p: "path_str test_lib ''data.csv'' = ''data.csv''"
    by (simp add: test_lib_def)
  show ?thesis
    by (simp add: create_version_from_raw_default_def n b l v p pipeline_test)
qed

lemma test_repo_old_head: "get_head test_lib test_repo_old = Inr (Some ''sha-old'')"
  by code_simp

lemma test_repo_old_logs: "read_logs test_lib test_repo_old = Inr []"
  using test_repo_logs read_logs_cong [of test_repo_old test_repo test_lib]
  by (simp add: test_repo_old_def)

lemma test_repo_old_fresh: "\<not> version_exists test_repo_old (version_hash_of test_lib test_processed)"
  by (simp add: test_processed_hash version_exists_def version_dir_def test_repo_old_def)

lemma test_repo_old_valid: "head_valid test_lib test_repo_old"
  by (simp add: head_valid_def test_repo_old_head)
     (simp add: version_exists_def version_dir_def test_repo_old_def)

lemmas test_first_commit =
  persist_version_created [OF test_repo_old_head test_repo_old_logs test_repo_old_fresh
    test_processed_distribution, of "''t0''" "''data.csv''" "''DEFAULT_CONFIG''" test_csv_bytes test_raw
    "JObj get_default_preprocess_config" "''first''", folded test_raw_default_commit [of "''t0''" test_repo_old "''first''"]]

lemma in_keep_class_alnum: "ascii_lower c \<or> py_isdecimal c \<Longrightarrow> py_isalnum c"
  by (auto simp: ascii_lower_def py_isdecimal_def py_isalnum_def Let_def)

lemma coerce_where_none: "coerce_where (\<lambda>k. False) L df = df"
proof -
  have "map (\<lambda>(i, r). (i, map ((!) r) [0..<length r])) rs = rs" for rs :: "(nat \<times> cell list) list"
    by (induction rs) (auto simp: map_nth)
  then show ?thesis
    by (simp add: coerce_where_def map_nth)
qed

lemma coerce_where_cong:
  "(\<And>k. P k = Q k) \<Longrightarrow> coerce_where P L df = coerce_where Q L df"
  by (simp add: coerce_where_def)

lemma column_values_coerce_where:
  "column_values (coerce_where P L df) j =
     (if P j then map (coerce_cell L) (column_values df j) else column_values df j)"
  by (auto simp: column_values_def coerce_where_def coerce_cell_def split: prod.splits)

lemma columns_coerce_where:
  "j < length (columns df) \<Longrightarrow>
   columns (coerce_where P L df) ! j =
     (if P j then (fst (columns df ! j), coerced_dtype L (column_values df j)) else columns df ! j)"
  by (simp add: coerce_where_def)

lemma coerce_column_coerce_where:
  assumes "\<not> P j" and "j < length (columns df)"
  shows "coerce_column L j (coerce_where P L df) = coerce_where (\<lambda>k. k = j \<or> P k) L df"
proof -
  have cv: "column_values (coerce_where P L df) j = column_values df j"
    using assms(1) by (simp add: column_values_coerce_where)
  have c: "(map (\<lambda>k. if P k then (fst (columns df ! k), coerced_dtype L (column_values df k))
                     else columns df ! k)
              [0..<length (columns df)])
           [j := (fst (columns df ! j), coerced_dtype L (column_values df j))] =
        map (\<lambda>k. if k = j \<or> P k then (fst (columns df ! k), coerced_dtype L (column_values df k))
                  else columns df ! k)
              [0..<length (columns df)]"
    using assms(2) by (intro nth_equalityI) (auto simp: nth_list_update)
  have r: "(map (\<lambda>k. if P k then coerce_cell L (r ! k) else r ! k) [0..<length r])
             [j := coerce_cell L (map (\<lambda>k. if P k then coerce_cell L (r ! k) else r ! k) [0..<length r] ! j)] =
           map (\<lambda>k. if k = j \<or> P k then coerce_cell L (r ! k) else r ! k) [0..<length r]"
    for r :: "cell list"
  proof (rule nth_equalityI)
    fix i assume "i < length ((map (\<lambda>k. if P k then coerce_cell L (r ! k) else r ! k) [0..<length r])
             [j := coerce_cell L (map (\<lambda>k. if P k then coerce_cell L (r ! k) else r ! k) [0..<length r] ! j)])"
    then have i: "i < length r" by simp
    show "(map (\<lambda>k. if P k then coerce_cell L (r ! k) else r ! k) [0..<length r])
             [j := coerce_cell L (map (\<lambda>k. if P k then coerce_cell L (r ! k) else r ! k) [0..<length r] ! j)] ! i =
           map (\<lambda>k. if k = j \<or> P k then coerce_cell L (r ! k) else r ! k) [0..<length r] ! i"
      using i assms(1) by (cases "i = j") simp_all
  qed simp
  have "coerce_column L j (coerce_where P L df) =
      set_dtype j (coerced_dtype L (column_values df j))
        (map_column j (coerce_cell L) (coerce_where P L df))"
    by (simp add: coerce_column_def cv)
  also have "\<dots> = coerce_where (\<lambda>k. k = j \<or> P k) L df"
    using assms
    by (simp add: set_dtype_def map_column_def coerce_where_def c r case_prod_unfold comp_def)
  finally show ?thesis .
qed

lemma coerce_fold:
  assumes "distinct js" and "\<forall>j\<in>set js. j \<notin> S \<and> j < length (columns df) \<and> snd (columns df ! j) = ObjectT"
  shows "foldl (\<lambda>processed column.
                    if looks_like_numeric_series L (column_values processed column)
                    then coerce_column L column processed else processed)
           (coerce_where (\<lambda>k. k \<in> S \<and> converts L df k) L df) js =
         coerce_where (\<lambda>k. k \<in> S \<union> set js \<and> converts L df k) L df"
  using assms
proof (induction js arbitrary: S)
  case Nil
  then show ?case by simp
next
  case (Cons j js)
  let ?P = "\<lambda>k. k \<in> S \<and> converts L df k"
  from Cons.prems have j: "j \<notin> S" "j < length (columns df)" "snd (columns df ! j) = ObjectT"
    by auto
  have cv: "column_values (coerce_where ?P L df) j = column_values df j"
    using j by (simp add: column_values_coerce_where)
  have looks: "looks_like_numeric_series L (column_values df j) = converts L df j"
    using j by (simp add: converts_def)
  have step: "(if looks_like_numeric_series L (column_values (coerce_where ?P L df) j)
               then coerce_column L j (coerce_where ?P L df) else coerce_where ?P L df) =
              coerce_where (\<lambda>k. k \<in> insert j S \<and> converts L df k) L df"
  proof (cases "converts L df j")
    case True
    then show ?thesis
      using coerce_column_coerce_where [of ?P j df L] j
      by (simp add: cv looks) (rule coerce_where_cong, auto)
  next
    case False
    then show ?thesis
      by (simp add: cv looks) (rule coerce_where_cong, auto)
  qed
  have "\<forall>k\<in>set js. k \<notin> insert j S \<and> k < length (columns df) \<and> snd (columns df ! k) = ObjectT"
    using Cons.prems by auto
  moreover have "distinct js" using Cons.prems by simp
  ultimately show ?case
    using Cons.IH [of "insert j S"] by (simp add: step)
qed

lemma set_object_columns:
  "set (object_columns df) = {j. j < length (columns df) \<and> snd (columns df ! j) = ObjectT}"
  "distinct (object_columns df)"
  by (auto simp: object_columns_def columns_of_dtype_def)

lemma coerce_numeric_refines:
  "cfg_bool config ''coerce_numeric_columns'' True \<Longrightarrow>
   coerce_numeric_like_columns L df config = spec_coerce_numeric L df"
proof -
  assume on: "cfg_bool config ''coerce_numeric_columns'' True"
  have "foldl (\<lambda>processed column.
                    if looks_like_numeric_series L (column_values processed column)
                    then coerce_column L column processed else processed)
           (coerce_where (\<lambda>k. k \<in> {} \<and> converts L df k) L df) (object_columns df) =
         coerce_where (\<lambda>k. k \<in> {} \<union> set (object_columns df) \<and> converts L df k) L df"
    by (rule coerce_fold) (auto simp: set_object_columns)
  moreover have "coerce_where (\<lambda>k. k \<in> {} \<and> converts L df k) L df = df"
    using coerce_where_none by simp
  moreover have "coerce_where (\<lambda>k. k \<in> {} \<union> set (object_columns df) \<and> converts L df k) L df =
      coerce_where (converts L df) L df"
    by (rule coerce_where_cong) (auto simp: set_object_columns converts_def)
  ultimately show ?thesis
    using on by (simp add: coerce_numeric_like_columns_def spec_coerce_numeric_def)
qed

lemma looks_like_numeric_iff:
  "looks_like_numeric_series L cells \<longleftrightarrow>
     (\<exists>c\<in>set cells. c \<noteq> Null) \<and>
     (\<forall>c\<in>set cells. c \<noteq> Null \<longrightarrow>
        numeric_pattern (py_strip (remove_commas (cell_str L ObjectT c))))"
  by (auto simp: looks_like_numeric_series_def Let_def list_all_iff filter_empty_conv)

lemma test_mixed_coerced:
  "coerce_numeric_like_columns test_lib test_mixed (dict_of get_default_preprocess_config) =
     \<lparr>columns = [(''n'', NumberT ''int64''), (''t'', ObjectT), (''e'', ObjectT)],
      rows = [(0, [Num 1000, Text ''7'', Null]), (1, [Num 20, Text ''x'', Null])]\<rparr>"
  by code_simp

lemma set_first_occurrences [simp]: "set (first_occurrences xs) = set xs"
  by (simp add: first_occurrences_def)

lemma distinct_first_occurrences [simp]: "distinct (first_occurrences xs)"
  by (simp add: first_occurrences_def)

lemma set_value_counts: "set (value_counts xs) = (\<lambda>v. (v, count_list xs v)) ` set xs"
  by (simp add: value_counts_def)

lemma distinct_value_counts: "distinct (map fst (value_counts xs))"
proof -
  have "distinct (value_counts xs)"
    by (simp add: value_counts_def distinct_map inj_on_def)
  moreover have "inj_on fst (set (value_counts xs))"
    by (auto simp: set_value_counts inj_on_def)
  ultimately show ?thesis
    by (simp add: distinct_map)
qed

lemma value_counts_Nil_iff: "value_counts xs = [] \<longleftrightarrow> xs = []"
proof -
  have "set (value_counts xs) = {} \<longleftrightarrow> set xs = {}"
    by (simp add: set_value_counts)
  then show ?thesis by simp
qed

lemma label_distribution_lookup:
  assumes "distr = map (\<lambda>(key, value). (cell_str L t key, JNum (of_nat value))) (value_counts xs)"
  shows "k \<notin> cell_str L t ` set xs \<Longrightarrow> dict_of distr k = None"
    and "inj_on (cell_str L t) (set xs) \<Longrightarrow> c \<in> set xs \<Longrightarrow>
         dict_of distr (cell_str L t c) = Some (JNum (of_nat (count_list xs c)))"
proof -
  have keys: "map fst distr = map (cell_str L t) (map fst (value_counts xs))"
    by (simp add: assms comp_def case_prod_unfold)
  have fs: "set (map fst (value_counts xs)) = set xs"
    by (simp add: set_value_counts image_image)
  show "dict_of distr k = None" if "k \<notin> cell_str L t ` set xs"
  proof -
    have "k \<notin> set (map fst (rev distr))"
      using that keys fs by (metis list.set_map set_rev rev_map)
    then show ?thesis
      unfolding dict_of_def by (simp add: map_of_eq_None_iff)
  qed
  show "dict_of distr (cell_str L t c) = Some (JNum (of_nat (count_list xs c)))"
    if inj: "inj_on (cell_str L t) (set xs)" and c: "c \<in> set xs"
  proof -
    have "inj_on (cell_str L t) (set (map fst (value_counts xs)))"
      using inj fs by simp
    then have "distinct (map fst distr)"
      unfolding keys using distinct_value_counts [of xs]
      by (subst distinct_map) blast
    then have d: "distinct (map fst (rev distr))"
      by (simp add: rev_map [symmetric])
    have "(c, count_list xs c) \<in> set (value_counts xs)"
      using c by (simp add: set_value_counts)
    then have "(cell_str L t c, JNum (of_nat (count_list xs c))) \<in> set (rev distr)"
      unfolding assms by force
    then show ?thesis
      unfolding dict_of_def using d by (rule map_of_is_SomeI [rotated])
  qed
qed

lemma column_values_Nil_iff: "column_values df j = [] \<longleftrightarrow> rows df = []"
  by (simp add: column_values_def)

lemma compare_versions_label_changed:
  assumes "compare_versions L now repo va vb = Inr (res, repo')"
  shows "\<exists>da db ma mb a b.
     version_dir repo va = Some da \<and> version_dir repo vb = Some db \<and>
     load_metadata L da = Inr ma \<and> load_metadata L db = Inr mb \<and>
     json_get ma ''label_distribution'' (JObj []) = Inr a \<and>
     json_get mb ''label_distribution'' (JObj []) = Inr b \<and>
     dict_get res ''label_distribution_changed'' = Some (JBool (\<not> py_eq a b))"
  using assms
  by (auto simp: compare_versions_def read_diff_inputs_def bind_err_eq_Inr Let_def dict_get_def
      dict_of_def split: option.splits)

lemma map_cells_where_none: "map_cells_where (\<lambda>k. False) f df = df"
proof -
  have "map (\<lambda>(i, r). (i, map ((!) r) [0..<length r])) rs = rs" for rs :: "(nat \<times> cell list) list"
    by (induction rs) (auto simp: map_nth)
  then show ?thesis
    by (simp add: map_cells_where_def)
qed

lemma map_cells_where_cong:
  "(\<And>k. P k = Q k) \<Longrightarrow> map_cells_where P f df = map_cells_where Q f df"
  by (simp add: map_cells_where_def)

lemma columns_map_cells_where [simp]: "columns (map_cells_where P f df) = columns df"
  by (simp add: map_cells_where_def)

lemma map_column_map_cells_where:
  assumes "\<not> P j"
  shows "map_column j f (map_cells_where P f df) = map_cells_where (\<lambda>k. k = j \<or> P k) f df"
proof -
  have r: "(map (\<lambda>k. if P k then f (r ! k) else r ! k) [0..<length r])
             [j := f (map (\<lambda>k. if P k then f (r ! k) else r ! k) [0..<length r] ! j)] =
           map (\<lambda>k. if k = j \<or> P k then f (r ! k) else r ! k) [0..<length r]"
    for r :: "cell list"
  proof (rule nth_equalityI)
    fix i assume "i < length ((map (\<lambda>k. if P k then f (r ! k) else r ! k) [0..<length r])
             [j := f (map (\<lambda>k. if P k then f (r ! k) else r ! k) [0..<length r] ! j)])"
    then have i: "i < length r" by simp
    show "(map (\<lambda>k. if P k then f (r ! k) else r ! k) [0..<length r])
             [j := f (map (\<lambda>k. if P k then f (r ! k) else r ! k) [0..<length r] ! j)] ! i =
           map (\<lambda>k. if k = j \<or> P k then f (r ! k) else r ! k) [0..<length r] ! i"
      using i assms by (cases "i = j") simp_all
  qed simp
  show ?thesis
    by (simp add: map_column_def map_cells_where_def r case_prod_unfold comp_def)
qed

lemma map_column_fold:
  assumes "distinct js" and "\<forall>j\<in>set js. j \<notin> S"
  shows "foldl (\<lambda>processed column. map_column column f processed)
           (map_cells_where (\<lambda>k. k \<in> S) f df) js =
         map_cells_where (\<lambda>k. k \<in> S \<union> set js) f df"
  using assms
proof (induction js arbitrary: S)
  case Nil
  then show ?case by simp
next
  case (Cons j js)
  from Cons.prems have j: "j \<notin> S" by simp
  have step: "map_column j f (map_cells_where (\<lambda>k. k \<in> S) f df) =
      map_cells_where (\<lambda>k. k \<in> insert j S) f df"
    using map_column_map_cells_where [of "\<lambda>k. k \<in> S" j f df] j
    by simp
  have "\<forall>k\<in>set js. k \<notin> insert j S" "distinct js"
    using Cons.prems by auto
  then show ?case
    using Cons.IH [of "insert j S"] by (simp add: step)
qed

lemma text_columns_fold:
  "foldl (\<lambda>processed column. map_column column f processed) df (object_columns df) =
   map_text_cells f df"
proof -
  have "foldl (\<lambda>processed column. map_column column f processed)
           (map_cells_where (\<lambda>k. k \<in> {}) f df) (object_columns df) =
         map_cells_where (\<lambda>k. k \<in> {} \<union> set (object_columns df)) f df"
    by (rule map_column_fold) (auto simp: set_object_columns)
  moreover have "map_cells_where (\<lambda>k. k \<in> {}) f df = df"
    using map_cells_where_none by simp
  moreover have "map_cells_where (\<lambda>k. k \<in> {} \<union> set (object_columns df)) f df = map_text_cells f df"
    unfolding map_text_cells_def
    by (rule map_cells_where_cong) (auto simp: set_object_columns)
  ultimately show ?thesis by simp
qed

lemma foldl_skip: "foldl (\<lambda>processed column. processed) df js = df"
  by (induction js) simp_all

lemma drop_duplicates_from_spec:
  "drop_duplicates_from seen rs =
     map (\<lambda>k. rs ! k)
       (filter (\<lambda>k. snd (rs ! k) \<notin> set seen \<and> (\<forall>k'<k. snd (rs ! k') \<noteq> snd (rs ! k)))
          [0..<length rs])"
proof (induction rs arbitrary: seen)
  case Nil
  then show ?case by simp
next
  case (Cons ir rest)
  obtain i r where ir: "ir = (i, r)" by (cases ir)
  let ?C = "\<lambda>k. snd ((ir # rest) ! k) \<notin> set seen \<and>
                (\<forall>k'<k. snd ((ir # rest) ! k') \<noteq> snd ((ir # rest) ! k))"
  have up: "[0..<length (ir # rest)] = 0 # map Suc [0..<length rest]"
    by (simp add: upt_conv_Cons map_Suc_upt del: upt_Suc)
  have all: "(\<forall>k'<Suc k. snd ((ir # rest) ! k') \<noteq> x) \<longleftrightarrow>
      (r \<noteq> x \<and> (\<forall>k'<k. snd (rest ! k') \<noteq> x))" for k x
    by (auto simp: ir less_Suc_eq_0_disj)
  have sr: "snd ir = r" by (simp add: ir)
  have c0: "?C 0 \<longleftrightarrow> r \<notin> set seen"
    by (simp add: ir)
  have cs: "?C (Suc k) \<longleftrightarrow>
      (snd (rest ! k) \<notin> set seen \<and> r \<noteq> snd (rest ! k) \<and>
       (\<forall>k'<k. snd (rest ! k') \<noteq> snd (rest ! k)))" for k
    using all [of k "snd (rest ! k)"] by simp
  have rhs: "map (\<lambda>k. (ir # rest) ! k) (filter ?C [0..<length (ir # rest)]) =
      (if r \<notin> set seen then [ir] else []) @
      map (\<lambda>k. rest ! k)
        (filter (\<lambda>k. snd (rest ! k) \<notin> set seen \<and> r \<noteq> snd (rest ! k) \<and>
                   (\<forall>k'<k. snd (rest ! k') \<noteq> snd (rest ! k))) [0..<length rest])"
    unfolding up using sr by (simp add: filter_map comp_def all del: upt_Suc)
  show ?case
  proof (cases "r \<in> set seen")
    case True
    have "filter (\<lambda>k. snd (rest ! k) \<notin> set seen \<and> r \<noteq> snd (rest ! k) \<and>
              (\<forall>k'<k. snd (rest ! k') \<noteq> snd (rest ! k))) [0..<length rest] =
          filter (\<lambda>k. snd (rest ! k) \<notin> set seen \<and>
              (\<forall>k'<k. snd (rest ! k') \<noteq> snd (rest ! k))) [0..<length rest]"
      using True by (intro filter_cong) auto
    then show ?thesis
      unfolding rhs using True Cons.IH [of seen] by (simp add: ir)
  next
    case False
    have "filter (\<lambda>k. snd (rest ! k) \<notin> set seen \<and> r \<noteq> snd (rest ! k) \<and>
              (\<forall>k'<k. snd (rest ! k') \<noteq> snd (rest ! k))) [0..<length rest] =
          filter (\<lambda>k. snd (rest ! k) \<notin> set (r # seen) \<and>
              (\<forall>k'<k. snd (rest ! k') \<noteq> snd (rest ! k))) [0..<length rest]"
      by (intro filter_cong) auto
    then show ?thesis
      unfolding rhs using False Cons.IH [of "r # seen"] by (simp add: ir)
  qed
qed

lemma drop_duplicates_refines: "drop_duplicates df = spec_drop_duplicates df"
  by (simp add: drop_duplicates_def spec_drop_duplicates_def drop_duplicates_from_spec)

lemma normalize_unwanted_values_Inr:
  assumes "normalize_unwanted_values L df merged = Inr p"
  shows "\<exists>unwanted.
     json_iter (cfg_get merged ''unwanted_values'' default_unwanted_values) = Inr unwanted \<and>
     p = map_text_cells (nullify_cell L (map (\<lambda>item. py_lower (py_strip (py_str L item))) unwanted)) df"
  using assms
  by (auto simp: normalize_unwanted_values_def bind_err_eq_Inr Let_def text_columns_fold)

lemma cleanup_loop:
  "foldl (\<lambda>processed column.
            if cfg_bool merged ''cleanup_text'' True
            then map_column column (cleanup_cell L merged) processed
            else processed)
     df (object_columns df) =
   step_if (cfg_bool merged ''cleanup_text'' True) (map_text_cells (cleanup_cell L merged)) df"
  by (cases "cfg_bool merged ''cleanup_text'' True")
     (simp_all add: step_if_def text_columns_fold foldl_skip)

lemma coerce_step:
  "coerce_numeric_like_columns L df merged =
   step_if (cfg_bool merged ''coerce_numeric_columns'' True) (spec_coerce_numeric L) df"
proof (cases "cfg_bool merged ''coerce_numeric_columns'' True")
  case True
  then show ?thesis by (simp add: step_if_def coerce_numeric_refines)
next
  case False
  then show ?thesis by (simp add: step_if_def coerce_numeric_like_columns_def)
qed

lemma sort_values_props:
  "sorted (map row_key (rows (sort_values d)))"
  "filter (\<lambda>r. row_key r = key) (rows (sort_values d)) = filter (\<lambda>r. row_key r = key) (rows d)"
  "columns (sort_values d) = columns d"
  by (simp_all add: sort_values_def sort_key_stable)

lemma nulls_last: "c \<noteq> Null \<Longrightarrow> cell_key c < cell_key Null"
  by (cases c) (simp_all add: cell_key_def)

lemma fold_map_column:
  assumes "distinct js"
  shows "foldl (\<lambda>processed column. map_column column f processed) df js =
         map_cells_where (\<lambda>k. k \<in> set js) f df"
proof -
  have "foldl (\<lambda>processed column. map_column column f processed)
           (map_cells_where (\<lambda>k. k \<in> {}) f df) js =
         map_cells_where (\<lambda>k. k \<in> {} \<union> set js) f df"
    by (rule map_column_fold) (use assms in auto)
  moreover have "map_cells_where (\<lambda>k. k \<in> {}) f df = df"
    using map_cells_where_none by simp
  ultimately show ?thesis by simp
qed

lemma set_number_columns:
  "set (number_columns df) = {j. j < length (columns df) \<and> is_number (snd (columns df ! j))}"
  "distinct (number_columns df)"
  by (auto simp: number_columns_def)

lemma set_bool_columns:
  "set (columns_of_dtype BoolT df) = {j. j < length (columns df) \<and> snd (columns df ! j) = BoolT}"
  "distinct (columns_of_dtype BoolT df)"
  by (auto simp: columns_of_dtype_def)

lemma fillna_columns_ok:
  assumes "fill_value numeric v = Inr c" and "distinct cols"
  shows "fillna_columns cols numeric v df =
     Inr (map_cells_where (\<lambda>k. k \<in> set cols) (\<lambda>x. if x = Null then c else x) df)"
proof (cases "cols = []")
  case True
  then show ?thesis
    using map_cells_where_none [of "\<lambda>x. if x = Null then c else x" df]
    by (simp add: fillna_columns_def)
next
  case False
  then show ?thesis
    using assms by (simp add: fillna_columns_def fold_map_column)
qed

lemma map_cells_where_map_cells:
  "map_cells_where P f df = map_cells (\<lambda>k c. if P k then f c else c) df"
  by (simp add: map_cells_where_def map_cells_def)

lemma map_cells_comp: "map_cells h2 (map_cells h1 df) = map_cells (\<lambda>k c. h2 k (h1 k c)) df"
proof -
  have "map (\<lambda>k. h2 k (map (\<lambda>k. h1 k (r ! k)) [0..<length r] ! k)) [0..<length r] =
        map (\<lambda>k. h2 k (h1 k (r ! k))) [0..<length r]" for r :: "cell list"
    by (rule map_cong [OF refl]) simp
  then show ?thesis
    by (simp add: map_cells_def comp_def case_prod_unfold)
qed

lemma map_cells_cong:
  "(\<And>k c. h1 k c = h2 k c) \<Longrightarrow> map_cells h1 df = map_cells h2 df"
  by (simp add: map_cells_def)

lemma dtype_cases: "t = ObjectT \<or> t = BoolT \<or> is_number t"
  by (cases t) (simp_all add: is_number_def)

lemma fill_three:
  "map_cells_where (\<lambda>k. k \<in> set (columns_of_dtype BoolT df)) (\<lambda>x. if x = Null then tf else x)
     (map_cells_where (\<lambda>k. k \<in> set (number_columns df)) (\<lambda>x. if x = Null then nf else x)
        (map_cells_where (\<lambda>k. k \<in> set (object_columns df)) (\<lambda>x. if x = Null then tf else x) df)) =
   fill_nulls tf nf df"
proof -
  have f: "fill_nulls tf nf df =
      map_cells (\<lambda>k c. if c = Null \<and> k < length (columns df)
                        then (if is_number (snd (columns df ! k)) then nf else tf) else c) df"
    by (simp add: fill_nulls_def map_cells_def)
  show ?thesis
    unfolding map_cells_where_map_cells map_cells_comp f
    apply (rule map_cells_cong)
    subgoal for k c
      using dtype_cases [of "snd (columns df ! k)"]
      by (auto simp: set_object_columns set_number_columns set_bool_columns is_number_def)
    done
qed

lemma fill_strategy:
  "bind_err (fillna_columns (object_columns d) False (JStr s) d)
     (\<lambda>processed.
        bind_err (fillna_columns (number_columns d) True (JNum n) processed)
          (\<lambda>processed. fillna_columns (columns_of_dtype BoolT d) False (JStr s) processed)) =
   Inr (fill_nulls (Text s) (Num n) d)"
proof -
  have t: "fill_value False (JStr s) = Inr (Text s)" and m: "fill_value True (JNum n) = Inr (Num n)"
    by (simp_all add: fill_value_def)
  show ?thesis
    by (simp add: fillna_columns_ok [OF t set_object_columns(2)]
        fillna_columns_ok [OF m set_number_columns(2)]
        fillna_columns_ok [OF t set_bool_columns(2)] fill_three)
qed

lemma null_strategy_stage:
  assumes "apply_null_strategy L d merged = Inr nulled"
    and "strategy = (let s = py_lower (py_strip (py_str L (cfg_get merged ''null_strategy'' (JStr ''drop_any''))))
                     in if s = [] \<or> cfg_bool merged ''drop_nulls'' True \<and> s = ''keep''
                        then ''drop_any'' else s)"
  shows "(strategy = ''drop_any'' \<longrightarrow> nulled = d\<lparr>rows := filter (\<lambda>ir. Null \<notin> set (snd ir)) (rows d)\<rparr>) \<and>
         (strategy = ''drop_all'' \<longrightarrow>
            nulled = d\<lparr>rows := filter (\<lambda>ir. \<exists>c\<in>set (snd ir). c \<noteq> Null) (rows d)\<rparr>) \<and>
         (strategy = ''fill'' \<longrightarrow>
            (\<forall>s n. cfg_get merged ''null_fill_text'' (JStr []) = JStr s \<and>
                   cfg_get merged ''null_fill_numeric'' (JNum 0) = JNum n \<longrightarrow>
                   nulled = fill_nulls (Text s) (Num n) d)) \<and>
         (strategy \<notin> {''drop_any'', ''drop_all'', ''fill''} \<longrightarrow> nulled = d)"
proof -
  let ?s = "py_lower (py_strip (py_str L (cfg_get merged ''null_strategy'' (JStr ''drop_any''))))"
  have any: "dropna_any d = d\<lparr>rows := filter (\<lambda>ir. Null \<notin> set (snd ir)) (rows d)\<rparr>"
    by (simp add: dropna_any_def list_ex_iff case_prod_unfold)
  have all: "dropna_all d = d\<lparr>rows := filter (\<lambda>ir. \<exists>c\<in>set (snd ir). c \<noteq> Null) (rows d)\<rparr>"
    by (simp add: dropna_all_def list_all_iff case_prod_unfold)
  have e: "apply_null_strategy L d merged =
      (if strategy = ''drop_any'' then Inr (dropna_any d)
       else if strategy = ''drop_all'' then Inr (dropna_all d)
       else if strategy = ''fill'' then
         bind_err (fillna_columns (object_columns d) False (cfg_get merged ''null_fill_text'' (JStr [])) d)
           (\<lambda>processed.
              bind_err (fillna_columns (number_columns d) True
                          (cfg_get merged ''null_fill_numeric'' (JNum 0)) processed)
                (\<lambda>processed.
                   fillna_columns (columns_of_dtype BoolT d) False
                     (cfg_get merged ''null_fill_text'' (JStr [])) processed))
       else Inr d)"
    unfolding assms(2) by (auto simp: apply_null_strategy_def Let_def)
  show ?thesis
    using assms(1) unfolding e
    by (auto simp: any all fill_strategy)
qed

lemma normalize_unwanted_values_stage:
  assumes "normalize_unwanted_values L df merged = Inr p"
  shows "\<exists>unwanted.
     json_iter (cfg_get merged ''unwanted_values'' default_unwanted_values) = Inr unwanted \<and>
     p = map_text_cells
           (\<lambda>c. if py_lower (py_strip (cell_str L ObjectT c)) \<in>
                    (\<lambda>item. py_lower (py_strip (py_str L item))) ` set unwanted
                 then Null else c) df"
proof -
  from normalize_unwanted_values_Inr [OF assms] obtain unwanted where
    u: "json_iter (cfg_get merged ''unwanted_values'' default_unwanted_values) = Inr unwanted" and
    p: "p = map_text_cells (nullify_cell L (map (\<lambda>item. py_lower (py_strip (py_str L item))) unwanted)) df"
    by blast
  have "nullify_cell L (map (\<lambda>item. py_lower (py_strip (py_str L item))) unwanted) =
      (\<lambda>c. if py_lower (py_strip (cell_str L ObjectT c)) \<in>
                    (\<lambda>item. py_lower (py_strip (py_str L item))) ` set unwanted
                 then Null else c)"
    by (rule ext) (simp add: nullify_cell_def)
  with u p show ?thesis by simp
qed

lemma cleanup_cell_eq:
  "cleanup_cell L merged =
     (\<lambda>c. if c = Null then Null else Text (cleanup_text_with_config L (cell_str L ObjectT c) merged))"
  by (rule ext) (simp add: cleanup_cell_def)

subsection \<open>The log\<close>

text \<open>
  Claim C8, as the code has it. \<^verbatim>\<open>read_logs\<close> catches \<^verbatim>\<open>JSONDecodeError\<close> and nothing else.
  It returns the empty sequence when the log file exists, its bytes are UTF-8, and its text
  is blank, or is rejected by \<^verbatim>\<open>json.loads\<close> with \<^verbatim>\<open>JSONDecodeError\<close>, or is JSON that is not an
  array; it returns the stored sequence when the text is a JSON array. It raises
  \<^verbatim>\<open>FileNotFoundError\<close> when the log file is missing (such a repository does not pass
  \<^verbatim>\<open>_ensure_initialized\<close> either), \<^verbatim>\<open>UnicodeDecodeError\<close> when the bytes of the file are not
  UTF-8, and every other exception that \<^verbatim>\<open>json.loads\<close> raises on the text.
\<close>

theorem read_logs_defensive:
  "(logs_file repo = None \<longrightarrow>
      read_logs L repo = Inl FileNotFoundError \<and>
      ensure_initialized repo = Inl RepositoryNotInitializedError) \<and>
   (\<forall>b. logs_file repo = Some b \<longrightarrow>
      (text_decode L b = None \<longrightarrow> read_logs L repo = Inl UnicodeDecodeError) \<and>
      (\<forall>t. text_decode L b = Some t \<longrightarrow>
         (py_strip t = [] \<longrightarrow> read_logs L repo = Inr []) \<and>
         (py_strip t \<noteq> [] \<longrightarrow>
            (json_loads L (py_strip t) = Inl JSONDecodeError \<longrightarrow> read_logs L repo = Inr []) \<and>
            (\<forall>e. json_loads L (py_strip t) = Inl e \<and> e \<noteq> JSONDecodeError \<longrightarrow>
                  read_logs L repo = Inl e) \<and>
            (\<forall>v. json_loads L (py_strip t) = Inr v \<and> (\<forall>xs. v \<noteq> JList xs) \<longrightarrow>
                  read_logs L repo = Inr []) \<and>
            (\<forall>xs. json_loads L (py_strip t) = Inr (JList xs) \<longrightarrow> read_logs L repo = Inr xs))))"
proof (intro conjI impI allI)
  fix b assume b: "logs_file repo = Some b"
  show "read_logs L repo = Inl UnicodeDecodeError" if "text_decode L b = None"
    using b that by (rule read_logs_undecodable)
  fix t assume t: "text_decode L b = Some t"
  note r = read_logs_decoded [OF b t]
  show "read_logs L repo = Inr []" if "py_strip t = []"
    using r that by simp
  assume n: "py_strip t \<noteq> []"
  show "read_logs L repo = Inr []" if "json_loads L (py_strip t) = Inl JSONDecodeError"
    using r n that by simp
  show "read_logs L repo = Inl e"
    if "json_loads L (py_strip t) = Inl e \<and> e \<noteq> JSONDecodeError" for e
    using r n that by simp
  show "read_logs L repo = Inr []"
    if "json_loads L (py_strip t) = Inr v \<and> (\<forall>xs. v \<noteq> JList xs)" for v
    using r n that by (cases v) auto
  show "read_logs L repo = Inr xs" if "json_loads L (py_strip t) = Inr (JList xs)" for xs
    using r n that by simp
qed (simp_all add: read_logs_missing ensure_initialized_def)

text \<open>The cases on concrete repositories: a log that is not JSON, a log that holds an array
  of one event, a blank log, and a parser that fails with \<^verbatim>\<open>RecursionError\<close>.\<close>

theorem read_logs_defensive_witness:
  "read_logs test_lib (test_repo\<lparr>logs_file := Some ''not json''\<rparr>) = Inr [] \<and>
   read_logs (test_lib\<lparr>json_loads := (\<lambda>s. if s = ''[e]'' then Inr (JList [JObj [(''event_type'', JStr ''commit'')]])
                                         else Inl JSONDecodeError)\<rparr>)
     (test_repo\<lparr>logs_file := Some ('' [e]'' @ LF)\<rparr>) = Inr [JObj [(''event_type'', JStr ''commit'')]] \<and>
   read_logs test_lib (test_repo\<lparr>logs_file := Some LF\<rparr>) = Inr [] \<and>
   read_logs (test_lib\<lparr>json_loads := (\<lambda>s. Inl RecursionError)\<rparr>)
     (test_repo\<lparr>logs_file := Some ''[[[[''\<rparr>) = Inl RecursionError"
proof -
  let ?one = "test_lib\<lparr>json_loads := (\<lambda>s. if s = ''[e]'' then Inr (JList [JObj [(''event_type'', JStr ''commit'')]])
                                         else Inl JSONDecodeError)\<rparr>"
  let ?deep = "test_lib\<lparr>json_loads := (\<lambda>s. Inl RecursionError)\<rparr>"
  have d1: "text_decode test_lib ''not json'' = Some ''not json''"
    and d2: "text_decode ?one ('' [e]'' @ LF) = Some ('' [e]'' @ LF)"
    and d3: "text_decode test_lib LF = Some LF"
    and d4: "text_decode ?deep ''[[[['' = Some ''[[[[''"
    by code_simp+
  have s1: "py_strip ''not json'' = ''not json''" and s2: "py_strip ('' [e]'' @ LF) = ''[e]''"
    and s3: "py_strip LF = []" and s4: "py_strip ''[[[['' = ''[[[[''"
    by (simp_all add: py_strip_def py_isspace_def LF_def)
  have a: "read_logs test_lib (test_repo\<lparr>logs_file := Some ''not json''\<rparr>) = Inr []"
    using read_logs_defensive [of "test_repo\<lparr>logs_file := Some ''not json''\<rparr>" test_lib] d1 s1
    by (simp add: test_lib_def)
  have b: "read_logs ?one (test_repo\<lparr>logs_file := Some ('' [e]'' @ LF)\<rparr>) =
      Inr [JObj [(''event_type'', JStr ''commit'')]]"
    using read_logs_defensive [of "test_repo\<lparr>logs_file := Some ('' [e]'' @ LF)\<rparr>" ?one] d2 s2
    by simp
  have c: "read_logs test_lib (test_repo\<lparr>logs_file := Some LF\<rparr>) = Inr []"
    using read_logs_defensive [of "test_repo\<lparr>logs_file := Some LF\<rparr>" test_lib] d3 s3
    by simp
  have d: "read_logs ?deep (test_repo\<lparr>logs_file := Some ''[[[[''\<rparr>) = Inl RecursionError"
    using read_logs_defensive [of "test_repo\<lparr>logs_file := Some ''[[[[''\<rparr>" ?deep] d4 s4
    by simp
  show ?thesis using a b c d by simp
qed

text \<open>The claim as the specification words it fails on a repository whose log file is
  missing, and on one whose log file holds bytes that are not UTF-8: the read raises instead
  of returning the empty sequence.\<close>

theorem read_logs_missing_counterexample:
  "read_logs test_lib (test_repo\<lparr>logs_file := None\<rparr>) = Inl FileNotFoundError \<and>
   read_logs test_lib (test_repo\<lparr>logs_file := None\<rparr>) \<noteq> Inr [] \<and>
   read_logs test_lib (test_repo\<lparr>logs_file := Some [CHR 0xFF, CHR 0xFE]\<rparr>) = Inl UnicodeDecodeError \<and>
   read_logs test_lib (test_repo\<lparr>logs_file := Some [CHR 0xFF, CHR 0xFE]\<rparr>) \<noteq> Inr []"
  by code_simp




subsection \<open>The commit engine\<close>

text \<open>
  Claim C1. The version id that \<^verbatim>\<open>_persist_version\<close> returns is the SHA-256 digest of the
  canonical bytes of the processed table. The canonical bytes are the UTF-8 encoding of the
  CSV text: a character below U+0080 is one byte, a character from U+0080 to U+00FF the two
  bytes \<^verbatim>\<open>110xxxxx 10xxxxxx\<close>. The CSV text is the record of the column labels followed by one
  record per row, in the table's order and without the index, each record ended by the line
  feed U+000A; a missing value is the empty field and a number is printed as the dtype of
  its column has it. The version directory of that name exists afterwards, and a created
  version stores the same bytes as \<^verbatim>\<open>processed.csv\<close> and the same id as \<^verbatim>\<open>version_id\<close> and
  \<^verbatim>\<open>version_hash\<close> of its metadata. Hence two commits whose processed tables have the same
  bytes return the same version id, whatever their inputs, configurations and repositories.
  In each of the three intake modes the version id of a commit is the digest of the
  canonical bytes of the table that the preprocessing returned.
\<close>

theorem version_id_is_content_hash:
  assumes "persist_version L now1 repo1 sdp1 scp1 ib1 raw1 processed1 config1 msg1 = Inr (res1, repo1')"
    and "persist_version L now2 repo2 sdp2 scp2 ib2 raw2 processed2 config2 msg2 = Inr (res2, repo2')"
  shows "dict_get res1 ''version_id'' =
       Some (JStr (sha256_hex L (dataframe_to_stable_csv_bytes L processed1))) \<and>
     dataframe_to_stable_csv_bytes L processed1 = utf8_encode (to_csv L processed1) \<and>
     (\<forall>s t. utf8_encode (s @ t) = utf8_encode s @ utf8_encode t) \<and>
     (\<forall>c. utf8_encode [c] =
          (if (of_char c :: nat) < 128 then [c]
           else [char_of (192 + (of_char c :: nat) div 64), char_of (128 + (of_char c :: nat) mod 64)])) \<and>
     to_csv L processed1 =
       csv_record L (map fst (columns processed1)) @ [CHR 0x0A] @
       concat (map (\<lambda>(i, r). csv_record L (map (\<lambda>(t, c). cell_csv L t c)
                                  (zip (map snd (columns processed1)) r)) @ [CHR 0x0A])
                 (rows processed1)) \<and>
     (\<forall>t s n b. cell_csv L t Null = [] \<and> cell_csv L t (Text s) = s \<and>
              cell_csv L t (Num n) = num_csv L t n \<and>
              cell_csv L t (Flag b) = (if b then ''True'' else ''False'')) \<and>
     version_exists repo1' (sha256_hex L (dataframe_to_stable_csv_bytes L processed1)) \<and>
     (dict_get res1 ''status'' = Some (JStr ''created'') \<longrightarrow>
        (\<exists>d metadata.
           version_dir repo1' (sha256_hex L (dataframe_to_stable_csv_bytes L processed1)) = Some d \<and>
           d ''processed.csv'' = Some (dataframe_to_stable_csv_bytes L processed1) \<and>
           d ''metadata.json'' = Some (text_encode L (json_dumps L False True metadata @ LF)) \<and>
           dict_get metadata ''version_id'' =
             Some (JStr (sha256_hex L (dataframe_to_stable_csv_bytes L processed1))) \<and>
           dict_get metadata ''version_hash'' =
             Some (JStr (sha256_hex L (dataframe_to_stable_csv_bytes L processed1))))) \<and>
     (dataframe_to_stable_csv_bytes L processed1 = dataframe_to_stable_csv_bytes L processed2 \<longrightarrow>
        dict_get res1 ''version_id'' = dict_get res2 ''version_id'') \<and>
     (\<forall>now files repo dataset_path config_path msg res repo'.
        create_version_from_paths L now files repo dataset_path config_path msg = Inr (res, repo') \<or>
        create_version_from_head L now files repo config_path msg = Inr (res, repo') \<or>
        create_version_from_raw_default L now files repo dataset_path msg = Inr (res, repo') \<longrightarrow>
        (\<exists>raw config processed.
           apply_deterministic_preprocessing L raw config = Inr processed \<and>
           dict_get res ''version_id'' =
             Some (JStr (sha256_hex L (dataframe_to_stable_csv_bytes L processed)))))"
proof -
  have vh: "version_hash_of L p = sha256_hex L (dataframe_to_stable_csv_bytes L p)" for p
    by (simp add: version_hash_of_def sha256_from_bytes_def)
  have modes: "\<exists>raw config processed.
           apply_deterministic_preprocessing L raw config = Inr processed \<and>
           dict_get res ''version_id'' =
             Some (JStr (sha256_hex L (dataframe_to_stable_csv_bytes L processed)))"
    if "create_version_from_paths L now files repo dataset_path config_path msg = Inr (res, repo') \<or>
        create_version_from_head L now files repo config_path msg = Inr (res, repo') \<or>
        create_version_from_raw_default L now files repo dataset_path msg = Inr (res, repo')"
    for now files repo dataset_path config_path msg res repo'
  proof -
    from that from_paths_persist from_head_persist from_raw_default_persist
    obtain sdp scp ib raw processed config where
      "apply_deterministic_preprocessing L raw config = Inr processed" and
      "persist_version L now repo sdp scp ib raw processed config msg = Inr (res, repo')"
      by metis
    then show ?thesis
      using version_id_of_result [of L now repo sdp scp ib raw processed config msg res repo'] vh
      by metis
  qed
  have bytes: "dataframe_to_stable_csv_bytes L processed1 = utf8_encode (to_csv L processed1)"
    by (simp add: dataframe_to_stable_csv_bytes_def)
  have app: "\<forall>s t. utf8_encode (s @ t) = utf8_encode s @ utf8_encode t"
    by (simp add: utf8_encode_def)
  have one: "\<forall>c. utf8_encode [c] =
          (if (of_char c :: nat) < 128 then [c]
           else [char_of (192 + (of_char c :: nat) div 64), char_of (128 + (of_char c :: nat) mod 64)])"
    by (simp add: utf8_encode_def Let_def)
  have csv: "to_csv L processed1 =
       csv_record L (map fst (columns processed1)) @ [CHR 0x0A] @
       concat (map (\<lambda>(i, r). csv_record L (map (\<lambda>(t, c). cell_csv L t c)
                                  (zip (map snd (columns processed1)) r)) @ [CHR 0x0A])
                 (rows processed1))"
    by (simp add: to_csv_def row_csv_def LF_def comp_def case_prod_unfold)
  have cells: "\<forall>t s n b. cell_csv L t Null = [] \<and> cell_csv L t (Text s) = s \<and>
              cell_csv L t (Num n) = num_csv L t n \<and>
              cell_csv L t (Flag b) = (if b then ''True'' else ''False'')"
    by (simp add: cell_csv_def)
  have id1: "dict_get res1 ''version_id'' = Some (JStr (version_hash_of L processed1))"
    and id2: "dict_get res2 ''version_id'' = Some (JStr (version_hash_of L processed2))"
    using assms(1) version_id_of_result apply blast
    using assms(2) version_id_of_result apply blast
    done
  from persist_version_cases [OF assms(1)] obtain parent old where
    c: "(version_exists repo1 (version_hash_of L processed1) \<and>
       res1 = JObj [(''status'', JStr ''duplicate''),
                (''version_id'', JStr (version_hash_of L processed1)),
                (''head'', json_opt parent),
                (''message'', JStr ''Identical processed output already committed.'')] \<and>
       repo1' = repo1\<lparr>logs_file := Some (text_encode L (json_dumps L False True
             (JList (old @ [dedupe_event_of L now1 sdp1 scp1 ib1 processed1 config1])) @ LF))\<rparr>) \<or>
      (\<not> version_exists repo1 (version_hash_of L processed1) \<and>
       (\<exists>distr. label_distribution L processed1 = Inr distr \<and>
          res1 = created_result L repo1 parent raw1 processed1 \<and>
          repo1' = set_head L (version_hash_of L processed1)
            ((archive_raw L sdp1 ib1 processed1
               (put_version_dir (version_hash_of L processed1)
                  (created_directory L ib1 processed1 config1
                     (commit_metadata L now1 parent sdp1 scp1 ib1 raw1 processed1 config1 msg1 distr)) repo1))
             \<lparr>logs_file := Some (text_encode L (json_dumps L False True
                (JList (old @ [commit_metadata L now1 parent sdp1 scp1 ib1 raw1 processed1 config1 msg1 distr])) @ LF))\<rparr>)))"
    by blast
  have stored: "version_exists repo1' (version_hash_of L processed1)"
    using c by (auto simp: version_exists_def created_version_dir) (simp add: version_dir_def)
  have created: "\<exists>d metadata.
           version_dir repo1' (version_hash_of L processed1) = Some d \<and>
           d ''processed.csv'' = Some (dataframe_to_stable_csv_bytes L processed1) \<and>
           d ''metadata.json'' = Some (text_encode L (json_dumps L False True metadata @ LF)) \<and>
           dict_get metadata ''version_id'' = Some (JStr (version_hash_of L processed1)) \<and>
           dict_get metadata ''version_hash'' = Some (JStr (version_hash_of L processed1))"
    if "dict_get res1 ''status'' = Some (JStr ''created'')"
  proof -
    from c that obtain distr where
      r: "repo1' = set_head L (version_hash_of L processed1)
            ((archive_raw L sdp1 ib1 processed1
               (put_version_dir (version_hash_of L processed1)
                  (created_directory L ib1 processed1 config1
                     (commit_metadata L now1 parent sdp1 scp1 ib1 raw1 processed1 config1 msg1 distr)) repo1))
             \<lparr>logs_file := Some (text_encode L (json_dumps L False True
                (JList (old @ [commit_metadata L now1 parent sdp1 scp1 ib1 raw1 processed1 config1 msg1 distr])) @ LF))\<rparr>)"
      by (auto simp: dict_get_def dict_of_def)
    show ?thesis
      unfolding r created_version_dir
      by (intro exI [of _ "created_directory L ib1 processed1 config1
                     (commit_metadata L now1 parent sdp1 scp1 ib1 raw1 processed1 config1 msg1 distr)"]
           exI [of _ "commit_metadata L now1 parent sdp1 scp1 ib1 raw1 processed1 config1 msg1 distr"])
         (simp add: created_directory_def dict_get_commit_metadata)
  qed
  have same: "dict_get res1 ''version_id'' = dict_get res2 ''version_id''"
    if "dataframe_to_stable_csv_bytes L processed1 = dataframe_to_stable_csv_bytes L processed2"
    using id1 id2 that by (simp add: version_hash_of_def)
  have main: "dict_get res1 ''version_id'' =
       Some (JStr (sha256_hex L (dataframe_to_stable_csv_bytes L processed1)))"
    using id1 unfolding vh .
  have stored': "version_exists repo1' (sha256_hex L (dataframe_to_stable_csv_bytes L processed1))"
    using stored unfolding vh .
  note created' = created [unfolded vh]
  show ?thesis
    apply (intro conjI)
    subgoal by (rule main)
    subgoal by (rule bytes)
    subgoal by (rule app)
    subgoal by (rule one)
    subgoal by (rule csv)
    subgoal by (rule cells)
    subgoal by (rule stored')
    subgoal using created' by blast
    subgoal using same by blast
    subgoal using modes by blast
    done
qed

text \<open>Two first commits into the empty repository, from different raw inputs and
  configurations, of one processed table that has text outside ASCII and a \<^verbatim>\<open>float64\<close> column:
  the letter U+00E9 is hashed as the bytes C3 A9, the number 1 as \<^verbatim>\<open>1.0\<close>, and each of the two
  lines with its line feed.\<close>

theorem version_id_is_content_hash_witness:
  "\<exists>res1 repo1' res2 repo2'.
     persist_version test_lib ''t0'' test_repo ''a.csv'' ''DEFAULT_CONFIG'' ''raw-a'' test_accent
       test_accent (JObj get_default_preprocess_config) ''first'' = Inr (res1, repo1') \<and>
     persist_version test_lib ''t1'' test_repo ''b.csv'' ''c.json'' ''raw-b'' test_accent
       test_accent (JObj [(''lowercase_text'', JBool False)]) ''other'' = Inr (res2, repo2') \<and>
     dict_get res1 ''version_id'' =
       Some (JStr (''sha-caf'' @ [CHR 0xC3, CHR 0xA9] @ '',n,/'' @ [CHR 0xC3, CHR 0xA9] @ '',1.0,/'')) \<and>
     dict_get res1 ''version_id'' = dict_get res2 ''version_id'' \<and>
     version_exists repo1'
       (''sha-caf'' @ [CHR 0xC3, CHR 0xA9] @ '',n,/'' @ [CHR 0xC3, CHR 0xA9] @ '',1.0,/'')"
proof -
  have distr: "label_distribution test_lib test_accent = Inr []"
    by code_simp
  note a = persist_version_created [OF test_repo_head test_repo_logs test_repo_no_version
      distr, of "''t0''" "''a.csv''" "''DEFAULT_CONFIG''" "''raw-a''" test_accent
      "JObj get_default_preprocess_config" "''first''"]
  note b = persist_version_created [OF test_repo_head test_repo_logs test_repo_no_version
      distr, of "''t1''" "''b.csv''" "''c.json''" "''raw-b''" test_accent
      "JObj [(''lowercase_text'', JBool False)]" "''other''"]
  have h: "sha256_hex test_lib (dataframe_to_stable_csv_bytes test_lib test_accent) =
      ''sha-caf'' @ [CHR 0xC3, CHR 0xA9] @ '',n,/'' @ [CHR 0xC3, CHR 0xA9] @ '',1.0,/''"
    by code_simp
  note c = version_id_is_content_hash [OF a b, unfolded h]
  from c have c1: "dict_get (created_result test_lib test_repo None test_accent test_accent) ''version_id''
      = Some (JStr (''sha-caf'' @ [CHR 0xC3, CHR 0xA9] @ '',n,/'' @ [CHR 0xC3, CHR 0xA9] @ '',1.0,/''))"
    by (rule conjunct1)
  from c have c2: "dict_get (created_result test_lib test_repo None test_accent test_accent) ''version_id''
      = dict_get (created_result test_lib test_repo None test_accent test_accent) ''version_id''"
    by blast
  from c have c3: "version_exists (set_head test_lib (version_hash_of test_lib test_accent)
            ((archive_raw test_lib ''a.csv'' ''raw-a'' test_accent
               (put_version_dir (version_hash_of test_lib test_accent)
                  (created_directory test_lib ''raw-a'' test_accent (JObj get_default_preprocess_config)
                     (commit_metadata test_lib ''t0'' None ''a.csv'' ''DEFAULT_CONFIG'' ''raw-a'' test_accent
                        test_accent (JObj get_default_preprocess_config) ''first'' [])) test_repo))
             \<lparr>logs_file := Some (text_encode test_lib (json_dumps test_lib False True
                (JList ([] @ [commit_metadata test_lib ''t0'' None ''a.csv'' ''DEFAULT_CONFIG'' ''raw-a'' test_accent
                        test_accent (JObj get_default_preprocess_config) ''first'' []])) @ LF))\<rparr>))
         (''sha-caf'' @ [CHR 0xC3, CHR 0xA9] @ '',n,/'' @ [CHR 0xC3, CHR 0xA9] @ '',1.0,/'')"
    by blast
  show ?thesis
    using a b c1 c2 c3 by blast
qed



text \<open>
  Claim C3. In each of the three intake modes, when a commit returns the status
  \<^verbatim>\<open>created\<close>, the \<^verbatim>\<open>parent_id\<close> it returns is the value that \<^verbatim>\<open>get_head\<close> gave on the repository
  as the commit found it (\<^verbatim>\<open>null\<close> when HEAD was unset), and the same value is the \<^verbatim>\<open>parent_id\<close>
  of the record written to \<^verbatim>\<open>metadata.json\<close> of the new version directory and appended to
  the log.
\<close>

theorem parent_linkage:
  assumes "commit = create_version_from_paths L now files repo dataset_path config_path msg \<or>
           commit = create_version_from_head L now files repo config_path msg \<or>
           commit = create_version_from_raw_default L now files repo dataset_path msg"
    and "commit = Inr (res, repo')"
    and "dict_get res ''status'' = Some (JStr ''created'')"
  shows "\<exists>parent vid d metadata old.
     get_head L repo = Inr parent \<and>
     dict_get res ''parent_id'' = Some (json_opt parent) \<and>
     dict_get res ''version_id'' = Some (JStr vid) \<and>
     version_dir repo' vid = Some d \<and>
     d ''metadata.json'' = Some (text_encode L (json_dumps L False True metadata @ LF)) \<and>
     dict_get metadata ''parent_id'' = Some (json_opt parent) \<and>
     read_logs L repo = Inr old \<and>
     logs_file repo' = Some (text_encode L (json_dumps L False True (JList (old @ [metadata])) @ LF))"
proof -
  from commit_modes_persist [OF assms(1,2)] obtain sdp scp ib raw processed config where
    pv: "persist_version L now repo sdp scp ib raw processed config msg = Inr (res, repo')"
    by blast
  from persist_version_cases [OF pv] assms(3) obtain parent old distr where
    p: "get_head L repo = Inr parent" and l: "read_logs L repo = Inr old" and
    res: "res = created_result L repo parent raw processed" and
    r: "repo' = set_head L (version_hash_of L processed)
            ((archive_raw L sdp ib processed
               (put_version_dir (version_hash_of L processed)
                  (created_directory L ib processed config
                     (commit_metadata L now parent sdp scp ib raw processed config msg distr)) repo))
             \<lparr>logs_file := Some (text_encode L (json_dumps L False True
                (JList (old @ [commit_metadata L now parent sdp scp ib raw processed config msg distr])) @ LF))\<rparr>)"
    by (auto simp: dict_get_def dict_of_def)
  let ?m = "commit_metadata L now parent sdp scp ib raw processed config msg distr"
  have "dict_get res ''parent_id'' = Some (json_opt parent)"
    "dict_get res ''version_id'' = Some (JStr (version_hash_of L processed))"
    unfolding res by (simp_all add: dict_get_def dict_of_def created_result_def)
  moreover have "version_dir repo' (version_hash_of L processed) =
      Some (created_directory L ib processed config ?m)"
    unfolding r by (rule created_version_dir)
  moreover have "created_directory L ib processed config ?m ''metadata.json'' =
      Some (text_encode L (json_dumps L False True ?m @ LF))"
    by (simp add: created_directory_def)
  moreover have "logs_file repo' = Some (text_encode L (json_dumps L False True (JList (old @ [?m])) @ LF))"
    unfolding r by (simp add: set_head_def)
  ultimately show ?thesis
    using p l dict_get_commit_metadata(3) by blast
qed

text \<open>The example file is committed with the default configuration into a repository whose
  HEAD names an older version: the new version's parent is that version.\<close>

theorem parent_linkage_witness:
  "\<exists>res repo'.
     create_version_from_raw_default test_lib ''t0'' test_files test_repo_old ''data.csv'' ''first''
       = Inr (res, repo') \<and>
     dict_get res ''status'' = Some (JStr ''created'') \<and>
     get_head test_lib test_repo_old = Inr (Some ''sha-old'') \<and>
     dict_get res ''parent_id'' = Some (JStr ''sha-old'')"
proof -
  let ?res = "created_result test_lib test_repo_old (Some ''sha-old'') test_raw test_processed"
  have s: "dict_get ?res ''status'' = Some (JStr ''created'')"
    by (simp add: dict_get_def dict_of_def created_result_def)
  from parent_linkage [OF disjI2 [OF disjI2 [OF refl]] test_first_commit s]
  obtain parent where "get_head test_lib test_repo_old = Inr parent"
    and "dict_get ?res ''parent_id'' = Some (json_opt parent)" by blast
  then have "dict_get ?res ''parent_id'' = Some (JStr ''sha-old'')"
    using test_repo_old_head by (auto simp: json_opt_def)
  then show ?thesis
    using test_first_commit s test_repo_old_head by blast
qed

text \<open>
  Claim C4, as the code has it. \<^verbatim>\<open>set_head\<close> writes the version id and a line feed, and
  \<^verbatim>\<open>get_head\<close> strips what it reads. Start from a repository in which HEAD is unset or names
  an existing version directory. After a commit in any of the three intake modes that
  returns (created or duplicate), and after a checkout that returns (a selection or a
  cancelled menu), HEAD is again unset or names an existing version directory, provided that
  the version id of the commit, or the one selected for checkout, has no white space at its
  ends and is read from the HEAD file as it was written. A SHA-256 digest is such an id.
  Moreover the HEAD file is either left as it was or holds a name whose version directory
  exists: the commit writes it after the directory, the checkout after \<^verbatim>\<open>version_exists\<close>.
\<close>

theorem head_validity:
  assumes "head_valid L repo"
    and "((operation = create_version_from_paths L now files repo dataset_path config_path msg \<or>
           operation = create_version_from_head L now files repo config_path msg \<or>
           operation = create_version_from_raw_default L now files repo dataset_path msg) \<and>
          (\<forall>v. dict_get res ''version_id'' = Some (JStr v) \<longrightarrow> reads_back L v)) \<or>
         (operation = checkout_flow L repo target \<and> (\<forall>t. target = Some t \<longrightarrow> reads_back L t))"
    and "operation = Inr (res, repo')"
  shows "head_valid L repo' \<and>
     (head_file repo' = head_file repo \<or>
      (\<exists>v. head_file repo' = write_text L (v @ LF) \<and> version_exists repo' v))"
proof (cases "operation = checkout_flow L repo target \<and> (\<forall>t. target = Some t \<longrightarrow> reads_back L t)")
  case True
  then have c: "checkout_flow L repo target = Inr (res, repo')"
    and s: "\<forall>t. target = Some t \<longrightarrow> reads_back L t"
    using assms(3) by auto
  have v: "head_valid L repo'" using checkout_head_valid [OF c assms(1) s] .
  have "head_file repo' = head_file repo \<or>
      (\<exists>v. head_file repo' = write_text L (v @ LF) \<and> version_exists repo' v)"
  proof (cases target)
    case None
    with c show ?thesis by (simp add: checkout_flow_def)
  next
    case (Some t)
    with c have ex: "version_exists repo t" and r: "repo' = set_head L t repo"
      by (auto simp: checkout_flow_def bind_err_eq_Inr Let_def split: if_splits)
    have "version_exists repo' t"
      using ex r version_exists_cong [of repo' repo] by (simp add: set_head_def)
    then show ?thesis using r by (auto simp: set_head_def)
  qed
  with v show ?thesis by blast
next
  case False
  with assms(2) have m: "operation = create_version_from_paths L now files repo dataset_path config_path msg \<or>
         operation = create_version_from_head L now files repo config_path msg \<or>
         operation = create_version_from_raw_default L now files repo dataset_path msg"
    and i: "\<forall>v. dict_get res ''version_id'' = Some (JStr v) \<longrightarrow> reads_back L v"
    by blast+
  from commit_modes_persist [OF m assms(3)] obtain sdp scp ib raw processed config where
    pv: "persist_version L now repo sdp scp ib raw processed config msg = Inr (res, repo')"
    by blast
  have rb: "reads_back L (version_hash_of L processed)"
    using i version_id_of_result [OF pv] by blast
  have v: "head_valid L repo'"
    using persist_version_head_valid [OF pv assms(1) rb] .
  from persist_version_cases [OF pv]
  have "head_file repo' = head_file repo \<or>
      (\<exists>v. head_file repo' = write_text L (v @ LF) \<and> version_exists repo' v)"
    by (auto simp: set_head_def version_exists_def version_dir_def put_version_dir_def)
  with v show ?thesis by blast
qed

text \<open>The example file is committed into a repository whose HEAD names an older version,
  and the older version is checked out again.\<close>

theorem head_validity_witness:
  "\<exists>res repo' res2 repo2.
     head_valid test_lib test_repo_old \<and>
     create_version_from_raw_default test_lib ''t0'' test_files test_repo_old ''data.csv'' ''first''
       = Inr (res, repo') \<and>
     head_valid test_lib repo' \<and>
     checkout_flow test_lib repo' (Some ''sha-old'') = Inr (res2, repo2) \<and>
     head_valid test_lib repo2"
proof -
  let ?res = "created_result test_lib test_repo_old (Some ''sha-old'') test_raw test_processed"
  let ?repo' = "set_head test_lib (version_hash_of test_lib test_processed)
            ((archive_raw test_lib ''data.csv'' test_csv_bytes test_processed
               (put_version_dir (version_hash_of test_lib test_processed)
                  (created_directory test_lib test_csv_bytes test_processed (JObj get_default_preprocess_config)
                     (commit_metadata test_lib ''t0'' (Some ''sha-old'') ''data.csv'' ''DEFAULT_CONFIG''
                        test_csv_bytes test_raw test_processed (JObj get_default_preprocess_config) ''first''
                        [(''0'', JNum 1), (''1'', JNum 1)])) test_repo_old))
             \<lparr>logs_file := Some (text_encode test_lib (json_dumps test_lib False True
                (JList ([] @ [commit_metadata test_lib ''t0'' (Some ''sha-old'') ''data.csv'' ''DEFAULT_CONFIG''
                        test_csv_bytes test_raw test_processed (JObj get_default_preprocess_config) ''first''
                        [(''0'', JNum 1), (''1'', JNum 1)]])) @ LF))\<rparr>)"
  have c: "create_version_from_raw_default test_lib ''t0'' test_files test_repo_old ''data.csv'' ''first''
       = Inr (?res, ?repo')"
    by (rule test_first_commit)
  have old: "version_exists ?repo' ''sha-old''"
    by (simp add: version_exists_def version_dir_def set_head_def put_version_dir_def test_repo_old_def)
  have g: "get_head test_lib ?repo' = Inr (Some ''sha-name,label,/amy,0,/bob,1,/'')"
    using get_head_set_head [OF test_processed_reads_back] by (simp add: test_processed_hash)
  have id: "\<forall>v. dict_get ?res ''version_id'' = Some (JStr v) \<longrightarrow> reads_back test_lib v"
    using test_processed_reads_back
    by (simp add: dict_get_def dict_of_def created_result_def test_processed_hash)
  have v1: "head_valid test_lib ?repo'"
    using head_validity [OF test_repo_old_valid disjI1 [OF conjI [OF disjI2 [OF disjI2 [OF refl]] id]] c]
    by blast
  have k: "checkout_flow test_lib ?repo' (Some ''sha-old'') =
      Inr (JObj [(''Command'', JStr ''checkout''), (''Status'', JStr ''success''),
                 (''Previous HEAD'', JStr ''sha-name,label,/amy,0,/bob,1,/''),
                 (''Current HEAD'', JStr ''sha-old'')],
           set_head test_lib ''sha-old'' ?repo')"
    using old g by (simp add: checkout_flow_def py_str_opt_def)
  have rb: "reads_back test_lib ''sha-old''"
    by code_simp
  then have t: "\<forall>t. Some ''sha-old'' = Some t \<longrightarrow> reads_back test_lib t"
    by simp
  have v2: "head_valid test_lib (set_head test_lib ''sha-old'' ?repo')"
    using head_validity [OF v1 disjI2 [OF conjI [OF refl t]] k]
    by blast
  show ?thesis
    using test_repo_old_valid c v1 k v2 by blast
qed

text \<open>The claim as worded covers every checkout that succeeds. In a repository that has a
  version directory whose name ends in a space, HEAD is unset and so valid; the checkout of
  that version succeeds and writes the name to the HEAD file; \<^verbatim>\<open>get_head\<close> then returns the
  name without the space, and no version directory has that name. In a repository that has
  a version directory whose name has a carriage return in it, the checkout of that version
  succeeds as well, and the HEAD file is read with a line feed in place of the carriage
  return.\<close>

theorem checkout_padded_id_counterexample:
  "head_valid test_lib test_repo_pad \<and>
   version_exists test_repo_pad ''abc '' \<and>
   checkout_flow test_lib test_repo_pad (Some ''abc '') =
     Inr (JObj [(''Command'', JStr ''checkout''), (''Status'', JStr ''success''),
                (''Previous HEAD'', JStr ''None''), (''Current HEAD'', JStr ''abc '')],
          set_head test_lib ''abc '' test_repo_pad) \<and>
   get_head test_lib (set_head test_lib ''abc '' test_repo_pad) = Inr (Some ''abc'') \<and>
   \<not> version_exists (set_head test_lib ''abc '' test_repo_pad) ''abc'' \<and>
   \<not> head_valid test_lib (set_head test_lib ''abc '' test_repo_pad) \<and>
   head_valid test_lib test_repo_cr \<and>
   py_strip (''a'' @ [CHR 0x0D] @ ''b'') = ''a'' @ [CHR 0x0D] @ ''b'' \<and>
   checkout_flow test_lib test_repo_cr (Some (''a'' @ [CHR 0x0D] @ ''b'')) =
     Inr (JObj [(''Command'', JStr ''checkout''), (''Status'', JStr ''success''),
                (''Previous HEAD'', JStr ''None''),
                (''Current HEAD'', JStr (''a'' @ [CHR 0x0D] @ ''b''))],
          set_head test_lib (''a'' @ [CHR 0x0D] @ ''b'') test_repo_cr) \<and>
   get_head test_lib (set_head test_lib (''a'' @ [CHR 0x0D] @ ''b'') test_repo_cr) =
     Inr (Some (''a'' @ [CHR 0x0A] @ ''b'')) \<and>
   \<not> head_valid test_lib (set_head test_lib (''a'' @ [CHR 0x0D] @ ''b'') test_repo_cr)"
proof -
  have h: "get_head test_lib test_repo_pad = Inr None"
    by code_simp
  have e: "version_exists test_repo_pad ''abc ''"
    by (simp add: version_exists_def version_dir_def test_repo_pad_def)
  have g: "get_head test_lib (set_head test_lib ''abc '' test_repo_pad) = Inr (Some ''abc'')"
    by code_simp
  have n: "\<not> version_exists (set_head test_lib ''abc '' test_repo_pad) ''abc''"
    by (simp add: version_exists_def version_dir_def set_head_def test_repo_pad_def)
  have c: "checkout_flow test_lib test_repo_pad (Some ''abc '') =
     Inr (JObj [(''Command'', JStr ''checkout''), (''Status'', JStr ''success''),
                (''Previous HEAD'', JStr ''None''), (''Current HEAD'', JStr ''abc '')],
          set_head test_lib ''abc '' test_repo_pad)"
    by (simp add: checkout_flow_def e h py_str_opt_def)
  have pad: "head_valid test_lib test_repo_pad"
    "\<not> head_valid test_lib (set_head test_lib ''abc '' test_repo_pad)"
    using h g n by (simp_all add: head_valid_def)
  have h': "get_head test_lib test_repo_cr = Inr None"
    by code_simp
  have e': "version_exists test_repo_cr (''a'' @ [CHR 0x0D] @ ''b'')"
    by (simp add: version_exists_def version_dir_def test_repo_cr_def)
  have s': "py_strip (''a'' @ [CHR 0x0D] @ ''b'') = ''a'' @ [CHR 0x0D] @ ''b''"
    by code_simp
  have g': "get_head test_lib (set_head test_lib (''a'' @ [CHR 0x0D] @ ''b'') test_repo_cr) =
     Inr (Some (''a'' @ [CHR 0x0A] @ ''b''))"
    by code_simp
  have n': "\<not> version_exists (set_head test_lib (''a'' @ [CHR 0x0D] @ ''b'') test_repo_cr)
      (''a'' @ [CHR 0x0A] @ ''b'')"
    by (simp add: version_exists_def version_dir_def set_head_def test_repo_cr_def)
  have c': "checkout_flow test_lib test_repo_cr (Some (''a'' @ [CHR 0x0D] @ ''b'')) =
     Inr (JObj [(''Command'', JStr ''checkout''), (''Status'', JStr ''success''),
                (''Previous HEAD'', JStr ''None''),
                (''Current HEAD'', JStr (''a'' @ [CHR 0x0D] @ ''b''))],
          set_head test_lib (''a'' @ [CHR 0x0D] @ ''b'') test_repo_cr)"
    using e' h' by (simp add: checkout_flow_def py_str_opt_def)
  have cr: "head_valid test_lib test_repo_cr"
    "\<not> head_valid test_lib (set_head test_lib (''a'' @ [CHR 0x0D] @ ''b'') test_repo_cr)"
    using h' g' n' by (simp_all add: head_valid_def)
  show ?thesis
    using pad e c g n cr s' c' g' by blast
qed

subsection \<open>The preprocessing pipeline\<close>

text \<open>The cleanup of a cell applies its enabled sub-steps in the order NFKC normalisation,
  trim, URL stripping, lowercasing, punctuation removal, white-space collapsing, and then
  always a final trim. The punctuation sub-step is \<^verbatim>\<open>re.sub(r"[^a-z0-9\s]", " ", text)\<close>: it
  keeps the length of its input; every lowercase ASCII letter, every ASCII digit and every
  white-space character stays where it is; every character that is neither alphanumeric nor
  white space is replaced by one space.\<close>

lemma cleanup_substeps_order:
  "cleanup_text_with_config L v config =
     py_strip
       (step_if (cfg_bool config ''collapse_spaces'' True) sub_spaces
       (step_if (cfg_bool config ''remove_punctuation'' True) sub_punctuation
       (step_if (cfg_bool config ''lowercase_text'' True) py_lower
       (step_if (cfg_bool config ''remove_urls'' False) sub_urls
       (step_if (cfg_bool config ''strip_text'' True) py_strip
       (step_if (cfg_bool config ''normalize_unicode'' True) (nfkc L) v)))))) \<and>
   length (sub_punctuation s) = length s \<and>
   (\<forall>i<length s.
      (ascii_lower (s ! i) \<or> py_isdecimal (s ! i) \<or> py_isspace (s ! i) \<longrightarrow>
         sub_punctuation s ! i = s ! i) \<and>
      (\<not> py_isalnum (s ! i) \<and> \<not> py_isspace (s ! i) \<longrightarrow> sub_punctuation s ! i = CHR '' ''))"
proof (intro conjI allI impI)
  show "cleanup_text_with_config L v config =
     py_strip
       (step_if (cfg_bool config ''collapse_spaces'' True) sub_spaces
       (step_if (cfg_bool config ''remove_punctuation'' True) sub_punctuation
       (step_if (cfg_bool config ''lowercase_text'' True) py_lower
       (step_if (cfg_bool config ''remove_urls'' False) sub_urls
       (step_if (cfg_bool config ''strip_text'' True) py_strip
       (step_if (cfg_bool config ''normalize_unicode'' True) (nfkc L) v))))))"
    by (simp add: cleanup_text_with_config_def step_if_def Let_def)
  show "length (sub_punctuation s) = length s"
    by (simp add: sub_punctuation_def)
  fix i assume i: "i < length s"
  show "sub_punctuation s ! i = s ! i"
    if "ascii_lower (s ! i) \<or> py_isdecimal (s ! i) \<or> py_isspace (s ! i)"
    using i that by (simp add: sub_punctuation_def in_keep_class_def)
  show "sub_punctuation s ! i = CHR '' ''"
    if "\<not> py_isalnum (s ! i) \<and> \<not> py_isspace (s ! i)"
    using i that in_keep_class_alnum [of "s ! i"]
    by (auto simp: sub_punctuation_def in_keep_class_def)
qed

text \<open>
  Claim C6. The claim says that the alphanumerics of its input survive the punctuation
  sub-step whether or not lowercasing is enabled. The character class of the sub-step names
  the lowercase letters only. Take the text \<^verbatim>\<open>Ab\<close> and the default configuration with
  \<^verbatim>\<open>lowercase_text\<close> cleared: punctuation removal is enabled, the letter \<^verbatim>\<open>A\<close> is alphanumeric,
  the sub-step puts a space in its place, and the cleanup returns \<^verbatim>\<open>b\<close>. With the default
  configuration the cleanup returns \<^verbatim>\<open>ab\<close>, and so does \<^verbatim>\<open>_cleanup_text\<close>, which has the same
  substitution and lowercases before it in every case.
\<close>

theorem punctuation_blanks_uppercase:
  "cfg_bool test_config_keep_case ''remove_punctuation'' True \<and>
   \<not> cfg_bool test_config_keep_case ''lowercase_text'' True \<and>
   py_isalnum (CHR ''A'') \<and>
   sub_punctuation ''Ab'' = '' b'' \<and>
   cleanup_text_with_config test_lib ''Ab'' test_config_keep_case = ''b'' \<and>
   cleanup_text_with_config test_lib ''Ab'' (dict_of get_default_preprocess_config) = ''ab'' \<and>
   cleanup_text test_lib ''Ab'' = ''ab''"
proof -
  have "cfg_bool test_config_keep_case ''remove_punctuation'' True" by code_simp
  moreover have "\<not> cfg_bool test_config_keep_case ''lowercase_text'' True" by code_simp
  moreover have "py_isalnum (CHR ''A'')" by code_simp
  moreover have "sub_punctuation ''Ab'' = '' b''" by code_simp
  moreover have "cleanup_text_with_config test_lib ''Ab'' test_config_keep_case = ''b''" by code_simp
  moreover have "cleanup_text_with_config test_lib ''Ab'' (dict_of get_default_preprocess_config) = ''ab''"
    by code_simp
  moreover have "cleanup_text test_lib ''Ab'' = ''ab''" by code_simp
  ultimately show ?thesis by blast
qed

text \<open>
  Claim C7, as the code has it. With \<^verbatim>\<open>coerce_numeric_columns\<close> disabled the table is returned as
  it is. With it enabled, the number, the labels and the order of the columns and the index
  labels of the rows stay, and for every column: it is converted exactly when it is
  text-typed, has at least one value that is not null, and every such value, after the commas
  are deleted and the surrounding white space is stripped, matches \<^verbatim>\<open>^-?\d+(\.\d+)?$\<close>. A
  converted column becomes numeric, of the dtype that \<^verbatim>\<open>pd.to_numeric\<close> gives the column, and
  each of its cells becomes the number that \<^verbatim>\<open>pd.to_numeric\<close> reads from its text without
  commas, or null when that fails or the cell was null. Every other column keeps its dtype
  and its cells; so does a text column whose values are all null
  (\<^verbatim>\<open>_looks_like_numeric_series\<close> returns \<^verbatim>\<open>False\<close> for it).
\<close>

theorem numeric_coercion:
  "(\<not> cfg_bool config ''coerce_numeric_columns'' True \<longrightarrow>
      coerce_numeric_like_columns L df config = df) \<and>
   (cfg_bool config ''coerce_numeric_columns'' True \<longrightarrow>
      length (columns (coerce_numeric_like_columns L df config)) = length (columns df) \<and>
      map fst (rows (coerce_numeric_like_columns L df config)) = map fst (rows df) \<and>
      (\<forall>j<length (columns df).
         let cells = column_values df j;
             converted =
               (snd (columns df ! j) = ObjectT \<and> (\<exists>c\<in>set cells. c \<noteq> Null) \<and>
                (\<forall>c\<in>set cells. c \<noteq> Null \<longrightarrow>
                   numeric_pattern (py_strip (remove_commas (cell_str L ObjectT c)))))
         in fst (columns (coerce_numeric_like_columns L df config) ! j) = fst (columns df ! j) \<and>
            snd (columns (coerce_numeric_like_columns L df config) ! j) =
              (if converted
               then NumberT (to_numeric_dtype L (map (\<lambda>c. remove_commas (cell_str L ObjectT c)) cells))
               else snd (columns df ! j)) \<and>
            column_values (coerce_numeric_like_columns L df config) j =
              (if converted
               then map (\<lambda>c. if c = Null then Null
                              else (case to_numeric L (remove_commas (cell_str L ObjectT c)) of
                                      None \<Rightarrow> Null | Some n \<Rightarrow> Num n)) cells
               else cells)))"
proof (intro conjI impI allI)
  assume "\<not> cfg_bool config ''coerce_numeric_columns'' True"
  then show "coerce_numeric_like_columns L df config = df"
    by (simp add: coerce_numeric_like_columns_def)
next
  assume on: "cfg_bool config ''coerce_numeric_columns'' True"
  note e = coerce_numeric_refines [OF on, of L df]
  show "length (columns (coerce_numeric_like_columns L df config)) = length (columns df)"
    by (simp add: e spec_coerce_numeric_def coerce_where_def)
  show "map fst (rows (coerce_numeric_like_columns L df config)) = map fst (rows df)"
    by (simp add: e spec_coerce_numeric_def coerce_where_def comp_def case_prod_unfold)
  fix j assume j: "j < length (columns df)"
  have c: "converts L df j \<longleftrightarrow>
      (snd (columns df ! j) = ObjectT \<and> (\<exists>c\<in>set (column_values df j). c \<noteq> Null) \<and>
                (\<forall>c\<in>set (column_values df j). c \<noteq> Null \<longrightarrow>
                   numeric_pattern (py_strip (remove_commas (cell_str L ObjectT c)))))"
    using j by (simp add: converts_def looks_like_numeric_iff)
  have m: "map (coerce_cell L) cells =
      map (\<lambda>c. if c = Null then Null
                else (case to_numeric L (remove_commas (cell_str L ObjectT c)) of
                        None \<Rightarrow> Null | Some n \<Rightarrow> Num n)) cells" for cells
    by (simp add: coerce_cell_def)
  show "let cells = column_values df j;
             converted =
               (snd (columns df ! j) = ObjectT \<and> (\<exists>c\<in>set cells. c \<noteq> Null) \<and>
                (\<forall>c\<in>set cells. c \<noteq> Null \<longrightarrow>
                   numeric_pattern (py_strip (remove_commas (cell_str L ObjectT c)))))
         in fst (columns (coerce_numeric_like_columns L df config) ! j) = fst (columns df ! j) \<and>
            snd (columns (coerce_numeric_like_columns L df config) ! j) =
              (if converted
               then NumberT (to_numeric_dtype L (map (\<lambda>c. remove_commas (cell_str L ObjectT c)) cells))
               else snd (columns df ! j)) \<and>
            column_values (coerce_numeric_like_columns L df config) j =
              (if converted
               then map (\<lambda>c. if c = Null then Null
                              else (case to_numeric L (remove_commas (cell_str L ObjectT c)) of
                                      None \<Rightarrow> Null | Some n \<Rightarrow> Num n)) cells
               else cells)"
    unfolding Let_def c [symmetric] e spec_coerce_numeric_def
    using j by (simp add: columns_coerce_where column_values_coerce_where m coerced_dtype_def)
qed

text \<open>A table with a column of numbers written as text, a column with a word in it, and a
  column of nulls: the first is converted, the second is not.\<close>

theorem numeric_coercion_witness:
  "snd (columns (coerce_numeric_like_columns test_lib test_mixed (dict_of get_default_preprocess_config)) ! 0)
     = NumberT ''int64'' \<and>
   column_values (coerce_numeric_like_columns test_lib test_mixed (dict_of get_default_preprocess_config)) 0
     = [Num 1000, Num 20] \<and>
   columns (coerce_numeric_like_columns test_lib test_mixed (dict_of get_default_preprocess_config)) ! 1
     = (''t'', ObjectT) \<and>
   column_values (coerce_numeric_like_columns test_lib test_mixed (dict_of get_default_preprocess_config)) 1
     = [Text ''7'', Text ''x'']"
proof -
  let ?c = "dict_of get_default_preprocess_config :: string \<rightharpoonup> json"
  have on: "cfg_bool ?c ''coerce_numeric_columns'' True"
    by code_simp
  have n: "numeric_pattern (py_strip (remove_commas ''1,000''))"
    "numeric_pattern (py_strip (remove_commas ''20''))"
    "numeric_pattern (py_strip (remove_commas ''7''))"
    "\<not> numeric_pattern (py_strip (remove_commas ''x''))"
    by code_simp+
  have t: "to_numeric test_lib (remove_commas ''1,000'') = Some 1000"
    "to_numeric test_lib (remove_commas ''20'') = Some 20"
    by code_simp+
  have cv: "column_values test_mixed 0 = [Text ''1,000'', Text ''20'']"
    "column_values test_mixed (Suc 0) = [Text ''7'', Text ''x'']"
    by (simp_all add: column_values_def test_mixed_def)
  have cs: "columns test_mixed = [(''n'', ObjectT), (''t'', ObjectT), (''e'', ObjectT)]"
    by (simp add: test_mixed_def)
  have td: "to_numeric_dtype test_lib texts = ''int64''" for texts
    by (simp add: test_lib_def)
  from numeric_coercion [of ?c test_lib test_mixed] on
  have a: "\<forall>j<length (columns test_mixed).
         let cells = column_values test_mixed j;
             converted =
               (snd (columns test_mixed ! j) = ObjectT \<and> (\<exists>c\<in>set cells. c \<noteq> Null) \<and>
                (\<forall>c\<in>set cells. c \<noteq> Null \<longrightarrow>
                   numeric_pattern (py_strip (remove_commas (cell_str test_lib ObjectT c)))))
         in fst (columns (coerce_numeric_like_columns test_lib test_mixed ?c) ! j) = fst (columns test_mixed ! j) \<and>
            snd (columns (coerce_numeric_like_columns test_lib test_mixed ?c) ! j) =
              (if converted
               then NumberT (to_numeric_dtype test_lib
                      (map (\<lambda>c. remove_commas (cell_str test_lib ObjectT c)) cells))
               else snd (columns test_mixed ! j)) \<and>
            column_values (coerce_numeric_like_columns test_lib test_mixed ?c) j =
              (if converted
               then map (\<lambda>c. if c = Null then Null
                              else (case to_numeric test_lib (remove_commas (cell_str test_lib ObjectT c)) of
                                      None \<Rightarrow> Null | Some n \<Rightarrow> Num n)) cells
               else cells)"
    by blast
  from a [rule_format, of 0] have c0:
    "snd (columns (coerce_numeric_like_columns test_lib test_mixed ?c) ! 0) = NumberT ''int64''"
    "column_values (coerce_numeric_like_columns test_lib test_mixed ?c) 0 = [Num 1000, Num 20]"
    by (simp_all add: cs cv cell_str_def n t td Let_def)
  from a [rule_format, of "Suc 0"] have c1:
    "columns (coerce_numeric_like_columns test_lib test_mixed ?c) ! 1 = (''t'', ObjectT)"
    "column_values (coerce_numeric_like_columns test_lib test_mixed ?c) 1 = [Text ''7'', Text ''x'']"
    by (simp_all add: cs cv cell_str_def n Let_def prod_eq_iff)
  show ?thesis using c0 c1 by simp
qed

text \<open>The claim as worded asks that a text column whose values are all null be converted
  (every one of its non-null values matches, there being none). The third column of the
  example is such a column, and it stays text-typed.\<close>

theorem numeric_coercion_all_null_counterexample:
  "snd (columns test_mixed ! 2) = ObjectT \<and>
   filter (\<lambda>c. c \<noteq> Null) (column_values test_mixed 2) = [] \<and>
   cfg_bool (dict_of get_default_preprocess_config) ''coerce_numeric_columns'' True \<and>
   snd (columns (coerce_numeric_like_columns test_lib test_mixed (dict_of get_default_preprocess_config)) ! 2)
     = ObjectT"
proof -
  have "snd (columns test_mixed ! 2) = ObjectT" by code_simp
  moreover have "filter (\<lambda>c. c \<noteq> Null) (column_values test_mixed 2) = []" by code_simp
  moreover have "cfg_bool (dict_of get_default_preprocess_config) ''coerce_numeric_columns'' True"
    by code_simp
  moreover have "snd (columns (coerce_numeric_like_columns test_lib test_mixed
      (dict_of get_default_preprocess_config)) ! 2) = ObjectT"
    by (simp add: test_mixed_coerced)
  ultimately show ?thesis by blast
qed

subsection \<open>The label distribution\<close>

text \<open>
  Claim C10, as the code has it. The column behind \<^verbatim>\<open>label_distribution\<close> is the column whose
  label is literally \<^verbatim>\<open>label\<close>. Without such a column the distribution is the empty mapping.
  With one such column it maps the text of a value of the column to the number of cells that
  hold the value, the null among the values; it has no other key; and it is empty exactly
  when the table has no rows. (The counts are stated for a column whose values have
  different texts: \<^verbatim>\<open>str(key)\<close> may give two values the same key.) A created version stores this
  mapping as \<^verbatim>\<open>label_distribution\<close> of \<^verbatim>\<open>metadata.json\<close>. \<^verbatim>\<open>compare_versions\<close> reads the entry of
  both versions' metadata (the empty mapping when it is absent) and reports
  \<^verbatim>\<open>label_distribution_changed\<close> as their inequality, which for dictionaries does not depend
  on the order of the keys.
\<close>

theorem label_distribution_stored:
  "(columns_named ''label'' df = [] \<longrightarrow> label_distribution L df = Inr []) \<and>
   (\<forall>j. columns_named ''label'' df = [j] \<longrightarrow>
      (\<exists>distr. label_distribution L df = Inr distr \<and>
         (distr = [] \<longleftrightarrow> rows df = []) \<and>
         (\<forall>k. k \<notin> cell_str L (snd (columns df ! j)) ` set (column_values df j) \<longrightarrow> dict_of distr k = None) \<and>
         (inj_on (cell_str L (snd (columns df ! j))) (set (column_values df j)) \<longrightarrow>
            (\<forall>c\<in>set (column_values df j).
               dict_of distr (cell_str L (snd (columns df ! j)) c) = Some (JNum (of_nat (count_list (column_values df j) c))))))) \<and>
   (\<forall>res repo'.
      persist_version L now repo sdp scp ib raw df config msg = Inr (res, repo') \<and>
      dict_get res ''status'' = Some (JStr ''created'') \<longrightarrow>
      (\<exists>distr d metadata.
         label_distribution L df = Inr distr \<and>
         version_dir repo' (version_hash_of L df) = Some d \<and>
         d ''metadata.json'' = Some (text_encode L (json_dumps L False True metadata @ LF)) \<and>
         dict_get metadata ''label_distribution'' = Some (JObj distr))) \<and>
   (\<forall>res repo2.
      compare_versions L now2 repo1 va vb = Inr (res, repo2) \<longrightarrow>
      (\<exists>da db ma mb a b.
         version_dir repo1 va = Some da \<and> version_dir repo1 vb = Some db \<and>
         load_metadata L da = Inr ma \<and> load_metadata L db = Inr mb \<and>
         json_get ma ''label_distribution'' (JObj []) = Inr a \<and>
         json_get mb ''label_distribution'' (JObj []) = Inr b \<and>
         dict_get res ''label_distribution_changed'' = Some (JBool (\<not> py_eq a b))))"
proof (intro conjI allI impI)
  assume "columns_named ''label'' df = []"
  then show "label_distribution L df = Inr []"
    by (simp add: label_distribution_def)
next
  fix j assume j: "columns_named ''label'' df = [j]"
  let ?xs = "column_values df j"
  let ?d = "map (\<lambda>(key, value). (cell_str L (snd (columns df ! j)) key, JNum (of_nat value))) (value_counts ?xs)"
  have "label_distribution L df = Inr ?d"
    using j by (simp add: label_distribution_def)
  moreover have "?d = [] \<longleftrightarrow> rows df = []"
    by (simp add: value_counts_Nil_iff column_values_Nil_iff)
  moreover have "\<forall>k. k \<notin> cell_str L (snd (columns df ! j)) ` set ?xs \<longrightarrow> dict_of ?d k = None"
    using label_distribution_lookup(1) [OF refl] by blast
  moreover have "inj_on (cell_str L (snd (columns df ! j))) (set ?xs) \<longrightarrow>
       (\<forall>c\<in>set ?xs. dict_of ?d (cell_str L (snd (columns df ! j)) c) = Some (JNum (of_nat (count_list ?xs c))))"
    using label_distribution_lookup(2) [OF refl] by blast
  ultimately show "\<exists>distr. label_distribution L df = Inr distr \<and>
         (distr = [] \<longleftrightarrow> rows df = []) \<and>
         (\<forall>k. k \<notin> cell_str L (snd (columns df ! j)) ` set (column_values df j) \<longrightarrow> dict_of distr k = None) \<and>
         (inj_on (cell_str L (snd (columns df ! j))) (set (column_values df j)) \<longrightarrow>
            (\<forall>c\<in>set (column_values df j).
               dict_of distr (cell_str L (snd (columns df ! j)) c) = Some (JNum (of_nat (count_list (column_values df j) c)))))"
    by blast
next
  fix res repo'
  assume a: "persist_version L now repo sdp scp ib raw df config msg = Inr (res, repo') \<and>
      dict_get res ''status'' = Some (JStr ''created'')"
  then have pv: "persist_version L now repo sdp scp ib raw df config msg = Inr (res, repo')"
    and st: "dict_get res ''status'' = Some (JStr ''created'')" by blast+
  from persist_version_cases [OF pv] st obtain parent old distr where
    d: "label_distribution L df = Inr distr" and
    r: "repo' = set_head L (version_hash_of L df)
            ((archive_raw L sdp ib df
               (put_version_dir (version_hash_of L df)
                  (created_directory L ib df config
                     (commit_metadata L now parent sdp scp ib raw df config msg distr)) repo))
             \<lparr>logs_file := Some (text_encode L (json_dumps L False True
                (JList (old @ [commit_metadata L now parent sdp scp ib raw df config msg distr])) @ LF))\<rparr>)"
    by (auto simp: dict_get_def dict_of_def)
  let ?m = "commit_metadata L now parent sdp scp ib raw df config msg distr"
  have "version_dir repo' (version_hash_of L df) = Some (created_directory L ib df config ?m)"
    unfolding r by (rule created_version_dir)
  moreover have "created_directory L ib df config ?m ''metadata.json'' =
      Some (text_encode L (json_dumps L False True ?m @ LF))"
    by (simp add: created_directory_def)
  ultimately show "\<exists>distr d metadata.
         label_distribution L df = Inr distr \<and>
         version_dir repo' (version_hash_of L df) = Some d \<and>
         d ''metadata.json'' = Some (text_encode L (json_dumps L False True metadata @ LF)) \<and>
         dict_get metadata ''label_distribution'' = Some (JObj distr)"
    using d dict_get_commit_metadata(4) by blast
next
  fix res repo2
  assume "compare_versions L now2 repo1 va vb = Inr (res, repo2)"
  then show "\<exists>da db ma mb a b.
         version_dir repo1 va = Some da \<and> version_dir repo1 vb = Some db \<and>
         load_metadata L da = Inr ma \<and> load_metadata L db = Inr mb \<and>
         json_get ma ''label_distribution'' (JObj []) = Inr a \<and>
         json_get mb ''label_distribution'' (JObj []) = Inr b \<and>
         dict_get res ''label_distribution_changed'' = Some (JBool (\<not> py_eq a b))"
    by (rule compare_versions_label_changed)
qed

text \<open>The processed example table has the labels 0 and 1 once each; the raw example table
  has a column \<^verbatim>\<open>Label\<close>, which is not the column \<^verbatim>\<open>label\<close>.\<close>

theorem label_distribution_stored_witness:
  "\<exists>distr. label_distribution test_lib test_processed = Inr distr \<and>
     dict_of distr ''0'' = Some (JNum 1) \<and> dict_of distr ''1'' = Some (JNum 1) \<and>
     dict_of distr ''2'' = None \<and>
     label_distribution test_lib test_raw = Inr []"
proof -
  have cn: "columns_named ''label'' test_processed = [Suc 0]"
    by (simp add: columns_named_def test_processed_def upt_rec)
  have cr: "columns_named ''label'' test_raw = []"
    by (simp add: columns_named_def test_raw_def upt_rec)
  have cv: "column_values test_processed (Suc 0) = [Num 0, Num 1]"
    by (simp add: column_values_def test_processed_def)
  have s: "cell_str test_lib (NumberT ''int64'') (Num 0) = ''0''" "cell_str test_lib (NumberT ''int64'') (Num 1) = ''1''"
    by (simp_all add: cell_str_def test_lib_def test_num_str_def)
  have inj: "inj_on (cell_str test_lib (NumberT ''int64'')) (set (column_values test_processed (Suc 0)))"
    by (simp add: cv s)
  note t = label_distribution_stored [of test_processed test_lib "[]" test_repo "[]" "[]" "[]" test_raw
      JNull "[]" "[]" test_repo "[]" "[]"]
  from t cr have e: "label_distribution test_lib test_raw = Inr []"
    using label_distribution_stored [of test_raw test_lib "[]" test_repo "[]" "[]" "[]" test_raw
      JNull "[]" "[]" test_repo "[]" "[]"] by blast
  have ct: "snd (columns test_processed ! Suc 0) = NumberT ''int64''"
    by (simp add: test_processed_def)
  from t cn obtain distr where d: "label_distribution test_lib test_processed = Inr distr"
    and none': "\<forall>k. k \<notin> cell_str test_lib (snd (columns test_processed ! Suc 0)) `
                       set (column_values test_processed (Suc 0)) \<longrightarrow>
        dict_of distr k = None"
    and some': "inj_on (cell_str test_lib (snd (columns test_processed ! Suc 0)))
                 (set (column_values test_processed (Suc 0))) \<longrightarrow>
        (\<forall>c\<in>set (column_values test_processed (Suc 0)).
           dict_of distr (cell_str test_lib (snd (columns test_processed ! Suc 0)) c) =
             Some (JNum (of_nat (count_list (column_values test_processed (Suc 0)) c))))"
    by blast
  note none = none' [unfolded ct] and some = some' [unfolded ct]
  from some inj have "dict_of distr (cell_str test_lib (NumberT ''int64'') (Num 0)) =
        Some (JNum (of_nat (count_list (column_values test_processed (Suc 0)) (Num 0))))"
    and "dict_of distr (cell_str test_lib (NumberT ''int64'') (Num 1)) =
        Some (JNum (of_nat (count_list (column_values test_processed (Suc 0)) (Num 1))))"
    by (simp_all add: cv)
  then have a: "dict_of distr ''0'' = Some (JNum 1)" "dict_of distr ''1'' = Some (JNum 1)"
    by (simp_all add: cv s)
  from none have b: "dict_of distr ''2'' = None"
    by (simp add: cv s)
  show ?thesis using d a b e by blast
qed

text \<open>The claim as worded says that the distribution is empty exactly when the processed
  table has no column named \<^verbatim>\<open>label\<close>. A raw table that passes \<^verbatim>\<open>validate_schema\<close> and whose
  only label is a sentinel is processed, under the default configuration, to a table that
  has the column \<^verbatim>\<open>label\<close> and no rows; its distribution is empty.\<close>

theorem label_distribution_empty_counterexample:
  "validate_schema test_only_sentinel = Inr () \<and>
   apply_deterministic_preprocessing test_lib test_only_sentinel (JObj get_default_preprocess_config)
     = Inr test_no_rows \<and>
   columns_named ''label'' test_no_rows = [0] \<and>
   label_distribution test_lib test_no_rows = Inr []"
proof -
  have "validate_schema test_only_sentinel = Inr ()" by code_simp
  moreover have "apply_deterministic_preprocessing test_lib test_only_sentinel
      (JObj get_default_preprocess_config) = Inr test_no_rows" by code_simp
  moreover have "columns_named ''label'' test_no_rows = [0]" by code_simp
  moreover have "label_distribution test_lib test_no_rows = Inr []" by code_simp
  ultimately show ?thesis by blast
qed

subsection \<open>The order of the pipeline\<close>

text \<open>
  Claim C5, as the code has it. Whenever the preprocessing returns, the table it returns is
  the result of these stages, in this order.
  \<^enum> The column labels are trimmed and then lowercased.
  \<^enum> Every cell of a text column whose text, trimmed and lowercased, is one of the unwanted
    values (trimmed and lowercased as well) becomes null.
  \<^enum> When \<^verbatim>\<open>cleanup_text\<close> is set, every cell of a text column that is not null becomes its
    cleaned text.
  \<^enum> When \<^verbatim>\<open>coerce_numeric_columns\<close> is set, the text columns that look numeric are converted.
  \<^enum> The null strategy is the text of \<^verbatim>\<open>null_strategy\<close>, trimmed and lowercased, with
    \<^verbatim>\<open>drop_any\<close> in place of the empty text and in place of \<^verbatim>\<open>keep\<close> when \<^verbatim>\<open>drop_nulls\<close> is set.
    \<^verbatim>\<open>drop_any\<close> keeps the rows without a null, \<^verbatim>\<open>drop_all\<close> the rows with a cell that is not
    null, \<^verbatim>\<open>fill\<close> puts the numeric fill value into the nulls of the numeric columns and the
    text fill value into the other nulls, and any other strategy leaves the table as it is.
  \<^enum> When \<^verbatim>\<open>drop_duplicates\<close> is set, every row that repeats an earlier row is removed.
  \<^enum> When \<^verbatim>\<open>sort_rows\<close> is set and the table has a column, the rows are sorted by their
    cells from left to right; the sort is stable and a null comes after every value.
  \<^enum> The row index is reset to 0, 1, 2 and so on.

  The options of stages 3, 4, 6 and 7 are set in the default configuration, and a
  configuration can clear each of them. (A table whose normalised labels collide is outside
  the embedding.)
\<close>

theorem pipeline_stage_order:
  assumes "apply_deterministic_preprocessing L df config = Inr out"
  shows "\<exists>merged unwanted strategy s1 s2 s3 s4 s5 s6 s7.
     merged = dict_of get_default_preprocess_config ++
                (case config of JObj kvs \<Rightarrow> dict_of kvs | _ \<Rightarrow> Map.empty) \<and>
     s1 = df\<lparr>columns := map (\<lambda>(c, t). (py_lower (py_strip c), t)) (columns df)\<rparr> \<and>
     json_iter (cfg_get merged ''unwanted_values'' default_unwanted_values) = Inr unwanted \<and>
     s2 = map_text_cells
            (\<lambda>c. if py_lower (py_strip (cell_str L ObjectT c)) \<in>
                     (\<lambda>item. py_lower (py_strip (py_str L item))) ` set unwanted
                  then Null else c) s1 \<and>
     s3 = step_if (cfg_bool merged ''cleanup_text'' True)
            (map_text_cells
               (\<lambda>c. if c = Null then Null
                     else Text (cleanup_text_with_config L (cell_str L ObjectT c) merged))) s2 \<and>
     s4 = step_if (cfg_bool merged ''coerce_numeric_columns'' True) (spec_coerce_numeric L) s3 \<and>
     strategy =
       (let s = py_lower (py_strip (py_str L (cfg_get merged ''null_strategy'' (JStr ''drop_any''))))
        in if s = [] \<or> cfg_bool merged ''drop_nulls'' True \<and> s = ''keep'' then ''drop_any'' else s) \<and>
     (strategy = ''drop_any'' \<longrightarrow> s5 = s4\<lparr>rows := filter (\<lambda>ir. Null \<notin> set (snd ir)) (rows s4)\<rparr>) \<and>
     (strategy = ''drop_all'' \<longrightarrow>
        s5 = s4\<lparr>rows := filter (\<lambda>ir. \<exists>c\<in>set (snd ir). c \<noteq> Null) (rows s4)\<rparr>) \<and>
     (strategy = ''fill'' \<longrightarrow>
        (\<forall>s n. cfg_get merged ''null_fill_text'' (JStr []) = JStr s \<and>
               cfg_get merged ''null_fill_numeric'' (JNum 0) = JNum n \<longrightarrow>
               s5 = fill_nulls (Text s) (Num n) s4)) \<and>
     (strategy \<notin> {''drop_any'', ''drop_all'', ''fill''} \<longrightarrow> s5 = s4) \<and>
     s6 = step_if (cfg_bool merged ''drop_duplicates'' True) spec_drop_duplicates s5 \<and>
     s7 = step_if (cfg_bool merged ''sort_rows'' True \<and> columns s6 \<noteq> []) sort_values s6 \<and>
     (\<forall>d. sorted (map row_key (rows (sort_values d))) \<and>
          (\<forall>key. filter (\<lambda>r. row_key r = key) (rows (sort_values d)) =
                 filter (\<lambda>r. row_key r = key) (rows d)) \<and>
          columns (sort_values d) = columns d) \<and>
     (\<forall>ir. row_key ir = map cell_key (snd ir)) \<and>
     (\<forall>c. c \<noteq> Null \<longrightarrow> cell_key c < cell_key Null) \<and>
     out = s7\<lparr>rows := zip [0..<length (rows s7)] (map snd (rows s7))\<rparr>"
proof -
  from assms obtain merged where m: "merge_config config = Inr merged"
    by (auto simp: apply_deterministic_preprocessing_def bind_err_eq_Inr)
  have mc: "merged = dict_of get_default_preprocess_config ++
                (case config of JObj kvs \<Rightarrow> dict_of kvs | _ \<Rightarrow> Map.empty)"
    using m by (auto simp: merge_config_def dict_of_def split: if_splits json.splits)
  let ?s1 = "df\<lparr>columns := map (\<lambda>(c, t). (py_lower (py_strip c), t)) (columns df)\<rparr>"
  have s1: "normalize_columns df = ?s1"
    by (simp add: normalize_columns_def)
  from assms m obtain p2 nulled where
    p2: "normalize_unwanted_values L ?s1 merged = Inr p2" and
    n: "apply_null_strategy L
          (coerce_numeric_like_columns L
             (foldl (\<lambda>processed column.
                       if cfg_bool merged ''cleanup_text'' True
                       then map_column column (cleanup_cell L merged) processed
                       else processed) p2 (object_columns p2)) merged) merged = Inr nulled" and
    o: "out = reset_index
          (let processed = (if cfg_bool merged ''drop_duplicates'' True
                            then drop_duplicates nulled else nulled)
           in if cfg_bool merged ''sort_rows'' True
              then (if columns processed \<noteq> [] then sort_values processed else processed)
              else processed)"
    unfolding s1 [symmetric]
    by (auto simp: apply_deterministic_preprocessing_def Let_def bind_err_eq_Inr split: if_splits)
  from normalize_unwanted_values_stage [OF p2] obtain unwanted where
    u: "json_iter (cfg_get merged ''unwanted_values'' default_unwanted_values) = Inr unwanted" and
    s2: "p2 = map_text_cells
            (\<lambda>c. if py_lower (py_strip (cell_str L ObjectT c)) \<in>
                     (\<lambda>item. py_lower (py_strip (py_str L item))) ` set unwanted
                  then Null else c) ?s1"
    by blast
  let ?s3 = "step_if (cfg_bool merged ''cleanup_text'' True)
            (map_text_cells
               (\<lambda>c. if c = Null then Null
                     else Text (cleanup_text_with_config L (cell_str L ObjectT c) merged))) p2"
  let ?s4 = "step_if (cfg_bool merged ''coerce_numeric_columns'' True) (spec_coerce_numeric L) ?s3"
  let ?strategy = "(let s = py_lower (py_strip (py_str L (cfg_get merged ''null_strategy'' (JStr ''drop_any''))))
        in if s = [] \<or> cfg_bool merged ''drop_nulls'' True \<and> s = ''keep'' then ''drop_any'' else s)"
  have n': "apply_null_strategy L ?s4 merged = Inr nulled"
    using n [unfolded cleanup_loop coerce_step, unfolded cleanup_cell_eq] .
  note st = null_strategy_stage [OF n' refl]
  let ?s6 = "step_if (cfg_bool merged ''drop_duplicates'' True) spec_drop_duplicates nulled"
  let ?s7 = "step_if (cfg_bool merged ''sort_rows'' True \<and> columns ?s6 \<noteq> []) sort_values ?s6"
  have o': "out = ?s7\<lparr>rows := zip [0..<length (rows ?s7)] (map snd (rows ?s7))\<rparr>"
    unfolding o by (simp add: step_if_def drop_duplicates_refines Let_def reset_index_def)
  have rk: "\<forall>ir. row_key ir = map cell_key (snd ir)"
    by (simp add: row_key_def)
  show ?thesis
    apply (rule exI [of _ merged], rule exI [of _ unwanted], rule exI [of _ ?strategy],
        rule exI [of _ ?s1], rule exI [of _ p2], rule exI [of _ ?s3], rule exI [of _ ?s4],
        rule exI [of _ nulled], rule exI [of _ ?s6], rule exI [of _ ?s7])
    using mc u s2 st o' rk sort_values_props nulls_last
    apply (intro conjI)
                     apply blast+
    done
qed

text \<open>A table with a sentinel, a punctuation mark and a missing value, under the default
  configuration: stage 2 turns the sentinel into a null, stage 3 makes the two spellings of
  Bob the same, stage 5 drops the two rows with a null, and the stages after it leave one
  row for Bob behind the row for Amy.\<close>

theorem pipeline_stage_order_witness:
  "apply_deterministic_preprocessing test_lib test_dirty (JObj get_default_preprocess_config)
     = Inr test_processed \<and>
   (\<exists>(s2 :: dataframe) (s4 :: dataframe) (s5 :: dataframe).
      rows s2 = [(0, [Text ''Bob'', Num 1]), (1, [Null, Num 0]), (2, [Text ''bob!'', Num 1]),
                 (3, [Text ''Amy'', Num 0]), (4, [Null, Num 1])] \<and>
      rows s4 = [(0, [Text ''bob'', Num 1]), (1, [Null, Num 0]), (2, [Text ''bob'', Num 1]),
                 (3, [Text ''amy'', Num 0]), (4, [Null, Num 1])] \<and>
      s5 = s4\<lparr>rows := filter (\<lambda>ir. Null \<notin> set (snd ir)) (rows s4)\<rparr> \<and>
      rows s5 = [(0, [Text ''bob'', Num 1]), (2, [Text ''bob'', Num 1]), (3, [Text ''amy'', Num 0])])"
proof -
  have run: "apply_deterministic_preprocessing test_lib test_dirty (JObj get_default_preprocess_config)
     = Inr test_processed"
    by code_simp
  from pipeline_stage_order [OF run] obtain merged unwanted strategy s1 s2 s3 s4 s5 where
    m: "merged = dict_of get_default_preprocess_config ++
                (case JObj get_default_preprocess_config of JObj kvs \<Rightarrow> dict_of kvs | _ \<Rightarrow> Map.empty)" and
    s1: "s1 = test_dirty\<lparr>columns := map (\<lambda>(c, t). (py_lower (py_strip c), t)) (columns test_dirty)\<rparr>" and
    u: "json_iter (cfg_get merged ''unwanted_values'' default_unwanted_values) = Inr unwanted" and
    s2: "s2 = map_text_cells
            (\<lambda>c. if py_lower (py_strip (cell_str test_lib ObjectT c)) \<in>
                     (\<lambda>item. py_lower (py_strip (py_str test_lib item))) ` set unwanted
                  then Null else c) s1" and
    s3: "s3 = step_if (cfg_bool merged ''cleanup_text'' True)
            (map_text_cells
               (\<lambda>c. if c = Null then Null
                     else Text (cleanup_text_with_config test_lib (cell_str test_lib ObjectT c) merged))) s2" and
    s4: "s4 = step_if (cfg_bool merged ''coerce_numeric_columns'' True) (spec_coerce_numeric test_lib) s3" and
    st: "strategy =
       (let s = py_lower (py_strip (py_str test_lib (cfg_get merged ''null_strategy'' (JStr ''drop_any''))))
        in if s = [] \<or> cfg_bool merged ''drop_nulls'' True \<and> s = ''keep'' then ''drop_any'' else s)" and
    any: "strategy = ''drop_any'' \<longrightarrow> s5 = s4\<lparr>rows := filter (\<lambda>ir. Null \<notin> set (snd ir)) (rows s4)\<rparr>"
    by blast
  have merged: "merged = dict_of get_default_preprocess_config ++ dict_of get_default_preprocess_config"
    using m by simp
  have "json_iter (cfg_get (dict_of get_default_preprocess_config ++ dict_of get_default_preprocess_config)
          ''unwanted_values'' default_unwanted_values) =
        Inr [JStr [], JStr ''na'', JStr ''n/a'', JStr ''null'', JStr ''none'', JStr ''-'', JStr ''?'']"
    by code_simp
  with u have unwanted: "unwanted =
      [JStr [], JStr ''na'', JStr ''n/a'', JStr ''null'', JStr ''none'', JStr ''-'', JStr ''?'']"
    unfolding merged by simp
  have e2: "s2 = \<lparr>columns = [(''name'', ObjectT), (''label'', NumberT ''int64'')],
      rows = [(0, [Text ''Bob'', Num 1]), (1, [Null, Num 0]), (2, [Text ''bob!'', Num 1]),
              (3, [Text ''Amy'', Num 0]), (4, [Null, Num 1])]\<rparr>"
    unfolding s2 s1 unwanted by code_simp
  have e3: "s3 = \<lparr>columns = [(''name'', ObjectT), (''label'', NumberT ''int64'')],
      rows = [(0, [Text ''bob'', Num 1]), (1, [Null, Num 0]), (2, [Text ''bob'', Num 1]),
              (3, [Text ''amy'', Num 0]), (4, [Null, Num 1])]\<rparr>"
    unfolding s3 e2 merged by code_simp
  have e4: "s4 = \<lparr>columns = [(''name'', ObjectT), (''label'', NumberT ''int64'')],
      rows = [(0, [Text ''bob'', Num 1]), (1, [Null, Num 0]), (2, [Text ''bob'', Num 1]),
              (3, [Text ''amy'', Num 0]), (4, [Null, Num 1])]\<rparr>"
    unfolding s4 e3 merged by code_simp
  have "strategy = ''drop_any''"
    unfolding st merged by code_simp
  with any have e5: "s5 = s4\<lparr>rows := filter (\<lambda>ir. Null \<notin> set (snd ir)) (rows s4)\<rparr>"
    by blast
  then have r5: "rows s5 = [(0, [Text ''bob'', Num 1]), (2, [Text ''bob'', Num 1]), (3, [Text ''amy'', Num 0])]"
    by (simp add: e4)
  have r2: "rows s2 = [(0, [Text ''Bob'', Num 1]), (1, [Null, Num 0]), (2, [Text ''bob!'', Num 1]),
                 (3, [Text ''Amy'', Num 0]), (4, [Null, Num 1])]"
    by (simp add: e2)
  have r4: "rows s4 = [(0, [Text ''bob'', Num 1]), (1, [Null, Num 0]), (2, [Text ''bob'', Num 1]),
                 (3, [Text ''amy'', Num 0]), (4, [Null, Num 1])]"
    by (simp add: e4)
  have "\<exists>(s2 :: dataframe) (s4 :: dataframe) (s5 :: dataframe).
      rows s2 = [(0, [Text ''Bob'', Num 1]), (1, [Null, Num 0]), (2, [Text ''bob!'', Num 1]),
                 (3, [Text ''Amy'', Num 0]), (4, [Null, Num 1])] \<and>
      rows s4 = [(0, [Text ''bob'', Num 1]), (1, [Null, Num 0]), (2, [Text ''bob'', Num 1]),
                 (3, [Text ''amy'', Num 0]), (4, [Null, Num 1])] \<and>
      s5 = s4\<lparr>rows := filter (\<lambda>ir. Null \<notin> set (snd ir)) (rows s4)\<rparr> \<and>
      rows s5 = [(0, [Text ''bob'', Num 1]), (2, [Text ''bob'', Num 1]), (3, [Text ''amy'', Num 0])]"
    using r2 r4 e5 r5 by blast
  with run show ?thesis by (rule conjI)
qed

text \<open>The claim as worded says that every configuration runs all eight stages. With
  \<^verbatim>\<open>sort_rows\<close> cleared the rows of the example stay in their order of arrival, which is not
  sorted; with \<^verbatim>\<open>drop_duplicates\<close> cleared the repeated row stays.\<close>

theorem pipeline_gating_counterexample:
  "apply_deterministic_preprocessing test_lib test_raw (JObj [(''sort_rows'', JBool False)])
     = Inr test_unsorted \<and>
   \<not> sorted (map row_key (rows test_unsorted)) \<and>
   apply_deterministic_preprocessing test_lib test_raw (JObj [(''drop_duplicates'', JBool False)])
     = Inr test_with_duplicate \<and>
   \<not> distinct (map snd (rows test_with_duplicate))"
proof -
  have "apply_deterministic_preprocessing test_lib test_raw (JObj [(''sort_rows'', JBool False)])
     = Inr test_unsorted"
    by code_simp
  moreover have "\<not> sorted (map row_key (rows test_unsorted))"
    by code_simp
  moreover have "apply_deterministic_preprocessing test_lib test_raw
      (JObj [(''drop_duplicates'', JBool False)]) = Inr test_with_duplicate"
    by code_simp
  moreover have "\<not> distinct (map snd (rows test_with_duplicate))"
    by code_simp
  ultimately show ?thesis by blast
qed

end
